theory Spec2Isabelle
  imports Complex_Main "HOL-Library.Multiset"
begin

section \<open>Conventions of the embedding\<close>

text \<open>
  The maritime situation-awareness core is embedded function by function.

  \<^item> A Python \<open>float\<close> is a \<open>real\<close>. In the weighted means of \<open>sensor_fusion.py\<close> (of
    positions, of scalar values and of angles), whose results the specification gives
    exactly, every operation is rounded to the nearest double; elsewhere the embedding is
    about the arithmetic the code writes down, not about IEEE rounding.
  \<^item> A \<open>datetime\<close> is a \<open>real\<close> number of seconds; every \<open>datetime.now()\<close> of one call
    is the argument \<open>now\<close> of the embedded function.
  \<^item> Identifiers built as \<open>prefix + uuid4().hex[:8]\<close> are their prefix; the random suffix
    is left out.
  \<^item> Rendered text (description, recommended action, title, message) is left out of the
    records: it is formatted from the other fields and nothing reads it back.
  \<^item> A raised exception is a value of \<open>py_error\<close> on the left of a sum.
\<close>

section \<open>Python values and library functions\<close>

datatype py_error = TypeError | ZeroDivisionError | IndexError

datatype pyval =
    PNone
  | PNum real
  | PStr string
  | PList "pyval list"
  | PDict "(string \<times> pyval) list"

text \<open>Truthiness of a value, as \<open>if v:\<close> tests it.\<close>

fun truthy :: "pyval \<Rightarrow> bool" where
  "truthy PNone = False"
| "truthy (PNum x) = (x \<noteq> 0)"
| "truthy (PStr s) = (s \<noteq> [])"
| "truthy (PList xs) = (xs \<noteq> [])"
| "truthy (PDict d) = (d \<noteq> [])"

text \<open>\<open>math.radians\<close>, \<open>math.degrees\<close>, \<open>math.atan2\<close> and the float \<open>%\<close> with a positive
  modulus (the result takes the sign of the modulus).\<close>

definition radians :: "real \<Rightarrow> real" where
  "radians d = d * pi / 180"

definition degrees :: "real \<Rightarrow> real" where
  "degrees r = r * 180 / pi"

definition atan2 :: "real \<Rightarrow> real \<Rightarrow> real" where
  "atan2 y x =
     (if 0 < x then arctan (y / x)
      else if x < 0 then (if 0 \<le> y then arctan (y / x) + pi else arctan (y / x) - pi)
      else if 0 < y then pi / 2
      else if y < 0 then - (pi / 2)
      else 0)"

definition py_mod :: "real \<Rightarrow> real \<Rightarrow> real" where
  "py_mod a m = a - m * of_int \<lfloor>a / m\<rfloor>"

text \<open>
  Binary64 arithmetic, for the weighted means of the sensor fusion. A finite double is a
  real number, and \<open>fl x\<close> is the double nearest to \<open>x\<close>, a tie going to the even
  significand: the rounding of every IEEE 754 operation. \<open>float_exponent x\<close> is the binary
  exponent of \<open>x\<close>, at least \<open>-1022\<close> (below \<open>2\<^sup>-\<^sup>1\<^sup>0\<^sup>2\<^sup>2\<close> the doubles are subnormal and keep
  the spacing \<open>2\<^sup>-\<^sup>1\<^sup>0\<^sup>7\<^sup>4\<close>), and \<open>ulp_of x\<close> is the spacing of the doubles around \<open>x\<close>.
  Overflow to infinity (magnitudes from \<open>2\<^sup>1\<^sup>0\<^sup>2\<^sup>4\<close> on) and NaN are outside the model, and
  the two zeros are one number.
\<close>

definition rne :: "real \<Rightarrow> int" where
  "rne z =
     (let f = \<lfloor>z\<rfloor>; r = z - of_int f
      in if r < 1 / 2 then f else if 1 / 2 < r then f + 1 else if even f then f else f + 1)"

definition float_exponent :: "real \<Rightarrow> int" where
  "float_exponent x = (if x = 0 then - 1022 else max \<lfloor>log 2 \<bar>x\<bar>\<rfloor> (- 1022))"

definition ulp_of :: "real \<Rightarrow> real" where
  "ulp_of x = 2 powi (float_exponent x - 52)"

definition fl :: "real \<Rightarrow> real" where
  "fl x = ulp_of x * of_int (rne (x / ulp_of x))"

text \<open>\<open>sum(...)\<close> over floats: the start value is the integer 0, so the first item is taken
  as it is, and every further addition is rounded. (CPython from 3.12 on carries a
  correction term along; for at most two items the result is the same.)\<close>

fun float_sum :: "real list \<Rightarrow> real" where
  "float_sum [] = 0"
| "float_sum (x # xs) = foldl (\<lambda>s y. fl (s + y)) x xs"

text \<open>\<open>math.pi\<close> is the double nearest to \<open>pi\<close>; \<open>math.radians(x)\<close> is \<open>x * (pi / 180.0)\<close> and
  \<open>math.degrees(x)\<close> is \<open>x * (180.0 / pi)\<close> (the constants \<open>degToRad\<close> and \<open>radToDeg\<close> of
  \<open>mathmodule.c\<close>). \<open>math.sin\<close>, \<open>math.cos\<close> and \<open>math.atan2\<close> are the C library's, taken as
  correctly rounded. The sums of the fusion start from 0, so no argument of \<open>atan2\<close> is a
  negative zero.\<close>

definition pi_d :: real where
  "pi_d = fl pi"

definition deg_to_rad :: real where
  "deg_to_rad = fl (pi_d / 180)"

definition rad_to_deg :: real where
  "rad_to_deg = fl (180 / pi_d)"

definition float_radians :: "real \<Rightarrow> real" where
  "float_radians x = fl (x * deg_to_rad)"

definition float_degrees :: "real \<Rightarrow> real" where
  "float_degrees x = fl (x * rad_to_deg)"

definition float_sin :: "real \<Rightarrow> real" where
  "float_sin x = fl (sin x)"

definition float_cos :: "real \<Rightarrow> real" where
  "float_cos x = fl (cos x)"

definition float_atan2 :: "real \<Rightarrow> real \<Rightarrow> real" where
  "float_atan2 y x = fl (atan2 y x)"

text \<open>The float \<open>%\<close> with a modulus other than zero (\<open>float_rem\<close> of \<open>floatobject.c\<close>): the C
  \<open>fmod\<close>, which is exact and has the sign of the dividend, and, when the remainder is not
  zero and its sign differs from the modulus's, the modulus added to it, rounded.\<close>

definition fmod :: "real \<Rightarrow> real \<Rightarrow> real" where
  "fmod a m = a - m * of_int (if 0 \<le> a / m then \<lfloor>a / m\<rfloor> else \<lceil>a / m\<rceil>)"

definition float_rem :: "real \<Rightarrow> real \<Rightarrow> real" where
  "float_rem a m =
     (let r = fmod a m
      in if r \<noteq> 0 \<and> (m < 0) \<noteq> (r < 0) then fl (r + m) else r)"

text \<open>\<open>str(n)\<close> of a natural number, for the synthesized target identifiers.\<close>

definition digit_char :: "nat \<Rightarrow> char" where
  "digit_char d = char_of (48 + d)"

function str_of_nat :: "nat \<Rightarrow> string" where
  "str_of_nat n =
     (if n < 10 then [digit_char n] else str_of_nat (n div 10) @ [digit_char (n mod 10)])"
  by pat_completeness auto
termination
  by (relation "measure id") auto

text \<open>\<open>sub in s\<close> on strings: \<open>sub\<close> occurs in \<open>s\<close> as a contiguous substring.\<close>

fun starts_with :: "string \<Rightarrow> string \<Rightarrow> bool" where
  "starts_with [] s = True"
| "starts_with (c # cs) [] = False"
| "starts_with (c # cs) (d # ds) = (c = d \<and> starts_with cs ds)"

fun str_contains :: "string \<Rightarrow> string \<Rightarrow> bool" where
  "str_contains sub [] = (sub = [])"
| "str_contains sub (c # cs) = (starts_with sub (c # cs) \<or> str_contains sub cs)"

text \<open>A dictionary whose key order matters is an association list. \<open>dict_set\<close> is
  \<open>d[k] = v\<close>: an existing key keeps its place, a new key goes to the end.\<close>

fun dict_set :: "('k \<times> 'v) list \<Rightarrow> 'k \<Rightarrow> 'v \<Rightarrow> ('k \<times> 'v) list" where
  "dict_set [] k v = [(k, v)]"
| "dict_set ((k', v') # d) k v = (if k' = k then (k, v) # d else (k', v') # dict_set d k v)"

section \<open>Data model (models/data\_models.py)\<close>

datatype AlertLevel = INFO | WARNING | CRITICAL | EMERGENCY

datatype AnomalyType =
    TRAJECTORY_DEVIATION
  | SPEED_ANOMALY
  | SENSOR_MISMATCH
  | COLLISION_RISK
  | SUDDEN_MANEUVER
  | SENSOR_DEGRADATION
  | DATA_QUALITY_ISSUE

text \<open>\<open>AnomalyType.value\<close>.\<close>

fun AnomalyType_value :: "AnomalyType \<Rightarrow> string" where
  "AnomalyType_value TRAJECTORY_DEVIATION = ''trajectory_deviation''"
| "AnomalyType_value SPEED_ANOMALY = ''speed_anomaly''"
| "AnomalyType_value SENSOR_MISMATCH = ''sensor_mismatch''"
| "AnomalyType_value COLLISION_RISK = ''collision_risk''"
| "AnomalyType_value SUDDEN_MANEUVER = ''sudden_maneuver''"
| "AnomalyType_value SENSOR_DEGRADATION = ''sensor_degradation''"
| "AnomalyType_value DATA_QUALITY_ISSUE = ''data_quality_issue''"

datatype SpoofingType = GPS_SPOOFING | AIS_SPOOFING | MULTI_SENSOR_SPOOFING

fun SpoofingType_value :: "SpoofingType \<Rightarrow> string" where
  "SpoofingType_value GPS_SPOOFING = ''gps_spoofing''"
| "SpoofingType_value AIS_SPOOFING = ''ais_spoofing''"
| "SpoofingType_value MULTI_SENSOR_SPOOFING = ''multi_sensor_spoofing''"

record Position =
  latitude :: real
  longitude :: real
  altitude :: "real option"

record VesselState =
  vs_position :: Position
  vs_speed :: real
  vs_course :: real
  vs_heading :: real
  rate_of_turn :: real
  vs_timestamp :: real

record Target =
  target_id :: string
  tg_position :: Position
  tg_speed :: real
  tg_course :: real
  cpa :: real
  tcpa :: real
  distance :: real
  vessel_type :: "string option"
  name :: "string option"

record Environment =
  env_weather :: pyval
  env_tide :: pyval
  env_current :: pyval
  env_visibility :: string

record FusedData =
  vessel_state :: VesselState
  targets :: "Target list"
  environment :: Environment
  quality_scores :: "(string \<times> real) list"
  fusion_confidence :: real
  fd_timestamp :: real

record Anomaly =
  anomaly_id :: string
  anomaly_type :: AnomalyType
  severity :: real
  an_affected_sensors :: "string list"
  an_detected_at :: real
  location :: "Position option"
  an_metadata :: "(string \<times> pyval) list"

record SpoofingAlert =
  sp_alert_id :: string
  spoofing_type :: SpoofingType
  confidence :: real
  sp_affected_sensors :: "string list"
  evidence :: "(string \<times> pyval) list"
  sp_detected_at :: real

record Uncertainty =
  parameter :: string
  mean_value :: real
  std_deviation :: real
  confidence_interval :: "real \<times> real"
  reliability :: real

record Alert =
  alert_id :: string
  level :: AlertLevel
  al_timestamp :: real
  source :: string
  al_metadata :: "(string \<times> pyval) list"
  acknowledged :: bool

text \<open>\<open>Anomaly.to_alert_level\<close> and \<open>SpoofingAlert.to_alert_level\<close>.\<close>

definition anomaly_to_alert_level :: "Anomaly \<Rightarrow> AlertLevel" where
  "anomaly_to_alert_level a =
     (if severity a \<ge> 8 / 10 then CRITICAL
      else if severity a \<ge> 5 / 10 then WARNING
      else INFO)"

definition spoofing_to_alert_level :: "SpoofingAlert \<Rightarrow> AlertLevel" where
  "spoofing_to_alert_level s =
     (if confidence s \<ge> 7 / 10 then EMERGENCY
      else if confidence s \<ge> 5 / 10 then CRITICAL
      else WARNING)"

text \<open>\<open>Position.to_dict\<close>, as the alert metadata stores a location.\<close>

definition Position_to_dict :: "Position \<Rightarrow> pyval" where
  "Position_to_dict p =
     PDict [(''latitude'', PNum (latitude p)), (''longitude'', PNum (longitude p)),
            (''altitude'', (case altitude p of None \<Rightarrow> PNone | Some h \<Rightarrow> PNum h))]"

section \<open>The raw sensor snapshot\<close>

text \<open>
  The snapshot is a \<open>Dict[str, Any]\<close>. The readings of gps, ais and radar are typed by
  the fields the code reads: a field is \<open>Some\<close> when its key is in the mapping, and the
  remaining keys of the mapping are kept in the \<open>extra\<close> list. Every other sensor (weather,
  engine, tide, current, ...) is an arbitrary value. A key of the snapshot is \<open>Missing\<close>,
  bound to \<open>None\<close>, or bound to a reading. As in any dictionary, the keys of \<open>sd_others\<close>
  are distinct, and none of them is gps, ais or radar.

  The gps timestamp is the ISO string together with what \<open>datetime.fromisoformat\<close> followed
  by the subtraction from the current time yields for it: the time in seconds, or \<open>None\<close>
  when that raises.
\<close>

datatype 'a sensor = Missing | IsNone | Reading 'a

record gps_reading =
  gps_latitude :: "real option"
  gps_longitude :: "real option"
  gps_speed :: "real option"
  gps_course :: "real option"
  gps_timestamp :: "(string \<times> real option) option"
  gps_extra :: "(string \<times> pyval) list"

record target_reading =
  tr_mmsi :: "string option"
  tr_latitude :: "real option"
  tr_longitude :: "real option"
  tr_speed :: "real option"
  tr_course :: "real option"
  tr_cpa :: "real option"
  tr_tcpa :: "real option"
  tr_distance :: "real option"
  tr_vessel_type :: "string option"
  tr_name :: "string option"

record ais_reading =
  ais_mmsi :: "string option"
  ais_latitude :: "real option"
  ais_longitude :: "real option"
  ais_speed :: "real option"
  ais_course :: "real option"
  ais_heading :: "real option"
  ais_rot :: "real option"
  ais_targets :: "target_reading list option"
  ais_extra :: "(string \<times> pyval) list"

record own_ship_reading =
  own_latitude :: "real option"
  own_longitude :: "real option"
  own_extra :: "(string \<times> pyval) list"

record radar_reading =
  radar_own_ship :: "own_ship_reading option"
  radar_targets :: "target_reading list option"
  radar_extra :: "(string \<times> pyval) list"

record SensorData =
  sd_gps :: "gps_reading sensor"
  sd_ais :: "ais_reading sensor"
  sd_radar :: "radar_reading sensor"
  sd_others :: "(string \<times> pyval) list"

text \<open>The items of a reading, as \<open>len\<close>, truthiness and \<open>isinstance(data, dict)\<close> see them.\<close>

definition num_item :: "string \<Rightarrow> real option \<Rightarrow> (string \<times> pyval) list" where
  "num_item k v = (case v of None \<Rightarrow> [] | Some x \<Rightarrow> [(k, PNum x)])"

definition str_item :: "string \<Rightarrow> string option \<Rightarrow> (string \<times> pyval) list" where
  "str_item k v = (case v of None \<Rightarrow> [] | Some x \<Rightarrow> [(k, PStr x)])"

definition target_items :: "target_reading \<Rightarrow> (string \<times> pyval) list" where
  "target_items t =
     str_item ''mmsi'' (tr_mmsi t) @ num_item ''latitude'' (tr_latitude t) @
     num_item ''longitude'' (tr_longitude t) @ num_item ''speed'' (tr_speed t) @
     num_item ''course'' (tr_course t) @ num_item ''cpa'' (tr_cpa t) @
     num_item ''tcpa'' (tr_tcpa t) @ num_item ''distance'' (tr_distance t) @
     str_item ''vessel_type'' (tr_vessel_type t) @ str_item ''name'' (tr_name t)"

definition targets_item :: "target_reading list option \<Rightarrow> (string \<times> pyval) list" where
  "targets_item v =
     (case v of None \<Rightarrow> []
      | Some ts \<Rightarrow> [(''targets'', PList (map (\<lambda>t. PDict (target_items t)) ts))])"

definition gps_items :: "gps_reading \<Rightarrow> (string \<times> pyval) list" where
  "gps_items g =
     num_item ''latitude'' (gps_latitude g) @ num_item ''longitude'' (gps_longitude g) @
     num_item ''speed'' (gps_speed g) @ num_item ''course'' (gps_course g) @
     str_item ''timestamp'' (map_option fst (gps_timestamp g)) @ gps_extra g"

definition ais_items :: "ais_reading \<Rightarrow> (string \<times> pyval) list" where
  "ais_items a =
     str_item ''mmsi'' (ais_mmsi a) @ num_item ''latitude'' (ais_latitude a) @
     num_item ''longitude'' (ais_longitude a) @ num_item ''speed'' (ais_speed a) @
     num_item ''course'' (ais_course a) @ num_item ''heading'' (ais_heading a) @
     num_item ''rot'' (ais_rot a) @ targets_item (ais_targets a) @ ais_extra a"

definition own_ship_items :: "own_ship_reading \<Rightarrow> (string \<times> pyval) list" where
  "own_ship_items own =
     num_item ''latitude'' (own_latitude own) @ num_item ''longitude'' (own_longitude own) @
     own_extra own"

definition radar_items :: "radar_reading \<Rightarrow> (string \<times> pyval) list" where
  "radar_items r =
     (case radar_own_ship r of None \<Rightarrow> []
      | Some own \<Rightarrow> [(''own_ship'', PDict (own_ship_items own))]) @
     targets_item (radar_targets r) @ radar_extra r"

definition sensor_item ::
  "string \<Rightarrow> ('a \<Rightarrow> (string \<times> pyval) list) \<Rightarrow> 'a sensor \<Rightarrow> (string \<times> pyval) list" where
  "sensor_item k items v =
     (case v of Missing \<Rightarrow> [] | IsNone \<Rightarrow> [(k, PNone)] | Reading r \<Rightarrow> [(k, PDict (items r))])"

text \<open>The snapshot as the key/value pairs \<open>for sensor_key in sensor_data\<close> iterates over.\<close>

definition sensor_data_items :: "SensorData \<Rightarrow> (string \<times> pyval) list" where
  "sensor_data_items sd =
     sensor_item ''gps'' gps_items (sd_gps sd) @ sensor_item ''ais'' ais_items (sd_ais sd) @
     sensor_item ''radar'' radar_items (sd_radar sd) @ sd_others sd"

text \<open>\<open>'gps' in sensor_data and sensor_data['gps']\<close>: the key is there and its value is a
  non-empty mapping. Likewise for ais and radar.\<close>

definition present :: "('a \<Rightarrow> (string \<times> pyval) list) \<Rightarrow> 'a sensor \<Rightarrow> 'a option" where
  "present items v =
     (case v of Reading r \<Rightarrow> (if items r \<noteq> [] then Some r else None) | _ \<Rightarrow> None)"

definition gps_present :: "SensorData \<Rightarrow> gps_reading option" where
  "gps_present sd = present gps_items (sd_gps sd)"

definition ais_present :: "SensorData \<Rightarrow> ais_reading option" where
  "ais_present sd = present ais_items (sd_ais sd)"

definition radar_present :: "SensorData \<Rightarrow> radar_reading option" where
  "radar_present sd = present radar_items (sd_radar sd)"

text \<open>\<open>k in sensor_data and sensor_data[k]\<close> for one of the other sensors.\<close>

definition other_present :: "SensorData \<Rightarrow> string \<Rightarrow> pyval option" where
  "other_present sd k =
     (case map_of (sd_others sd) k of
        Some v \<Rightarrow> (if truthy v then Some v else None)
      | None \<Rightarrow> None)"

text \<open>The empty snapshot \<open>{}\<close>.\<close>

definition empty_snapshot :: SensorData where
  "empty_snapshot = \<lparr>sd_gps = Missing, sd_ais = Missing, sd_radar = Missing, sd_others = []\<rparr>"

text \<open>\<open>_haversine_distance\<close> (the three modules define the same function).\<close>

definition haversine_distance :: "real \<Rightarrow> real \<Rightarrow> real \<Rightarrow> real \<Rightarrow> real" where
  "haversine_distance lat1 lon1 lat2 lon2 =
     (let R = 6371000;
          phi1 = radians lat1;
          phi2 = radians lat2;
          dphi = radians (lat2 - lat1);
          dlambda = radians (lon2 - lon1);
          a = (sin (dphi / 2))\<^sup>2 + cos phi1 * cos phi2 * (sin (dlambda / 2))\<^sup>2;
          c = 2 * atan2 (sqrt a) (sqrt (1 - a))
      in R * c)"

section \<open>Sensor fusion: weighted means (sensor\_fusion.py)\<close>

text \<open>\<open>_weighted_position_fusion\<close>: an empty list gives \<open>(0, 0)\<close>; a total weight of zero
  raises on the division. Every product, sum and quotient is rounded to a double.\<close>

definition weighted_position_fusion ::
  "(real \<times> real \<times> real) list \<Rightarrow> py_error + (real \<times> real)" where
  "weighted_position_fusion positions =
     (if positions = [] then Inr (0, 0)
      else
        let total_weight = float_sum (map (\<lambda>(lat, lon, w). w) positions) in
        if total_weight = 0 then Inl ZeroDivisionError
        else Inr (fl (float_sum (map (\<lambda>(lat, lon, w). fl (lat * w)) positions) / total_weight),
                  fl (float_sum (map (\<lambda>(lat, lon, w). fl (lon * w)) positions) / total_weight)))"

text \<open>\<open>_weighted_value_fusion\<close>, rounded in the same way.\<close>

definition weighted_value_fusion :: "(real \<times> real) list \<Rightarrow> real \<Rightarrow> py_error + real" where
  "weighted_value_fusion vals dflt =
     (if vals = [] then Inr dflt
      else
        let total_weight = float_sum (map (\<lambda>(v, w). w) vals) in
        if total_weight = 0 then Inl ZeroDivisionError
        else Inr (fl (float_sum (map (\<lambda>(v, w). fl (v * w)) vals) / total_weight)))"

text \<open>\<open>_weighted_angle_fusion\<close>: the circular weighted mean, in double arithmetic.\<close>

definition weighted_angle_fusion :: "(real \<times> real) list \<Rightarrow> real \<Rightarrow> real" where
  "weighted_angle_fusion angles dflt =
     (if angles = [] then dflt
      else
        let sin_sum = float_sum (map (\<lambda>(a, w). fl (float_sin (float_radians a) * w)) angles);
            cos_sum = float_sum (map (\<lambda>(a, w). fl (float_cos (float_radians a) * w)) angles);
            angle = float_degrees (float_atan2 sin_sum cos_sum)
        in float_rem angle 360)"

section \<open>Sensor fusion engine (sensor\_fusion.py)\<close>

text \<open>The engine's state is the position history \<open>(lat, lon, time)\<close>; the weight table
  and \<open>max_history\<close> are the constants of \<open>__init__\<close>.\<close>

record SensorFusionEngine =
  sf_position_history :: "(real \<times> real \<times> real) list"

definition SensorFusionEngine_init :: SensorFusionEngine where
  "SensorFusionEngine_init = \<lparr>sf_position_history = []\<rparr>"

definition sensor_weights :: "(string \<times> real) list" where
  "sensor_weights =
     [(''gps'', 95 / 100), (''ais'', 85 / 100), (''radar'', 80 / 100), (''chart'', 90 / 100),
      (''weather'', 75 / 100), (''engine'', 85 / 100), (''camera'', 70 / 100),
      (''tide'', 80 / 100), (''current'', 75 / 100)]"

text \<open>\<open>self.sensor_weights.get(sensor, d)\<close>; for a key of the table this is also
  \<open>self.sensor_weights[sensor]\<close>, whatever \<open>d\<close>.\<close>

definition sensor_weights_get :: "string \<Rightarrow> real \<Rightarrow> real" where
  "sensor_weights_get k d = (case map_of sensor_weights k of Some w \<Rightarrow> w | None \<Rightarrow> d)"

definition sf_max_history :: nat where
  "sf_max_history = 50"

definition is_position_outlier :: "SensorFusionEngine \<Rightarrow> real \<Rightarrow> real \<Rightarrow> real \<Rightarrow> bool" where
  "is_position_outlier eng now lat lon =
     (if sf_position_history eng = [] then False
      else
        let (last_lat, last_lon, last_time) = last (sf_position_history eng);
            dist_m = haversine_distance lat lon last_lat last_lon;
            time_diff = now - last_time
        in if time_diff > 0 then dist_m > (257 / 10 * time_diff) * 2 else False)"

definition is_speed_outlier :: "real \<Rightarrow> bool" where
  "is_speed_outlier v = (v < 0 \<or> v > 50)"

definition update_position_history ::
  "SensorFusionEngine \<Rightarrow> real \<Rightarrow> real \<Rightarrow> real \<Rightarrow> SensorFusionEngine" where
  "update_position_history eng now lat lon =
     (let h = sf_position_history eng @ [(lat, lon, now)]
      in eng\<lparr>sf_position_history := (if length h > sf_max_history then tl h else h)\<rparr>)"

text \<open>The candidates one sensor contributes in \<open>_fuse_vessel_state\<close>.\<close>

definition position_candidate ::
  "SensorFusionEngine \<Rightarrow> real \<Rightarrow> real option \<Rightarrow> real option \<Rightarrow> real
     \<Rightarrow> (real \<times> real \<times> real) list" where
  "position_candidate eng now lat lon weight =
     (case (lat, lon) of
        (Some la, Some lo) \<Rightarrow>
          (if \<not> is_position_outlier eng now la lo then [(la, lo, weight)] else [])
      | _ \<Rightarrow> [])"

definition speed_candidate :: "real option \<Rightarrow> real \<Rightarrow> (real \<times> real) list" where
  "speed_candidate v weight =
     (case v of Some x \<Rightarrow> (if \<not> is_speed_outlier x then [(x, weight)] else []) | None \<Rightarrow> [])"

definition value_candidate :: "real option \<Rightarrow> real \<Rightarrow> (real \<times> real) list" where
  "value_candidate v weight = (case v of Some x \<Rightarrow> [(x, weight)] | None \<Rightarrow> [])"

text \<open>\<open>_fuse_vessel_state\<close>: gps, then ais, then the radar's own-ship position at
  \<open>0.8\<close> of the radar weight.\<close>

definition fuse_vessel_state ::
  "SensorFusionEngine \<Rightarrow> real \<Rightarrow> SensorData \<Rightarrow> py_error + (VesselState \<times> SensorFusionEngine)" where
  "fuse_vessel_state eng now sd =
     (let w_gps = sensor_weights_get ''gps'' 0;
          w_ais = sensor_weights_get ''ais'' 0;
          w_own = sensor_weights_get ''radar'' 0 * (8 / 10);
          positions =
            (case gps_present sd of None \<Rightarrow> []
             | Some g \<Rightarrow> position_candidate eng now (gps_latitude g) (gps_longitude g) w_gps) @
            (case ais_present sd of None \<Rightarrow> []
             | Some a \<Rightarrow> position_candidate eng now (ais_latitude a) (ais_longitude a) w_ais) @
            (case radar_present sd of None \<Rightarrow> []
             | Some r \<Rightarrow>
                 (case radar_own_ship r of None \<Rightarrow> []
                  | Some own \<Rightarrow>
                      position_candidate eng now (own_latitude own) (own_longitude own) w_own));
          speeds =
            (case gps_present sd of None \<Rightarrow> [] | Some g \<Rightarrow> speed_candidate (gps_speed g) w_gps) @
            (case ais_present sd of None \<Rightarrow> [] | Some a \<Rightarrow> speed_candidate (ais_speed a) w_ais);
          courses =
            (case gps_present sd of None \<Rightarrow> [] | Some g \<Rightarrow> value_candidate (gps_course g) w_gps) @
            (case ais_present sd of None \<Rightarrow> [] | Some a \<Rightarrow> value_candidate (ais_course a) w_ais);
          headings =
            (case ais_present sd of None \<Rightarrow> [] | Some a \<Rightarrow> value_candidate (ais_heading a) w_ais);
          rots =
            (case ais_present sd of None \<Rightarrow> [] | Some a \<Rightarrow> value_candidate (ais_rot a) w_ais)
      in
        case weighted_position_fusion positions of
          Inl e \<Rightarrow> Inl e
        | Inr (fused_lat, fused_lon) \<Rightarrow>
            (case weighted_value_fusion speeds 0 of
               Inl e \<Rightarrow> Inl e
             | Inr fused_speed \<Rightarrow>
                 (let fused_course = weighted_angle_fusion courses 0;
                      fused_heading = weighted_angle_fusion headings fused_course
                  in case weighted_value_fusion rots 0 of
                       Inl e \<Rightarrow> Inl e
                     | Inr fused_rot \<Rightarrow>
                         Inr (\<lparr>vs_position =
                                 \<lparr>latitude = fused_lat, longitude = fused_lon, altitude = None\<rparr>,
                               vs_speed = fused_speed,
                               vs_course = fused_course,
                               vs_heading = fused_heading,
                               rate_of_turn = fused_rot,
                               vs_timestamp = now\<rparr>,
                              update_position_history eng now fused_lat fused_lon))))"

text \<open>\<open>_fuse_targets\<close> keeps a dictionary from target identifier to this entry.\<close>

record target_info =
  ti_source :: string
  ti_data :: target_reading
  ti_weight :: real
  ti_radar_data :: "target_reading option"

text \<open>\<open>_correlate_target\<close>: the first AIS entry within 500 m of the radar target.\<close>

fun correlate_scan :: "real \<Rightarrow> real \<Rightarrow> (string \<times> target_info) list \<Rightarrow> string option" where
  "correlate_scan radar_lat radar_lon [] = None"
| "correlate_scan radar_lat radar_lon ((tid, info) # rest) =
     (if ti_source info \<noteq> ''ais'' then correlate_scan radar_lat radar_lon rest
      else
        case (tr_latitude (ti_data info), tr_longitude (ti_data info)) of
          (Some ais_lat, Some ais_lon) \<Rightarrow>
            (if haversine_distance radar_lat radar_lon ais_lat ais_lon < 500 then Some tid
             else correlate_scan radar_lat radar_lon rest)
        | _ \<Rightarrow> correlate_scan radar_lat radar_lon rest)"

definition correlate_target ::
  "target_reading \<Rightarrow> (string \<times> target_info) list \<Rightarrow> string option" where
  "correlate_target radar_target existing_targets =
     (case (tr_latitude radar_target, tr_longitude radar_target) of
        (Some radar_lat, Some radar_lon) \<Rightarrow> correlate_scan radar_lat radar_lon existing_targets
      | _ \<Rightarrow> None)"

text \<open>One step of the loop over the AIS targets. The list \<open>targets\<close> is still empty while
  the loop runs, so the fallback identifier is \<open>ais_0\<close>.\<close>

definition add_ais_target ::
  "(string \<times> target_info) list \<Rightarrow> target_reading \<Rightarrow> (string \<times> target_info) list" where
  "add_ais_target target_dict ais_target =
     dict_set target_dict
       (case tr_mmsi ais_target of Some m \<Rightarrow> m | None \<Rightarrow> ''ais_'' @ str_of_nat 0)
       \<lparr>ti_source = ''ais'', ti_data = ais_target,
        ti_weight = sensor_weights_get ''ais'' 0, ti_radar_data = None\<rparr>"

text \<open>One step of the loop over the radar targets: \<open>if target_id:\<close> is false for \<open>None\<close>
  and for the empty string.\<close>

definition add_radar_target ::
  "(string \<times> target_info) list \<Rightarrow> target_reading \<Rightarrow> (string \<times> target_info) list" where
  "add_radar_target target_dict radar_target =
     (let new_entry =
            dict_set target_dict (''radar_'' @ str_of_nat (length target_dict))
              \<lparr>ti_source = ''radar'', ti_data = radar_target,
               ti_weight = sensor_weights_get ''radar'' 0, ti_radar_data = None\<rparr>
      in case correlate_target radar_target target_dict of
           None \<Rightarrow> new_entry
         | Some tid \<Rightarrow>
             (if tid = [] then new_entry
              else case map_of target_dict tid of
                     None \<Rightarrow> new_entry \<comment> \<open>not reached: \<open>tid\<close> is a key of \<open>target_dict\<close>\<close>
                   | Some info \<Rightarrow>
                       dict_set target_dict tid (info\<lparr>ti_radar_data := Some radar_target\<rparr>)))"

definition make_target :: "string \<times> target_info \<Rightarrow> Target" where
  "make_target entry =
     (let d = ti_data (snd entry) in
      \<lparr>target_id = fst entry,
       tg_position =
         \<lparr>latitude = (case tr_latitude d of Some x \<Rightarrow> x | None \<Rightarrow> 0),
          longitude = (case tr_longitude d of Some x \<Rightarrow> x | None \<Rightarrow> 0),
          altitude = None\<rparr>,
       tg_speed = (case tr_speed d of Some x \<Rightarrow> x | None \<Rightarrow> 0),
       tg_course = (case tr_course d of Some x \<Rightarrow> x | None \<Rightarrow> 0),
       cpa = (case tr_cpa d of Some x \<Rightarrow> x | None \<Rightarrow> 9999 / 10),
       tcpa = (case tr_tcpa d of Some x \<Rightarrow> x | None \<Rightarrow> 9999 / 10),
       distance = (case tr_distance d of Some x \<Rightarrow> x | None \<Rightarrow> 9999 / 10),
       vessel_type = tr_vessel_type d,
       name = tr_name d\<rparr>)"

text \<open>\<open>'ais' in sensor_data and 'targets' in sensor_data['ais']\<close>: a key bound to \<open>None\<close>
  makes the membership test raise.\<close>

definition targets_of ::
  "'a sensor \<Rightarrow> ('a \<Rightarrow> target_reading list option) \<Rightarrow> py_error + target_reading list" where
  "targets_of v get =
     (case v of
        Missing \<Rightarrow> Inr []
      | IsNone \<Rightarrow> Inl TypeError
      | Reading r \<Rightarrow> (case get r of None \<Rightarrow> Inr [] | Some ts \<Rightarrow> Inr ts))"

definition fuse_targets :: "SensorData \<Rightarrow> py_error + Target list" where
  "fuse_targets sd =
     (case targets_of (sd_ais sd) ais_targets of
        Inl e \<Rightarrow> Inl e
      | Inr ais_ts \<Rightarrow>
          (let d1 = foldl add_ais_target [] ais_ts in
           case targets_of (sd_radar sd) radar_targets of
             Inl e \<Rightarrow> Inl e
           | Inr radar_ts \<Rightarrow> Inr (map make_target (foldl add_radar_target d1 radar_ts))))"

text \<open>\<open>_fuse_environment\<close>.\<close>

definition fuse_environment :: "SensorData \<Rightarrow> Environment" where
  "fuse_environment sd =
     \<lparr>env_weather = (case other_present sd ''weather'' of Some v \<Rightarrow> v | None \<Rightarrow> PDict []),
      env_tide = (case other_present sd ''tide'' of Some v \<Rightarrow> v | None \<Rightarrow> PDict []),
      env_current = (case other_present sd ''current'' of Some v \<Rightarrow> v | None \<Rightarrow> PDict []),
      env_visibility = ''good''\<rparr>"

text \<open>\<open>_calculate_quality_scores\<close>: a value that is \<open>None\<close> gets no score, a mapping gets
  \<open>min(1.0, len(data) / 10.0)\<close>, any other value gets \<open>0.5\<close>.\<close>

fun quality_of :: "pyval \<Rightarrow> real option" where
  "quality_of PNone = None"
| "quality_of (PDict d) = Some (min 1 (real (length d) / 10))"
| "quality_of (PNum x) = Some (5 / 10)"
| "quality_of (PStr x) = Some (5 / 10)"
| "quality_of (PList x) = Some (5 / 10)"

definition quality_step ::
  "(string \<times> real) list \<Rightarrow> string \<times> pyval \<Rightarrow> (string \<times> real) list" where
  "quality_step scores item =
     (case quality_of (snd item) of
        None \<Rightarrow> scores
      | Some quality \<Rightarrow> dict_set scores (fst item) quality)"

definition calculate_quality_scores :: "SensorData \<Rightarrow> (string \<times> real) list" where
  "calculate_quality_scores sd = foldl quality_step [] (sensor_data_items sd)"

text \<open>\<open>_calculate_fusion_confidence\<close>.\<close>

definition calculate_fusion_confidence :: "(string \<times> real) list \<Rightarrow> real" where
  "calculate_fusion_confidence scores =
     (if scores = [] then 0
      else
        let weighted_sum = (\<Sum>(sensor, quality)\<leftarrow>scores. quality * sensor_weights_get sensor (5 / 10));
            total_weight = (\<Sum>(sensor, quality)\<leftarrow>scores. sensor_weights_get sensor (5 / 10))
        in if total_weight = 0 then 0 else weighted_sum / total_weight)"

text \<open>\<open>fuse\<close>. The vessel state is fused first, so the position history is already
  updated when \<open>_fuse_targets\<close> raises.\<close>

definition fuse ::
  "SensorFusionEngine \<Rightarrow> real \<Rightarrow> SensorData \<Rightarrow> (py_error + FusedData) \<times> SensorFusionEngine" where
  "fuse eng now sd =
     (case fuse_vessel_state eng now sd of
        Inl e \<Rightarrow> (Inl e, eng)
      | Inr (state, eng') \<Rightarrow>
          (case fuse_targets sd of
             Inl e \<Rightarrow> (Inl e, eng')
           | Inr tgts \<Rightarrow>
               (let scores = calculate_quality_scores sd in
                (Inr \<lparr>vessel_state = state,
                      targets = tgts,
                      environment = fuse_environment sd,
                      quality_scores = scores,
                      fusion_confidence = calculate_fusion_confidence scores,
                      fd_timestamp = now\<rparr>,
                 eng'))))"

section \<open>Anomaly detector (anomaly\_detector.py)\<close>

text \<open>The detector's state is its three rolling histories. The thresholds of
  \<open>__init__\<close> that the checks read are constants.\<close>

record AnomalyDetector =
  speed_history :: "real list"
  course_history :: "real list"
  ad_position_history :: "(real \<times> real \<times> real) list"

definition AnomalyDetector_init :: AnomalyDetector where
  "AnomalyDetector_init =
     \<lparr>speed_history = [], course_history = [], ad_position_history = []\<rparr>"

definition ad_max_history :: nat where
  "ad_max_history = 30"

definition th_speed_deviation :: real where
  "th_speed_deviation = 5"

definition th_collision_risk_distance :: real where
  "th_collision_risk_distance = 2"

definition th_collision_risk_tcpa :: real where
  "th_collision_risk_tcpa = 10"

definition th_sudden_maneuver_rot :: real where
  "th_sudden_maneuver_rot = 15"

text \<open>\<open>append\<close> followed by \<open>if len(h) > max: h.pop(0)\<close>.\<close>

definition push_bounded :: "nat \<Rightarrow> 'a list \<Rightarrow> 'a \<Rightarrow> 'a list" where
  "push_bounded cap h x = (let h' = h @ [x] in if length h' > cap then tl h' else h')"

text \<open>\<open>_update_history\<close>.\<close>

definition update_history :: "AnomalyDetector \<Rightarrow> real \<Rightarrow> VesselState \<Rightarrow> AnomalyDetector" where
  "update_history det now vs =
     \<lparr>speed_history = push_bounded ad_max_history (speed_history det) (vs_speed vs),
      course_history = push_bounded ad_max_history (course_history det) (vs_course vs),
      ad_position_history =
        push_bounded ad_max_history (ad_position_history det)
          (latitude (vs_position vs), longitude (vs_position vs), now)\<rparr>"

text \<open>\<open>_predict_position\<close>: \<open>position_history[-1]\<close> raises on an empty history.\<close>

definition predict_position :: "AnomalyDetector \<Rightarrow> py_error + (real \<times> real)" where
  "predict_position det =
     (case rev (ad_position_history det) of
        [] \<Rightarrow> Inl IndexError
      | [(lat, lon, t)] \<Rightarrow> Inr (lat, lon)
      | (lat2, lon2, t2) # (lat1, lon1, t1) # older \<Rightarrow>
          (let time_diff = t2 - t1 in
           if time_diff = 0 then Inr (lat2, lon2)
           else
             let dlat = lat2 - lat1;
                 dlon = lon2 - lon1
             in Inr (lat2 + (dlat / time_diff) * 30, lon2 + (dlon / time_diff) * 30)))"

text \<open>\<open>_detect_trajectory_deviation\<close>.\<close>

definition detect_trajectory_deviation ::
  "AnomalyDetector \<Rightarrow> real \<Rightarrow> VesselState \<Rightarrow> py_error + Anomaly list" where
  "detect_trajectory_deviation det now vs =
     (if length (ad_position_history det) < 3 then Inr []
      else
        case predict_position det of
          Inl e \<Rightarrow> Inl e
        | Inr (expected_lat, expected_lon) \<Rightarrow>
            (let deviation =
                   haversine_distance expected_lat expected_lon
                     (latitude (vs_position vs)) (longitude (vs_position vs))
             in if deviation > 500
                then Inr [\<lparr>anomaly_id = ''traj_dev_'',
                           anomaly_type = TRAJECTORY_DEVIATION,
                           severity = min 1 (deviation / 2000),
                           an_affected_sensors = [''gps'', ''ais''],
                           an_detected_at = now,
                           location = Some (vs_position vs),
                           an_metadata = [(''deviation_meters'', PNum deviation)]\<rparr>]
                else Inr []))"

text \<open>\<open>_detect_speed_anomaly\<close>.\<close>

definition detect_speed_anomaly :: "AnomalyDetector \<Rightarrow> real \<Rightarrow> VesselState \<Rightarrow> Anomaly list" where
  "detect_speed_anomaly det now vs =
     (if length (speed_history det) < 2 then []
      else
        let current_speed = vs_speed vs;
            avg_speed = sum_list (speed_history det) / real (length (speed_history det));
            speed_deviation = \<bar>current_speed - avg_speed\<bar>
        in if speed_deviation > th_speed_deviation
           then [\<lparr>anomaly_id = ''speed_anom_'',
                  anomaly_type = SPEED_ANOMALY,
                  severity = min 1 (speed_deviation / 20),
                  an_affected_sensors = [''gps'', ''engine''],
                  an_detected_at = now,
                  location = Some (vs_position vs),
                  an_metadata = [(''current_speed'', PNum current_speed),
                                 (''average_speed'', PNum avg_speed),
                                 (''deviation'', PNum speed_deviation)]\<rparr>]
           else [])"

text \<open>\<open>_detect_sensor_mismatch\<close>: with both keys in the snapshot, \<open>k in gps\<close> raises when
  gps is \<open>None\<close>, and \<open>k in ais\<close> raises when gps has both coordinates and ais is \<open>None\<close>.\<close>

definition detect_sensor_mismatch :: "real \<Rightarrow> SensorData \<Rightarrow> py_error + Anomaly list" where
  "detect_sensor_mismatch now sd =
     (case (sd_gps sd, sd_ais sd) of
        (Missing, _) \<Rightarrow> Inr []
      | (_, Missing) \<Rightarrow> Inr []
      | (IsNone, _) \<Rightarrow> Inl TypeError
      | (Reading g, a) \<Rightarrow>
          (case (gps_latitude g, gps_longitude g) of
             (Some gps_lat, Some gps_lon) \<Rightarrow>
               (case a of
                  Reading ar \<Rightarrow>
                    (case (ais_latitude ar, ais_longitude ar) of
                       (Some ais_lat, Some ais_lon) \<Rightarrow>
                         (let dist_m = haversine_distance gps_lat gps_lon ais_lat ais_lon in
                          if dist_m > 200
                          then Inr [\<lparr>anomaly_id = ''sensor_mismatch_'',
                                     anomaly_type = SENSOR_MISMATCH,
                                     severity = min 1 (dist_m / 1000),
                                     an_affected_sensors = [''gps'', ''ais''],
                                     an_detected_at = now,
                                     location =
                                       Some \<lparr>latitude = gps_lat, longitude = gps_lon,
                                             altitude = None\<rparr>,
                                     an_metadata = [(''distance_meters'', PNum dist_m)]\<rparr>]
                          else Inr [])
                     | _ \<Rightarrow> Inr [])
                | _ \<Rightarrow> Inl TypeError)
           | _ \<Rightarrow> Inr []))"

text \<open>\<open>_detect_collision_risk\<close>: the body of the loop over the targets.\<close>

definition collision_anomaly :: "real \<Rightarrow> Target \<Rightarrow> Anomaly list" where
  "collision_anomaly now target =
     (if cpa target < th_collision_risk_distance \<and> tcpa target < th_collision_risk_tcpa \<and>
         tcpa target > 0
      then
        let cpa_factor = 1 - cpa target / th_collision_risk_distance;
            tcpa_factor = 1 - tcpa target / th_collision_risk_tcpa
        in [\<lparr>anomaly_id = ''collision_'',
              anomaly_type = COLLISION_RISK,
              severity = (cpa_factor + tcpa_factor) / 2,
              an_affected_sensors = [''ais'', ''radar''],
              an_detected_at = now,
              location = Some (tg_position target),
              an_metadata = [(''target_id'', PStr (target_id target)),
                             (''cpa'', PNum (cpa target)),
                             (''tcpa'', PNum (tcpa target)),
                             (''distance'', PNum (distance target))]\<rparr>]
      else [])"

definition detect_collision_risk :: "real \<Rightarrow> Target list \<Rightarrow> Anomaly list" where
  "detect_collision_risk now tgts = concat (map (collision_anomaly now) tgts)"

text \<open>\<open>_detect_sudden_maneuver\<close>.\<close>

definition detect_sudden_maneuver :: "real \<Rightarrow> VesselState \<Rightarrow> Anomaly list" where
  "detect_sudden_maneuver now vs =
     (if \<bar>rate_of_turn vs\<bar> > th_sudden_maneuver_rot
      then [\<lparr>anomaly_id = ''maneuver_'',
             anomaly_type = SUDDEN_MANEUVER,
             severity = min 1 (\<bar>rate_of_turn vs\<bar> / 30),
             an_affected_sensors = [''ais'', ''gps''],
             an_detected_at = now,
             location = Some (vs_position vs),
             an_metadata = [(''rate_of_turn'', PNum (rate_of_turn vs))]\<rparr>]
      else [])"

text \<open>\<open>_detect_sensor_degradation\<close>: one anomaly for each of gps, ais, radar that is not in
  the snapshot or is falsy there.\<close>

definition degradation_anomaly :: "real \<Rightarrow> string \<Rightarrow> Anomaly" where
  "degradation_anomaly now sensor =
     \<lparr>anomaly_id = ''sensor_deg_'',
      anomaly_type = SENSOR_DEGRADATION,
      severity = 8 / 10,
      an_affected_sensors = [sensor],
      an_detected_at = now,
      location = None,
      an_metadata = [(''sensor'', PStr sensor)]\<rparr>"

definition detect_sensor_degradation :: "real \<Rightarrow> SensorData \<Rightarrow> Anomaly list" where
  "detect_sensor_degradation now sd =
     (if gps_present sd = None then [degradation_anomaly now ''gps''] else []) @
     (if ais_present sd = None then [degradation_anomaly now ''ais''] else []) @
     (if radar_present sd = None then [degradation_anomaly now ''radar''] else [])"

text \<open>\<open>AnomalyDetector.detect\<close>: the histories are updated before any check runs, so they
  stay updated when a check raises.\<close>

definition anomaly_detect ::
  "AnomalyDetector \<Rightarrow> real \<Rightarrow> FusedData \<Rightarrow> SensorData
     \<Rightarrow> (py_error + Anomaly list) \<times> AnomalyDetector" where
  "anomaly_detect det now fused sd =
     (let det' = update_history det now (vessel_state fused) in
      (case detect_trajectory_deviation det' now (vessel_state fused) of
         Inl e \<Rightarrow> Inl e
       | Inr trajectory_anomalies \<Rightarrow>
           (let speed_anomalies = detect_speed_anomaly det' now (vessel_state fused) in
            case detect_sensor_mismatch now sd of
              Inl e \<Rightarrow> Inl e
            | Inr mismatch_anomalies \<Rightarrow>
                Inr (trajectory_anomalies @ speed_anomalies @ mismatch_anomalies @
                     detect_collision_risk now (targets fused) @
                     detect_sudden_maneuver now (vessel_state fused) @
                     detect_sensor_degradation now sd)),
       det'))"

section \<open>Spoofing detector (spoofing\_detector.py)\<close>

text \<open>The detector remembers the previous gps and ais positions, the time of the last
  gps update and the incident log.\<close>

record Incident =
  inc_timestamp :: real
  alert_count :: nat
  alert_types :: "string list"
  max_confidence :: real

record SpoofingDetector =
  previous_gps_position :: "(real \<times> real) option"
  previous_ais_position :: "(real \<times> real) option"
  last_update_time :: "real option"
  spoofing_incidents :: "Incident list"

definition SpoofingDetector_init :: SpoofingDetector where
  "SpoofingDetector_init =
     \<lparr>previous_gps_position = None, previous_ais_position = None,
      last_update_time = None, spoofing_incidents = []\<rparr>"

definition th_position_jump :: real where
  "th_position_jump = 1000"

definition th_speed_impossibility :: real where
  "th_speed_impossibility = 60"

definition th_multi_sensor_mismatch :: real where
  "th_multi_sensor_mismatch = 500"

definition th_time_inconsistency :: real where
  "th_time_inconsistency = 60"

definition position_dict :: "real \<Rightarrow> real \<Rightarrow> pyval" where
  "position_dict lat lon = PDict [(''lat'', PNum lat), (''lon'', PNum lon)]"

text \<open>The two alerts of \<open>_detect_gps_spoofing\<close>.\<close>

definition gps_jump_alert ::
  "real \<Rightarrow> real \<Rightarrow> real \<Rightarrow> real \<Rightarrow> (real \<times> real) \<Rightarrow> (real \<times> real) \<Rightarrow> SpoofingAlert" where
  "gps_jump_alert now dist_m time_diff implied_speed prev cur =
     \<lparr>sp_alert_id = ''gps_spoof_'',
      spoofing_type = GPS_SPOOFING,
      confidence = min 1 (dist_m / 5000),
      sp_affected_sensors = [''gps''],
      evidence = [(''distance_jumped'', PNum dist_m),
                  (''time_elapsed'', PNum time_diff),
                  (''implied_speed'', PNum implied_speed),
                  (''previous_position'', position_dict (fst prev) (snd prev)),
                  (''current_position'', position_dict (fst cur) (snd cur))],
      sp_detected_at = now\<rparr>"

definition gps_speed_alert :: "real \<Rightarrow> real \<Rightarrow> real \<Rightarrow> real \<Rightarrow> SpoofingAlert" where
  "gps_speed_alert now dist_m time_diff implied_speed =
     \<lparr>sp_alert_id = ''gps_speed_'',
      spoofing_type = GPS_SPOOFING,
      confidence = min 1 (implied_speed / 100),
      sp_affected_sensors = [''gps''],
      evidence = [(''implied_speed'', PNum implied_speed),
                  (''distance'', PNum dist_m),
                  (''time_elapsed'', PNum time_diff)],
      sp_detected_at = now\<rparr>"

text \<open>\<open>_detect_gps_spoofing\<close>: the jump check and the speed check are the two branches
  of one \<open>if\<close>/\<open>elif\<close>; the trackers are updated whenever the reading has both
  coordinates.\<close>

definition detect_gps_spoofing ::
  "SpoofingDetector \<Rightarrow> real \<Rightarrow> SensorData \<Rightarrow> SpoofingAlert list \<times> SpoofingDetector" where
  "detect_gps_spoofing det now sd =
     (case gps_present sd of
        None \<Rightarrow> ([], det)
      | Some gps \<Rightarrow>
          (case (gps_latitude gps, gps_longitude gps) of
             (Some current_lat, Some current_lon) \<Rightarrow>
               (let alerts =
                      (case (previous_gps_position det, last_update_time det) of
                         (Some (prev_lat, prev_lon), Some last_time) \<Rightarrow>
                           (let dist_m = haversine_distance prev_lat prev_lon current_lat current_lon;
                                time_diff = now - last_time
                            in if time_diff > 0
                               then
                                 let implied_speed = (dist_m / time_diff) * (194384 / 100000) in
                                 if dist_m > th_position_jump \<and> time_diff < 10
                                 then [gps_jump_alert now dist_m time_diff implied_speed
                                         (prev_lat, prev_lon) (current_lat, current_lon)]
                                 else if implied_speed > th_speed_impossibility
                                 then [gps_speed_alert now dist_m time_diff implied_speed]
                                 else []
                               else [])
                       | _ \<Rightarrow> [])
                in (alerts,
                    det\<lparr>previous_gps_position := Some (current_lat, current_lon),
                        last_update_time := Some now\<rparr>))
           | _ \<Rightarrow> ([], det)))"

text \<open>\<open>_detect_ais_spoofing\<close>: the speed check and the jump check are independent.\<close>

definition opt_num :: "real option \<Rightarrow> pyval" where
  "opt_num v = (case v of None \<Rightarrow> PNone | Some x \<Rightarrow> PNum x)"

definition opt_str :: "string option \<Rightarrow> pyval" where
  "opt_str v = (case v of None \<Rightarrow> PNone | Some x \<Rightarrow> PStr x)"

definition ais_speed_alert :: "real \<Rightarrow> ais_reading \<Rightarrow> real \<Rightarrow> SpoofingAlert" where
  "ais_speed_alert now ais v =
     \<lparr>sp_alert_id = ''ais_spoof_'',
      spoofing_type = AIS_SPOOFING,
      confidence = min 1 (v / 100),
      sp_affected_sensors = [''ais''],
      evidence = [(''reported_speed'', PNum v),
                  (''reported_course'', opt_num (ais_course ais)),
                  (''mmsi'', opt_str (ais_mmsi ais))],
      sp_detected_at = now\<rparr>"

definition ais_jump_alert ::
  "real \<Rightarrow> real \<Rightarrow> (real \<times> real) \<Rightarrow> (real \<times> real) \<Rightarrow> SpoofingAlert" where
  "ais_jump_alert now dist_m prev cur =
     \<lparr>sp_alert_id = ''ais_jump_'',
      spoofing_type = AIS_SPOOFING,
      confidence = min 1 (dist_m / 5000),
      sp_affected_sensors = [''ais''],
      evidence = [(''distance_jumped'', PNum dist_m),
                  (''previous_position'', position_dict (fst prev) (snd prev)),
                  (''current_position'', position_dict (fst cur) (snd cur))],
      sp_detected_at = now\<rparr>"

definition detect_ais_spoofing ::
  "SpoofingDetector \<Rightarrow> real \<Rightarrow> SensorData \<Rightarrow> SpoofingAlert list \<times> SpoofingDetector" where
  "detect_ais_spoofing det now sd =
     (case ais_present sd of
        None \<Rightarrow> ([], det)
      | Some ais \<Rightarrow>
          (let speed_alerts =
                 (case ais_speed ais of
                    Some v \<Rightarrow> (if v > th_speed_impossibility then [ais_speed_alert now ais v] else [])
                  | None \<Rightarrow> [])
           in case (ais_latitude ais, ais_longitude ais) of
                (Some current_lat, Some current_lon) \<Rightarrow>
                  (let jump_alerts =
                         (case previous_ais_position det of
                            Some (prev_lat, prev_lon) \<Rightarrow>
                              (let dist_m =
                                     haversine_distance prev_lat prev_lon current_lat current_lon
                               in if dist_m > th_position_jump
                                  then [ais_jump_alert now dist_m (prev_lat, prev_lon)
                                          (current_lat, current_lon)]
                                  else [])
                          | None \<Rightarrow> [])
                   in (speed_alerts @ jump_alerts,
                       det\<lparr>previous_ais_position := Some (current_lat, current_lon)\<rparr>))
              | _ \<Rightarrow> (speed_alerts, det)))"

text \<open>The positions \<open>_detect_multi_sensor_spoofing\<close> collects, in insertion order.\<close>

definition coordinates :: "real option \<Rightarrow> real option \<Rightarrow> string \<Rightarrow> (string \<times> real \<times> real) list" where
  "coordinates lat lon k =
     (case (lat, lon) of (Some la, Some lo) \<Rightarrow> [(k, la, lo)] | _ \<Rightarrow> [])"

definition sensor_positions :: "SensorData \<Rightarrow> (string \<times> real \<times> real) list" where
  "sensor_positions sd =
     (case gps_present sd of None \<Rightarrow> []
      | Some g \<Rightarrow> coordinates (gps_latitude g) (gps_longitude g) ''gps'') @
     (case ais_present sd of None \<Rightarrow> []
      | Some a \<Rightarrow> coordinates (ais_latitude a) (ais_longitude a) ''ais'') @
     (case radar_present sd of None \<Rightarrow> []
      | Some r \<Rightarrow>
          (case radar_own_ship r of None \<Rightarrow> []
           | Some own \<Rightarrow> coordinates (own_latitude own) (own_longitude own) ''radar''))"

text \<open>The pairs \<open>(sensors[i], sensors[j])\<close> with \<open>i < j\<close>, in the order of the nested loops.\<close>

fun pairs :: "'a list \<Rightarrow> ('a \<times> 'a) list" where
  "pairs [] = []"
| "pairs (x # xs) = map (Pair x) xs @ pairs xs"

definition pair_distance :: "(string \<times> real \<times> real) \<times> (string \<times> real \<times> real) \<Rightarrow> real" where
  "pair_distance pr =
     (case pr of ((s1, lat1, lon1), (s2, lat2, lon2)) \<Rightarrow> haversine_distance lat1 lon1 lat2 lon2)"

text \<open>\<open>_identify_spoofed_sensor\<close>: \<open>max(scores, key=scores.get)\<close> is the first key with the
  largest score.\<close>

definition add_score :: "(string \<times> real) list \<Rightarrow> string \<Rightarrow> real \<Rightarrow> (string \<times> real) list" where
  "add_score scores k d = map (\<lambda>(k', v). if k' = k then (k', v + d) else (k', v)) scores"

definition score_step ::
  "(string \<times> real) list \<Rightarrow> (string \<times> real \<times> real) \<times> (string \<times> real \<times> real)
     \<Rightarrow> (string \<times> real) list" where
  "score_step scores pr =
     (let d = pair_distance pr in
      if d > 500 then add_score (add_score scores (fst (fst pr)) d) (fst (snd pr)) d
      else scores)"

fun max_key :: "(string \<times> real) list \<Rightarrow> (string \<times> real) option \<Rightarrow> (string \<times> real) option" where
  "max_key [] best = best"
| "max_key ((k, v) # rest) None = max_key rest (Some (k, v))"
| "max_key ((k, v) # rest) (Some (bk, bv)) =
     max_key rest (if v > bv then Some (k, v) else Some (bk, bv))"

definition identify_spoofed_sensor :: "(string \<times> real \<times> real) list \<Rightarrow> string" where
  "identify_spoofed_sensor positions =
     (if length positions < 3 then ''GPS''
      else
        let outlier_scores =
              foldl score_step (map (\<lambda>(k, lat, lon). (k, 0)) positions) (pairs positions)
        in case max_key outlier_scores None of
             Some (k, v) \<Rightarrow> k
           | None \<Rightarrow> ''unknown'')"

definition mismatch_pair :: "(string \<times> real \<times> real) \<times> (string \<times> real \<times> real) \<Rightarrow> pyval" where
  "mismatch_pair pr =
     PDict [(''sensors'', PList [PStr (fst (fst pr)), PStr (fst (snd pr))]),
            (''distance'', PNum (pair_distance pr))]"

text \<open>\<open>_detect_multi_sensor_spoofing\<close>.\<close>

definition detect_multi_sensor_spoofing :: "real \<Rightarrow> SensorData \<Rightarrow> SpoofingAlert list" where
  "detect_multi_sensor_spoofing now sd =
     (let positions = sensor_positions sd in
      if length positions \<ge> 2
      then
        let max_mismatch = foldl (\<lambda>m pr. if pair_distance pr > m then pair_distance pr else m)
                             0 (pairs positions);
            mismatch_pairs =
              filter (\<lambda>pr. pair_distance pr > th_multi_sensor_mismatch) (pairs positions)
        in if mismatch_pairs \<noteq> []
           then
             let affected = identify_spoofed_sensor positions in
             [\<lparr>sp_alert_id = ''multi_spoof_'',
               spoofing_type = MULTI_SENSOR_SPOOFING,
               confidence = min 1 (max_mismatch / 2000),
               sp_affected_sensors = map fst positions,
               evidence = [(''max_mismatch'', PNum max_mismatch),
                           (''mismatch_pairs'', PList (map mismatch_pair mismatch_pairs)),
                           (''positions'',
                            PDict (map (\<lambda>(k, lat, lon). (k, position_dict lat lon)) positions)),
                           (''likely_spoofed'', PStr affected)],
               sp_detected_at = now\<rparr>]
           else []
      else [])"

text \<open>\<open>_detect_time_manipulation\<close>: a timestamp that does not parse is logged and gives
  no alert. The evidence keeps the current time for its ISO rendering.\<close>

definition detect_time_manipulation :: "real \<Rightarrow> SensorData \<Rightarrow> SpoofingAlert list" where
  "detect_time_manipulation now sd =
     (case gps_present sd of
        None \<Rightarrow> []
      | Some gps \<Rightarrow>
          (case gps_timestamp gps of
             None \<Rightarrow> []
           | Some (iso_string, None) \<Rightarrow> []
           | Some (iso_string, Some gps_time) \<Rightarrow>
               (let time_diff = \<bar>now - gps_time\<bar> in
                if time_diff > th_time_inconsistency
                then [\<lparr>sp_alert_id = ''time_spoof_'',
                       spoofing_type = GPS_SPOOFING,
                       confidence = min 1 (time_diff / 300),
                       sp_affected_sensors = [''gps''],
                       evidence = [(''gps_time'', PStr iso_string),
                                   (''system_time'', PNum now),
                                   (''difference_seconds'', PNum time_diff)],
                       sp_detected_at = now\<rparr>]
                else [])))"

text \<open>\<open>_log_spoofing_incident\<close>, called with a non-empty alert list only.\<close>

definition spoofing_max_history :: nat where
  "spoofing_max_history = 100"

definition make_incident :: "real \<Rightarrow> SpoofingAlert list \<Rightarrow> Incident" where
  "make_incident now alerts =
     \<lparr>inc_timestamp = now,
      alert_count = length alerts,
      alert_types = map (\<lambda>a. SpoofingType_value (spoofing_type a)) alerts,
      max_confidence =
        (case map confidence alerts of
           c # cs \<Rightarrow> foldl max c cs
         | [] \<Rightarrow> 0) \<comment> \<open>not reached: \<open>detect\<close> logs a non-empty list only\<close>
     \<rparr>"

definition log_spoofing_incident ::
  "SpoofingDetector \<Rightarrow> real \<Rightarrow> SpoofingAlert list \<Rightarrow> SpoofingDetector" where
  "log_spoofing_incident det now alerts =
     det\<lparr>spoofing_incidents :=
           push_bounded spoofing_max_history (spoofing_incidents det)
             (make_incident now alerts)\<rparr>"

text \<open>\<open>SpoofingDetector.detect\<close>.\<close>

definition spoofing_detect ::
  "SpoofingDetector \<Rightarrow> real \<Rightarrow> SensorData \<Rightarrow> FusedData
     \<Rightarrow> SpoofingAlert list \<times> SpoofingDetector" where
  "spoofing_detect det now sd fused =
     (let (gps_alerts, det1) = detect_gps_spoofing det now sd;
          (ais_alerts, det2) = detect_ais_spoofing det1 now sd;
          multi_alerts = detect_multi_sensor_spoofing now sd;
          time_alerts = detect_time_manipulation now sd;
          alerts = gps_alerts @ ais_alerts @ multi_alerts @ time_alerts
      in if alerts \<noteq> [] then (alerts, log_spoofing_incident det2 now alerts)
         else (alerts, det2))"

section \<open>Uncertainty modeler (uncertainty\_modeler.py)\<close>

text \<open>The modeler's attributes: the table \<open>sensor_uncertainties\<close> of standard deviations
  and the z-score of the confidence interval.\<close>

record UncertaintyModeler =
  su_gps_position :: real
  su_gps_speed :: real
  su_gps_course :: real
  su_ais_position :: real
  su_ais_speed :: real
  su_ais_course :: real
  su_radar_position :: real
  su_radar_bearing :: real
  su_radar_range :: real
  su_weather_wind_speed :: real
  su_weather_wind_direction :: real
  su_tide_height :: real
  su_current_speed :: real
  su_current_direction :: real
  confidence_level :: real
  z_score :: real

definition UncertaintyModeler_init :: UncertaintyModeler where
  "UncertaintyModeler_init =
     \<lparr>su_gps_position = 5, su_gps_speed = 1 / 10, su_gps_course = 2,
      su_ais_position = 10, su_ais_speed = 5 / 10, su_ais_course = 5,
      su_radar_position = 50, su_radar_bearing = 1, su_radar_range = 20,
      su_weather_wind_speed = 2, su_weather_wind_direction = 10,
      su_tide_height = 1 / 10,
      su_current_speed = 5 / 10, su_current_direction = 15,
      confidence_level = 95 / 100, z_score = 196 / 100\<rparr>"

text \<open>\<open>math.sqrt(1.0 / sum(1.0 / (sigma**2) for sigma in ...))\<close>: the division by
  \<open>sigma**2\<close> raises for a zero standard deviation.\<close>

definition pooled_std :: "real list \<Rightarrow> py_error + real" where
  "pooled_std sigmas =
     (if 0 \<in> set sigmas then Inl ZeroDivisionError
      else Inr (sqrt (1 / (\<Sum>sigma\<leftarrow>sigmas. 1 / sigma\<^sup>2))))"

text \<open>\<open>_calculate_position_uncertainty\<close>.\<close>

definition position_measurements :: "UncertaintyModeler \<Rightarrow> SensorData \<Rightarrow> (string \<times> real) list" where
  "position_measurements m sd =
     (if gps_present sd \<noteq> None then [(''gps'', su_gps_position m)] else []) @
     (if ais_present sd \<noteq> None then [(''ais'', su_ais_position m)] else []) @
     (if radar_present sd \<noteq> None then [(''radar'', su_radar_position m)] else [])"

definition calculate_position_uncertainty ::
  "UncertaintyModeler \<Rightarrow> FusedData \<Rightarrow> SensorData \<Rightarrow> py_error + Uncertainty" where
  "calculate_position_uncertainty m fused sd =
     (let measurements = position_measurements m sd;
          std =
            (if measurements = [] then Inr 100
             else if length measurements = 1 then Inr (snd (measurements ! 0))
             else pooled_std (map snd measurements))
      in case std of
           Inl e \<Rightarrow> Inl e
         | Inr std_dev \<Rightarrow>
             (let ci_range = z_score m * std_dev in
              Inr \<lparr>parameter = ''position'',
                   mean_value = 0,
                   std_deviation = std_dev,
                   confidence_interval = (- ci_range, ci_range),
                   reliability = min 1 (real (length measurements) / 3) * (9 / 10)\<rparr>))"

text \<open>\<open>_calculate_speed_uncertainty\<close> and \<open>_calculate_course_uncertainty\<close> share the
  pooling of the gps and ais standard deviations.\<close>

definition pooled_with_reliability ::
  "real list \<Rightarrow> real \<Rightarrow> py_error + (real \<times> real)" where
  "pooled_with_reliability measurements no_sensor_std =
     (if measurements = [] then Inr (no_sensor_std, 3 / 10)
      else if length measurements = 1 then Inr (measurements ! 0, 7 / 10)
      else case pooled_std measurements of
             Inl e \<Rightarrow> Inl e
           | Inr std_dev \<Rightarrow> Inr (std_dev, 9 / 10))"

definition calculate_speed_uncertainty ::
  "UncertaintyModeler \<Rightarrow> FusedData \<Rightarrow> SensorData \<Rightarrow> py_error + Uncertainty" where
  "calculate_speed_uncertainty m fused sd =
     (let measurements =
            (case gps_present sd of
               Some g \<Rightarrow> (if gps_speed g \<noteq> None then [su_gps_speed m] else [])
             | None \<Rightarrow> []) @
            (case ais_present sd of
               Some a \<Rightarrow> (if ais_speed a \<noteq> None then [su_ais_speed m] else [])
             | None \<Rightarrow> [])
      in case pooled_with_reliability measurements 2 of
           Inl e \<Rightarrow> Inl e
         | Inr (std_dev, rel) \<Rightarrow>
             (let ci_range = z_score m * std_dev;
                  v = vs_speed (vessel_state fused)
              in Inr \<lparr>parameter = ''speed'',
                      mean_value = v,
                      std_deviation = std_dev,
                      confidence_interval = (v - ci_range, v + ci_range),
                      reliability = rel\<rparr>))"

definition calculate_course_uncertainty ::
  "UncertaintyModeler \<Rightarrow> FusedData \<Rightarrow> SensorData \<Rightarrow> py_error + Uncertainty" where
  "calculate_course_uncertainty m fused sd =
     (let measurements =
            (case gps_present sd of
               Some g \<Rightarrow> (if gps_course g \<noteq> None then [su_gps_course m] else [])
             | None \<Rightarrow> []) @
            (case ais_present sd of
               Some a \<Rightarrow> (if ais_course a \<noteq> None then [su_ais_course m] else [])
             | None \<Rightarrow> [])
      in case pooled_with_reliability measurements 10 of
           Inl e \<Rightarrow> Inl e
         | Inr (std_dev, rel) \<Rightarrow>
             (let ci_range = z_score m * std_dev;
                  c = vs_course (vessel_state fused)
              in Inr \<lparr>parameter = ''course'',
                      mean_value = c,
                      std_deviation = std_dev,
                      confidence_interval = (py_mod (c - ci_range) 360, py_mod (c + ci_range) 360),
                      reliability = rel\<rparr>))"

text \<open>\<open>_calculate_heading_uncertainty\<close>.\<close>

definition calculate_heading_uncertainty ::
  "UncertaintyModeler \<Rightarrow> FusedData \<Rightarrow> SensorData \<Rightarrow> Uncertainty" where
  "calculate_heading_uncertainty m fused sd =
     (let (std_dev, rel) =
            (case ais_present sd of
               Some a \<Rightarrow> (if ais_heading a \<noteq> None then (5, 8 / 10) else (10, 5 / 10))
             | None \<Rightarrow> (15, 3 / 10));
          ci_range = z_score m * std_dev;
          h = vs_heading (vessel_state fused)
      in \<lparr>parameter = ''heading'',
          mean_value = h,
          std_deviation = std_dev,
          confidence_interval = (py_mod (h - ci_range) 360, py_mod (h + ci_range) 360),
          reliability = rel\<rparr>)"

text \<open>\<open>_calculate_target_uncertainty\<close>.\<close>

definition calculate_target_uncertainty :: "FusedData \<Rightarrow> Uncertainty" where
  "calculate_target_uncertainty fused =
     (if targets fused = []
      then \<lparr>parameter = ''targets'', mean_value = 0, std_deviation = 0,
            confidence_interval = (0, 0), reliability = 1\<rparr>
      else
        let n = real (length (targets fused)) in
        \<lparr>parameter = ''targets'',
         mean_value = n,
         std_deviation = sqrt n,
         confidence_interval = (max 0 (n - 2), n + 2),
         reliability = (if length (targets fused) > 0 then 7 / 10 else 0)\<rparr>)"

text \<open>\<open>_calculate_environmental_uncertainty\<close>.\<close>

definition calculate_environmental_uncertainty ::
  "UncertaintyModeler \<Rightarrow> FusedData \<Rightarrow> (string \<times> Uncertainty) list" where
  "calculate_environmental_uncertainty m fused =
     [(''wind'', \<lparr>parameter = ''wind'', mean_value = 0,
                  std_deviation = su_weather_wind_speed m,
                  confidence_interval = (- 4, 4), reliability = 7 / 10\<rparr>),
      (''current'', \<lparr>parameter = ''current'', mean_value = 0,
                     std_deviation = su_current_speed m,
                     confidence_interval = (- 1, 1), reliability = 6 / 10\<rparr>),
      (''tide'', \<lparr>parameter = ''tide'', mean_value = 0,
                  std_deviation = su_tide_height m,
                  confidence_interval = (- (2 / 10), 2 / 10), reliability = 8 / 10\<rparr>)]"

text \<open>\<open>_adjust_for_anomalies\<close> mutates the \<open>Uncertainty\<close> objects of the dictionary in
  place; every key holds an object of its own, so the mutation is an update of the entry.
  One step of the loop over the anomalies:\<close>

definition update_entry ::
  "string \<Rightarrow> (Uncertainty \<Rightarrow> Uncertainty) \<Rightarrow> (string \<times> Uncertainty) list
     \<Rightarrow> (string \<times> Uncertainty) list" where
  "update_entry k f d = map (\<lambda>(k', u). if k' = k then (k', f u) else (k', u)) d"

definition inflate :: "real \<Rightarrow> real \<Rightarrow> Uncertainty \<Rightarrow> Uncertainty" where
  "inflate impact_factor sev unc =
     unc\<lparr>std_deviation := std_deviation unc * impact_factor,
         reliability := reliability unc * (1 - sev * (3 / 10))\<rparr>"

definition adjust_step ::
  "real \<Rightarrow> (string \<times> Uncertainty) list \<Rightarrow> Anomaly \<Rightarrow> (string \<times> Uncertainty) list" where
  "adjust_step impact_factor uncertainties anomaly =
     (let kind = AnomalyType_value (anomaly_type anomaly);
          u1 = (if str_contains ''position'' kind
                then update_entry ''position'' (inflate impact_factor (severity anomaly))
                       uncertainties
                else uncertainties);
          u2 = (if str_contains ''speed'' kind
                then update_entry ''speed'' (inflate impact_factor (severity anomaly)) u1
                else u1)
      in if str_contains ''sensor'' kind
         then map (\<lambda>(k, unc).
                (k, unc\<lparr>reliability := reliability unc * (1 - severity anomaly * (2 / 10))\<rparr>)) u2
         else u2)"

definition adjust_for_anomalies ::
  "(string \<times> Uncertainty) list \<Rightarrow> Anomaly list \<Rightarrow> (string \<times> Uncertainty) list" where
  "adjust_for_anomalies uncertainties anomalies =
     (case anomalies of
        [] \<Rightarrow> uncertainties
      | a # rest \<Rightarrow>
          (let max_severity = foldl max (severity a) (map severity rest);
               impact_factor = 1 + max_severity
           in foldl (adjust_step impact_factor) uncertainties anomalies))"

text \<open>\<open>UncertaintyModeler.calculate\<close>.\<close>

definition calculate ::
  "UncertaintyModeler \<Rightarrow> FusedData \<Rightarrow> SensorData \<Rightarrow> Anomaly list
     \<Rightarrow> py_error + (string \<times> Uncertainty) list" where
  "calculate m fused sd anomalies =
     (case calculate_position_uncertainty m fused sd of
        Inl e \<Rightarrow> Inl e
      | Inr u_position \<Rightarrow>
          (case calculate_speed_uncertainty m fused sd of
             Inl e \<Rightarrow> Inl e
           | Inr u_speed \<Rightarrow>
               (case calculate_course_uncertainty m fused sd of
                  Inl e \<Rightarrow> Inl e
                | Inr u_course \<Rightarrow>
                    (let uncertainties =
                           [(''position'', u_position), (''speed'', u_speed),
                            (''course'', u_course),
                            (''heading'', calculate_heading_uncertainty m fused sd),
                            (''targets'', calculate_target_uncertainty fused)] @
                           calculate_environmental_uncertainty m fused
                     in Inr (if anomalies \<noteq> []
                             then adjust_for_anomalies uncertainties anomalies
                             else uncertainties)))))"

section \<open>Orchestrator (situation\_awareness\_layer.py)\<close>

text \<open>\<open>_calculate_overall_confidence\<close>.\<close>

definition calculate_overall_confidence ::
  "FusedData \<Rightarrow> (string \<times> Uncertainty) list \<Rightarrow> Anomaly list \<Rightarrow> SpoofingAlert list \<Rightarrow> real" where
  "calculate_overall_confidence fused uncertainties anomalies spoofing_alerts =
     (let c0 = fusion_confidence fused;
          c1 = (case anomalies of
                  [] \<Rightarrow> c0
                | a # rest \<Rightarrow>
                    (let max_severity = foldl max (severity a) (map severity rest);
                         avg_severity =
                           sum_list (map severity anomalies) / real (length anomalies);
                         anomaly_penalty =
                           (max_severity * (3 / 10) + avg_severity * (2 / 10)) * (5 / 10)
                     in c0 * (1 - anomaly_penalty)));
          c2 = (case spoofing_alerts of
                  [] \<Rightarrow> c1
                | s # rest \<Rightarrow>
                    (let max_spoof_confidence = foldl max (confidence s) (map confidence rest);
                         spoofing_penalty = max_spoof_confidence * (5 / 10)
                     in c1 * (1 - spoofing_penalty)));
          c3 = (if uncertainties \<noteq> []
                then
                  let avg_reliability =
                        sum_list (map (\<lambda>(k, u). reliability u) uncertainties)
                          / real (length uncertainties)
                  in (c2 + avg_reliability) / 2
                else c2)
      in max 0 (min 1 c3))"

text \<open>The alerts \<open>_generate_alerts\<close> builds from a spoofing alert, from an anomaly, and for
  a low overall confidence.\<close>

definition spoofing_alert_to_alert :: "SpoofingAlert \<Rightarrow> Alert" where
  "spoofing_alert_to_alert s =
     \<lparr>alert_id = sp_alert_id s,
      level = spoofing_to_alert_level s,
      al_timestamp = sp_detected_at s,
      source = ''spoofing_detector'',
      al_metadata = [(''spoofing_type'', PStr (SpoofingType_value (spoofing_type s))),
                     (''confidence'', PNum (confidence s)),
                     (''evidence'', PDict (evidence s)),
                     (''affected_sensors'', PList (map PStr (sp_affected_sensors s)))],
      acknowledged = False\<rparr>"

definition anomaly_to_alert :: "Anomaly \<Rightarrow> Alert" where
  "anomaly_to_alert a =
     \<lparr>alert_id = anomaly_id a,
      level = anomaly_to_alert_level a,
      al_timestamp = an_detected_at a,
      source = ''anomaly_detector'',
      al_metadata = [(''anomaly_type'', PStr (AnomalyType_value (anomaly_type a))),
                     (''severity'', PNum (severity a)),
                     (''affected_sensors'', PList (map PStr (an_affected_sensors a))),
                     (''location'',
                      (case location a of None \<Rightarrow> PNone | Some p \<Rightarrow> Position_to_dict p))],
      acknowledged = False\<rparr>"

definition low_confidence_alert :: "real \<Rightarrow> real \<Rightarrow> Alert" where
  "low_confidence_alert now overall_confidence =
     \<lparr>alert_id = ''low_conf_'',
      level = WARNING,
      al_timestamp = now,
      source = ''situation_awareness'',
      al_metadata = [(''overall_confidence'', PNum overall_confidence)],
      acknowledged = False\<rparr>"

fun level_priority :: "AlertLevel \<Rightarrow> nat" where
  "level_priority EMERGENCY = 4"
| "level_priority CRITICAL = 3"
| "level_priority WARNING = 2"
| "level_priority INFO = 1"

text \<open>\<open>list.sort(key=f, reverse=True)\<close>: the list is reversed, sorted stably in ascending
  order of the key, and reversed again.\<close>

definition sort_reverse :: "('a \<Rightarrow> nat) \<Rightarrow> 'a list \<Rightarrow> 'a list" where
  "sort_reverse f xs = rev (sort_key f (rev xs))"

text \<open>The list of \<open>_generate_alerts\<close> before it is sorted, and \<open>_generate_alerts\<close>.\<close>

definition collected_alerts ::
  "real \<Rightarrow> SpoofingAlert list \<Rightarrow> Anomaly list \<Rightarrow> real \<Rightarrow> Alert list" where
  "collected_alerts now spoofing_alerts anomalies overall_confidence =
     map spoofing_alert_to_alert spoofing_alerts @
     map anomaly_to_alert anomalies @
     (if overall_confidence < 5 / 10 then [low_confidence_alert now overall_confidence] else [])"

definition generate_alerts ::
  "real \<Rightarrow> SpoofingAlert list \<Rightarrow> Anomaly list \<Rightarrow> (string \<times> Uncertainty) list \<Rightarrow> real
     \<Rightarrow> Alert list" where
  "generate_alerts now spoofing_alerts anomalies uncertainties overall_confidence =
     sort_reverse (\<lambda>a. level_priority (level a))
       (collected_alerts now spoofing_alerts anomalies overall_confidence)"

text \<open>The orchestrator owns the four modules, the status table and the processing-time
  history.\<close>

record SituationAwarenessLayer =
  sensor_fusion :: SensorFusionEngine
  anomaly_detector :: AnomalyDetector
  spoofing_detector :: SpoofingDetector
  uncertainty_modeler :: UncertaintyModeler
  system_status :: "(string \<times> string) list"
  processing_times :: "real list"

record SituationAwarenessOutput =
  out_timestamp :: real
  fused_data :: FusedData
  anomalies :: "Anomaly list"
  uncertainties :: "(string \<times> Uncertainty) list"
  spoofing_alerts :: "SpoofingAlert list"
  overall_confidence :: real
  alerts :: "Alert list"
  out_system_status :: "(string \<times> string) list"

definition max_processing_time_history :: nat where
  "max_processing_time_history = 100"

definition SituationAwarenessLayer_init :: SituationAwarenessLayer where
  "SituationAwarenessLayer_init =
     \<lparr>sensor_fusion = SensorFusionEngine_init,
      anomaly_detector = AnomalyDetector_init,
      spoofing_detector = SpoofingDetector_init,
      uncertainty_modeler = UncertaintyModeler_init,
      system_status = [(''sensor_fusion'', ''operational''),
                       (''anomaly_detection'', ''operational''),
                       (''spoofing_detection'', ''operational''),
                       (''uncertainty_modeling'', ''operational'')],
      processing_times = []\<rparr>"

text \<open>\<open>_handle_processing_error\<close> and \<open>_update_metrics\<close>.\<close>

definition handle_processing_error :: "SituationAwarenessLayer \<Rightarrow> SituationAwarenessLayer" where
  "handle_processing_error layer =
     layer\<lparr>system_status := map (\<lambda>(module, status). (module, ''degraded'')) (system_status layer)\<rparr>"

definition update_metrics :: "SituationAwarenessLayer \<Rightarrow> real \<Rightarrow> SituationAwarenessLayer" where
  "update_metrics layer processing_time =
     layer\<lparr>processing_times :=
             push_bounded max_processing_time_history (processing_times layer) processing_time\<rparr>"

text \<open>\<open>process_sensor_data\<close>: fusion, spoofing detection, anomaly detection, uncertainty
  modelling, overall confidence, alerts. An exception of a step marks every module
  degraded and is raised again; the modules that ran before it keep their new state.
  \<open>processing_time\<close> is the time the batch took.\<close>

definition process_sensor_data ::
  "SituationAwarenessLayer \<Rightarrow> real \<Rightarrow> real \<Rightarrow> SensorData
     \<Rightarrow> (py_error + SituationAwarenessOutput) \<times> SituationAwarenessLayer" where
  "process_sensor_data layer now processing_time sd =
     (case fuse (sensor_fusion layer) now sd of
        (Inl e, eng') \<Rightarrow> (Inl e, handle_processing_error (layer\<lparr>sensor_fusion := eng'\<rparr>))
      | (Inr fused, eng') \<Rightarrow>
          (case spoofing_detect (spoofing_detector layer) now sd fused of
             (spoofs, spoof') \<Rightarrow>
               (case anomaly_detect (anomaly_detector layer) now fused sd of
                  (Inl e, det') \<Rightarrow>
                    (Inl e,
                     handle_processing_error
                       (layer\<lparr>sensor_fusion := eng', spoofing_detector := spoof',
                              anomaly_detector := det'\<rparr>))
                | (Inr anoms, det') \<Rightarrow>
                    (let layer' = layer\<lparr>sensor_fusion := eng', spoofing_detector := spoof',
                                        anomaly_detector := det'\<rparr>
                     in case calculate (uncertainty_modeler layer) fused sd anoms of
                          Inl e \<Rightarrow> (Inl e, handle_processing_error layer')
                        | Inr uncs \<Rightarrow>
                            (let conf = calculate_overall_confidence fused uncs anoms spoofs
                             in (Inr \<lparr>out_timestamp = now,
                                      fused_data = fused,
                                      anomalies = anoms,
                                      uncertainties = uncs,
                                      spoofing_alerts = spoofs,
                                      overall_confidence = conf,
                                      alerts = generate_alerts now spoofs anoms uncs conf,
                                      out_system_status = system_status layer\<rparr>,
                                 update_metrics layer' processing_time))))))"

text \<open>\<open>reset\<close>: the modules are constructed anew, the metrics cleared, every status set
  to operational.\<close>

definition reset :: "SituationAwarenessLayer \<Rightarrow> SituationAwarenessLayer" where
  "reset layer =
     \<lparr>sensor_fusion = SensorFusionEngine_init,
      anomaly_detector = AnomalyDetector_init,
      spoofing_detector = SpoofingDetector_init,
      uncertainty_modeler = UncertaintyModeler_init,
      system_status = map (\<lambda>(module, status). (module, ''operational'')) (system_status layer),
      processing_times = []\<rparr>"

section \<open>Auxiliary notions for the proofs\<close>

text \<open>The three stages of \<open>_calculate_overall_confidence\<close>, named: the penalty of the
  anomalies, the penalty of the spoofing alerts, and the averaging with the mean
  reliability.\<close>

definition anomaly_penalty_of :: "Anomaly list \<Rightarrow> real" where
  "anomaly_penalty_of as =
     (case as of
        [] \<Rightarrow> 0
      | a # rest \<Rightarrow>
          (foldl max (severity a) (map severity rest) * (3 / 10)
           + sum_list (map severity as) / real (length as) * (2 / 10)) * (5 / 10))"

definition spoofing_penalty_of :: "SpoofingAlert list \<Rightarrow> real" where
  "spoofing_penalty_of ss =
     (case ss of [] \<Rightarrow> 0 | s # rest \<Rightarrow> foldl max (confidence s) (map confidence rest) * (5 / 10))"

definition blend_reliability :: "(string \<times> Uncertainty) list \<Rightarrow> real \<Rightarrow> real" where
  "blend_reliability us c =
     (if us \<noteq> []
      then (c + sum_list (map (\<lambda>(k, u). reliability u) us) / real (length us)) / 2
      else c)"

text \<open>The local variable \<open>angle\<close> of \<open>_weighted_angle_fusion\<close>, the mean angle before it is
  normalised; and the lists whose angles and weights are of magnitude at most \<open>2\<^sup>5\<^sup>0\<^sup>0\<close>, on
  which no product or sum of the fusion overflows.\<close>

definition mean_angle :: "(real \<times> real) list \<Rightarrow> real" where
  "mean_angle angles =
     (let sin_sum = float_sum (map (\<lambda>(a, w). fl (float_sin (float_radians a) * w)) angles);
          cos_sum = float_sum (map (\<lambda>(a, w). fl (float_cos (float_radians a) * w)) angles)
      in float_degrees (float_atan2 sin_sum cos_sum))"


section \<open>Example inputs\<close>

definition example_fused :: FusedData where
  "example_fused =
     \<lparr>vessel_state =
        \<lparr>vs_position = \<lparr>latitude = 515074 / 10000, longitude = - (1278 / 10000), altitude = None\<rparr>,
         vs_speed = 12, vs_course = 45, vs_heading = 45, rate_of_turn = 0, vs_timestamp = 0\<rparr>,
      targets = [],
      environment = \<lparr>env_weather = PDict [], env_tide = PDict [], env_current = PDict [],
                     env_visibility = ''good''\<rparr>,
      quality_scores = [(''gps'', 4 / 10), (''ais'', 6 / 10)],
      fusion_confidence = 89 / 180,
      fd_timestamp = 0\<rparr>"

definition example_uncertainties :: "(string \<times> Uncertainty) list" where
  "example_uncertainties =
     [(''position'', \<lparr>parameter = ''position'', mean_value = 0, std_deviation = 5,
                      confidence_interval = (- (98 / 10), 98 / 10), reliability = 3 / 10\<rparr>),
      (''targets'', calculate_target_uncertainty example_fused)]"

text \<open>The snapshot of the module's self-test (\<open>__main__\<close> of
  situation\_awareness\_layer.py): gps and ais at the same place.\<close>

definition example_gps :: gps_reading where
  "example_gps =
     \<lparr>gps_latitude = Some (515074 / 10000), gps_longitude = Some (- (1278 / 10000)),
      gps_speed = Some (125 / 10), gps_course = Some 45, gps_timestamp = None, gps_extra = []\<rparr>"

definition example_ais :: ais_reading where
  "example_ais =
     \<lparr>ais_mmsi = None,
      ais_latitude = Some (515074 / 10000), ais_longitude = Some (- (1278 / 10000)),
      ais_speed = Some (123 / 10), ais_course = Some (455 / 10), ais_heading = Some 46,
      ais_rot = Some 2, ais_targets = None, ais_extra = []\<rparr>"

definition example_snapshot :: SensorData where
  "example_snapshot =
     \<lparr>sd_gps = Reading example_gps, sd_ais = Reading example_ais, sd_radar = Missing,
      sd_others = []\<rparr>"

text \<open>A snapshot whose tide reading is a bare number instead of a mapping.\<close>

definition scalar_tide_snapshot :: SensorData where
  "scalar_tide_snapshot =
     \<lparr>sd_gps = Missing, sd_ais = Missing, sd_radar = Missing,
      sd_others = [(''tide'', PNum (12 / 10))]\<rparr>"

section \<open>The specification's wording of the quality score\<close>

text \<open>The specification gives every sensor that is present the score
  \<open>min(1, field_count / 10)\<close>, where \<open>field_count\<close> is the number of fields of its reading.
  A mapping has one field for each key; a value that is not a mapping has no fields.\<close>

definition field_count :: "pyval \<Rightarrow> nat" where
  "field_count v = (case v of PDict d \<Rightarrow> length d | _ \<Rightarrow> 0)"

definition spec_quality_score :: "pyval \<Rightarrow> real" where
  "spec_quality_score v = min 1 (real (field_count v) / 10)"

section \<open>Runs of the detectors\<close>

text \<open>The state of a detector after a sequence of calls to its \<open>detect\<close>, each call
  given by its time and its two arguments.\<close>

fun anomaly_run ::
  "AnomalyDetector \<Rightarrow> (real \<times> FusedData \<times> SensorData) list \<Rightarrow> AnomalyDetector" where
  "anomaly_run det [] = det"
| "anomaly_run det ((now, fused, sd) # calls) =
     anomaly_run (snd (anomaly_detect det now fused sd)) calls"

fun spoofing_run ::
  "SpoofingDetector \<Rightarrow> (real \<times> SensorData \<times> FusedData) list \<Rightarrow> SpoofingDetector" where
  "spoofing_run det [] = det"
| "spoofing_run det ((now, sd, fused) # calls) =
     spoofing_run (snd (spoofing_detect det now sd fused)) calls"

section \<open>Auxiliary notions for the histories\<close>

text \<open>The bound on the three histories of the anomaly detector.\<close>

definition ad_bounded :: "AnomalyDetector \<Rightarrow> bool" where
  "ad_bounded det \<longleftrightarrow>
     length (speed_history det) \<le> ad_max_history \<and>
     length (course_history det) \<le> ad_max_history \<and>
     length (ad_position_history det) \<le> ad_max_history"

section \<open>Auxiliary notions for the anomaly adjustment\<close>

text \<open>The factor by which one anomaly scales every reliability: \<open>1 - severity * 0.2\<close> for
  a kind whose name contains \<open>sensor\<close>, and 1 otherwise.\<close>

definition sensor_factor :: "Anomaly \<Rightarrow> real" where
  "sensor_factor a =
     (if str_contains ''sensor'' (AnomalyType_value (anomaly_type a))
      then 1 - severity a * (2 / 10) else 1)"

section \<open>A jump of 2000 m in 5 s\<close>

text \<open>\<open>jump_latitude\<close> is the latitude 2000 m north of the equator along a meridian;
  \<open>gps_only\<close> is a snapshot with a gps position and nothing else.\<close>

definition jump_latitude :: real where
  "jump_latitude = 360 / (6371 * pi)"

definition gps_only :: "real \<Rightarrow> real \<Rightarrow> SensorData" where
  "gps_only lat lon =
     \<lparr>sd_gps = Reading \<lparr>gps_latitude = Some lat, gps_longitude = Some lon, gps_speed = None,
                          gps_course = None, gps_timestamp = None, gps_extra = []\<rparr>,
      sd_ais = Missing, sd_radar = Missing, sd_others = []\<rparr>"

section \<open>Auxiliary notions for the empty snapshot\<close>

text \<open>What fusion makes of the empty snapshot, an anomaly whose severity is within
  \<open>[0, 1]\<close>, and the uncertainties of the empty snapshot before the anomaly adjustment.\<close>

definition empty_vessel_state :: "real \<Rightarrow> VesselState" where
  "empty_vessel_state now =
     \<lparr>vs_position = \<lparr>latitude = 0, longitude = 0, altitude = None\<rparr>,
      vs_speed = 0, vs_course = 0, vs_heading = 0, rate_of_turn = 0, vs_timestamp = now\<rparr>"

definition empty_fused :: "real \<Rightarrow> FusedData" where
  "empty_fused now =
     \<lparr>vessel_state = empty_vessel_state now,
      targets = [],
      environment = \<lparr>env_weather = PDict [], env_tide = PDict [], env_current = PDict [],
                     env_visibility = ''good''\<rparr>,
      quality_scores = [],
      fusion_confidence = 0,
      fd_timestamp = now\<rparr>"

definition mild :: "Anomaly \<Rightarrow> bool" where
  "mild a \<longleftrightarrow> 0 \<le> severity a \<and> severity a \<le> 1"

definition empty_uncertainties :: "UncertaintyModeler \<Rightarrow> real \<Rightarrow> (string \<times> Uncertainty) list" where
  "empty_uncertainties m now =
     [(''position'', \<lparr>parameter = ''position'', mean_value = 0, std_deviation = 100,
                      confidence_interval = (- (z_score m * 100), z_score m * 100),
                      reliability = 0\<rparr>),
      (''speed'', \<lparr>parameter = ''speed'', mean_value = 0, std_deviation = 2,
                   confidence_interval = (0 - z_score m * 2, 0 + z_score m * 2),
                   reliability = 3 / 10\<rparr>),
      (''course'', \<lparr>parameter = ''course'', mean_value = 0, std_deviation = 10,
                    confidence_interval =
                      (py_mod (0 - z_score m * 10) 360, py_mod (0 + z_score m * 10) 360),
                    reliability = 3 / 10\<rparr>),
      (''heading'', calculate_heading_uncertainty m (empty_fused now) empty_snapshot),
      (''targets'', calculate_target_uncertainty (empty_fused now))] @
     calculate_environmental_uncertainty m (empty_fused now)"

section \<open>Properties\<close>

subsection \<open>Rounding to the nearest double\<close>

lemma pos_from_inv_pow2: "1 / 2 ^ n \<le> x \<Longrightarrow> 0 < (x::real)"
proof -
  assume "1 / 2 ^ n \<le> x"
  moreover have "(0::real) < 1 / 2 ^ n" by simp
  ultimately show ?thesis by linarith
qed


lemma rne_cases: "rne z = \<lfloor>z\<rfloor> \<or> rne z = \<lfloor>z\<rfloor> + 1"
  by (simp add: rne_def Let_def)

lemma rne_error: "\<bar>of_int (rne z) - z\<bar> \<le> 1 / 2"
proof -
  have b: "of_int \<lfloor>z\<rfloor> \<le> z" "z < of_int \<lfloor>z\<rfloor> + 1" by linarith+
  consider "z - of_int \<lfloor>z\<rfloor> < 1 / 2" | "1 / 2 < z - of_int \<lfloor>z\<rfloor>"
    | "z - of_int \<lfloor>z\<rfloor> = 1 / 2" by linarith
  then show ?thesis
  proof cases
    case 1
    then have "rne z = \<lfloor>z\<rfloor>" by (simp add: rne_def Let_def)
    with b 1 show ?thesis by linarith
  next
    case 2
    then have "rne z = \<lfloor>z\<rfloor> + 1" by (simp add: rne_def Let_def)
    then have "real_of_int (rne z) = of_int \<lfloor>z\<rfloor> + 1" by simp
    with b 2 show ?thesis by linarith
  next
    case 3
    from rne_cases [of z] show ?thesis
    proof
      assume "rne z = \<lfloor>z\<rfloor>"
      with 3 show ?thesis by linarith
    next
      assume "rne z = \<lfloor>z\<rfloor> + 1"
      then have "real_of_int (rne z) = of_int \<lfloor>z\<rfloor> + 1" by simp
      with 3 show ?thesis by linarith
    qed
  qed
qed

lemma rne_of_int [simp]: "rne (of_int n) = n"
  by (simp add: rne_def)

lemma rne_zero [simp]: "rne 0 = 0"
  by (simp add: rne_def)

lemma rne_numeral [simp]: "rne (numeral a) = numeral a"
  using rne_of_int [of "numeral a"] by simp


lemma rne_ge: "of_int n \<le> z \<Longrightarrow> n \<le> rne z"
proof -
  assume "of_int n \<le> z"
  then have "n \<le> \<lfloor>z\<rfloor>" by (simp add: le_floor_iff)
  with rne_cases [of z] show ?thesis by auto
qed



lemma rne_nonneg: "0 \<le> z \<Longrightarrow> 0 \<le> rne z"
  using rne_ge [of 0 z] by simp


lemma rne_minus: "rne (- z) = - rne z"
proof (cases "z \<in> \<int>")
  case True
  then obtain n where "z = of_int n" by (auto elim: Ints_cases)
  then have "- z = of_int (- n)" by simp
  then have "rne (- z) = - n" by (simp only: rne_of_int)
  with \<open>z = of_int n\<close> show ?thesis by simp
next
  case False
  then have "z \<noteq> of_int \<lfloor>z\<rfloor>" by (metis Ints_of_int)
  then have c: "\<lceil>z\<rceil> = \<lfloor>z\<rfloor> + 1" by (simp add: ceiling_altdef)
  have f: "\<lfloor>- z\<rfloor> = - \<lfloor>z\<rfloor> - 1"
    using c by (simp add: floor_minus)
  have b: "of_int \<lfloor>z\<rfloor> \<le> z" "z < of_int \<lfloor>z\<rfloor> + 1" by linarith+
  have ev: "even (- \<lfloor>z\<rfloor> - 1) \<longleftrightarrow> odd \<lfloor>z\<rfloor>" by simp
  consider "z - of_int \<lfloor>z\<rfloor> < 1 / 2" | "1 / 2 < z - of_int \<lfloor>z\<rfloor>"
    | "z - of_int \<lfloor>z\<rfloor> = 1 / 2" by linarith
  then show ?thesis
  proof cases
    case 1
    then have "rne z = \<lfloor>z\<rfloor>" by (simp add: rne_def Let_def)
    moreover from 1 have "rne (- z) = - \<lfloor>z\<rfloor>"
      unfolding rne_def Let_def f by (simp add: algebra_simps)
    ultimately show ?thesis by simp
  next
    case 2
    then have "rne z = \<lfloor>z\<rfloor> + 1" by (simp add: rne_def Let_def)
    moreover from 2 have "rne (- z) = - \<lfloor>z\<rfloor> - 1"
      unfolding rne_def Let_def f by (simp add: algebra_simps)
    ultimately show ?thesis by simp
  next
    case 3
    then have "rne z = (if even \<lfloor>z\<rfloor> then \<lfloor>z\<rfloor> else \<lfloor>z\<rfloor> + 1)"
      by (simp add: rne_def Let_def)
    moreover from 3 have "rne (- z) = (if odd \<lfloor>z\<rfloor> then - \<lfloor>z\<rfloor> - 1 else - \<lfloor>z\<rfloor>)"
      unfolding rne_def Let_def f ev by (simp add: algebra_simps)
    ultimately show ?thesis by simp
  qed
qed

lemma rne_frac:
  assumes "0 < q"
  shows "rne (of_int p / of_int q) =
    (if 2 * (p mod q) < q then p div q
     else if q < 2 * (p mod q) then p div q + 1
     else if even (p div q) then p div q else p div q + 1)"
proof -
  have f: "\<lfloor>real_of_int p / of_int q\<rfloor> = p div q"
    by (simp add: floor_divide_of_int_eq)
  have "real_of_int p = of_int (q * (p div q) + p mod q)" by simp
  then have "real_of_int p = of_int q * of_int (p div q) + of_int (p mod q)"
    by (simp only: of_int_add of_int_mult)
  then have r: "real_of_int p / of_int q - of_int (p div q) = of_int (p mod q) / of_int q"
    using assms by (simp add: field_simps)
  have lt: "real_of_int (p mod q) / of_int q < 1 / 2 \<longleftrightarrow> 2 * (p mod q) < q"
  proof -
    have "real_of_int (p mod q) / of_int q < 1 / 2 \<longleftrightarrow> 2 * real_of_int (p mod q) < of_int q"
      using assms by (simp add: field_simps)
    also have "\<dots> \<longleftrightarrow> real_of_int (2 * (p mod q)) < of_int q" by simp
    also have "\<dots> \<longleftrightarrow> 2 * (p mod q) < q" by (simp only: of_int_less_iff)
    finally show ?thesis .
  qed
  have gt: "1 / 2 < real_of_int (p mod q) / of_int q \<longleftrightarrow> q < 2 * (p mod q)"
  proof -
    have "1 / 2 < real_of_int (p mod q) / of_int q \<longleftrightarrow> of_int q < 2 * real_of_int (p mod q)"
      using assms by (simp add: field_simps)
    also have "\<dots> \<longleftrightarrow> real_of_int q < of_int (2 * (p mod q))" by simp
    also have "\<dots> \<longleftrightarrow> q < 2 * (p mod q)" by (simp only: of_int_less_iff)
    finally show ?thesis .
  qed
  show ?thesis
    unfolding rne_def Let_def f r lt gt by simp
qed

lemma rne_numeral_frac:
  "rne (numeral a / numeral b) =
    (if 2 * (numeral a mod numeral b) < (numeral b :: int) then numeral a div numeral b
     else if (numeral b :: int) < 2 * (numeral a mod numeral b) then numeral a div numeral b + 1
     else if even (numeral a div numeral b :: int) then numeral a div numeral b
     else numeral a div numeral b + 1)"
  using rne_frac [of "numeral b" "numeral a"] by simp

lemma ulp_pos [simp]: "0 < ulp_of x"
  by (simp add: ulp_of_def)

lemma ulp_neq0 [simp]: "ulp_of x \<noteq> 0"
  by (simp add: ulp_of_def)

lemma ulp_nonneg [simp]: "0 \<le> ulp_of x"
  by (simp add: ulp_of_def)

lemma fl_zero [simp]: "fl 0 = 0"
  by (simp add: fl_def)

lemma fl_nonneg: "0 \<le> x \<Longrightarrow> 0 \<le> fl x"
  by (simp add: fl_def rne_nonneg)


lemma fl_error: "\<bar>fl x - x\<bar> \<le> ulp_of x / 2"
proof (cases "x = 0")
  case True
  then show ?thesis by simp
next
  case False
  have "fl x - x = ulp_of x * (of_int (rne (x / ulp_of x)) - x / ulp_of x)"
    using False by (simp add: fl_def algebra_simps)
  then have "\<bar>fl x - x\<bar> = ulp_of x * \<bar>of_int (rne (x / ulp_of x)) - x / ulp_of x\<bar>"
    by (simp add: abs_mult)
  also have "\<dots> \<le> ulp_of x * (1 / 2)"
    by (intro mult_left_mono rne_error) simp
  finally show ?thesis by simp
qed

lemma float_exponent_abs [simp]: "float_exponent (- x) = float_exponent x"
  by (simp add: float_exponent_def)

lemma ulp_of_minus [simp]: "ulp_of (- x) = ulp_of x"
  by (simp add: ulp_of_def)

lemma fl_minus: "fl (- x) = - fl x"
  by (simp add: fl_def rne_minus)

lemma powr_powi: "2 powr real_of_int k = (2::real) powi k"
  by (simp add: powr_real_of_int')

lemma floor_log2_bounds:
  assumes "x \<noteq> 0"
  shows "2 powi \<lfloor>log 2 \<bar>x\<bar>\<rfloor> \<le> \<bar>x\<bar>" and "\<bar>x\<bar> < 2 powi (\<lfloor>log 2 \<bar>x\<bar>\<rfloor> + 1)"
proof -
  let ?e = "\<lfloor>log 2 \<bar>x\<bar>\<rfloor>"
  have pos: "0 < \<bar>x\<bar>" using assms by simp
  have "of_int ?e \<le> log 2 \<bar>x\<bar>" by simp
  with pos have "2 powr of_int ?e \<le> \<bar>x\<bar>"
    using le_log_iff [of 2 "\<bar>x\<bar>" "of_int ?e"] by simp
  then show "2 powi ?e \<le> \<bar>x\<bar>" by (simp only: powr_powi)
  have "log 2 \<bar>x\<bar> < of_int (?e + 1)" by linarith
  with pos have "\<bar>x\<bar> < 2 powr of_int (?e + 1)"
    using log_less_iff [of 2 "\<bar>x\<bar>" "of_int (?e + 1)"] by simp
  then show "\<bar>x\<bar> < 2 powi (?e + 1)" by (simp only: powr_powi)
qed

lemma floor_log2_eq:
  assumes "2 powi k \<le> \<bar>x\<bar>" and "\<bar>x\<bar> < 2 powi (k + 1)"
  shows "\<lfloor>log 2 \<bar>x\<bar>\<rfloor> = k"
proof -
  have "(0::real) < 2 powi k" by simp
  with assms(1) have pos: "0 < \<bar>x\<bar>" by linarith
  have "2 powr of_int k \<le> \<bar>x\<bar>" using assms(1) by (simp only: powr_powi)
  with pos have lo: "of_int k \<le> log 2 \<bar>x\<bar>"
    using le_log_iff [of 2 "\<bar>x\<bar>" "of_int k"] by simp
  have "\<bar>x\<bar> < 2 powr of_int (k + 1)" using assms(2) by (simp only: powr_powi)
  with pos have "log 2 \<bar>x\<bar> < of_int (k + 1)"
    using log_less_iff [of 2 "\<bar>x\<bar>" "of_int (k + 1)"] by simp
  then have hi: "log 2 \<bar>x\<bar> < of_int k + 1" by simp
  from lo hi show ?thesis by (simp add: floor_eq_iff)
qed

lemma float_exponent_eq:
  assumes "2 powi k \<le> \<bar>x\<bar>" and "\<bar>x\<bar> < 2 powi (k + 1)" and "- 1022 \<le> k"
  shows "float_exponent x = k"
proof -
  have "(0::real) < 2 powi k" by simp
  with assms(1) have "0 < \<bar>x\<bar>" by linarith
  then have "x \<noteq> 0" by simp
  with assms show ?thesis by (simp add: float_exponent_def floor_log2_eq)
qed

lemma float_exponent_normal:
  assumes "2 powi (- 1022) \<le> \<bar>x\<bar>"
  shows "float_exponent x = \<lfloor>log 2 \<bar>x\<bar>\<rfloor>"
proof -
  have "(0::real) < 2 powi (- 1022)" by simp
  with assms have "0 < \<bar>x\<bar>" by linarith
  then have nz: "x \<noteq> 0" by simp
  have "- 1022 \<le> \<lfloor>log 2 \<bar>x\<bar>\<rfloor>"
  proof (rule ccontr)
    assume "\<not> - 1022 \<le> \<lfloor>log 2 \<bar>x\<bar>\<rfloor>"
    then have "\<lfloor>log 2 \<bar>x\<bar>\<rfloor> + 1 \<le> - 1022" by linarith
    then have "(2::real) powi (\<lfloor>log 2 \<bar>x\<bar>\<rfloor> + 1) \<le> 2 powi (- 1022)"
      by (intro power_int_increasing) simp_all
    with floor_log2_bounds(2) [OF nz] assms show False by linarith
  qed
  with nz show ?thesis by (simp add: float_exponent_def)
qed














lemma fl_rel:
  assumes "2 powi (- 1022) \<le> \<bar>x\<bar>"
  shows "\<bar>fl x - x\<bar> \<le> \<bar>x\<bar> / 2 ^ 53"
proof -
  have "(0::real) < 2 powi (- 1022)" by simp
  with assms have "0 < \<bar>x\<bar>" by linarith
  then have nz: "x \<noteq> 0" by simp
  let ?e = "\<lfloor>log 2 \<bar>x\<bar>\<rfloor>"
  have e: "float_exponent x = ?e" using assms by (rule float_exponent_normal)
  have "ulp_of x / 2 = 2 powi ?e / 2 ^ 53"
    by (simp add: ulp_of_def e power_int_diff)
  also have "\<dots> \<le> \<bar>x\<bar> / 2 ^ 53"
    using floor_log2_bounds(1) [OF nz] by (simp add: divide_right_mono)
  finally show ?thesis using fl_error [of x] by linarith
qed

lemma min_normal: "(2::real) powi (- 1022) = 1 / 2 ^ 1022"
  by (simp add: power_int_minus field_simps)

lemma fl_rel_nat:
  assumes "1 / 2 ^ 1022 \<le> \<bar>x\<bar>"
  shows "\<bar>fl x - x\<bar> \<le> \<bar>x\<bar> / 2 ^ 53"
  using fl_rel [of x] assms by (simp only: min_normal)


lemma fl_scaled:
  assumes "2 ^ 52 \<le> \<bar>x\<bar> * 2 ^ n" and "\<bar>x\<bar> * 2 ^ n < 2 ^ 53" and "n \<le> 1074"
  shows "fl x = of_int (rne (x * 2 ^ n)) / 2 ^ n"
proof -
  let ?k = "52 - int n"
  have p: "(2::real) powi ?k = 2 ^ 52 / 2 ^ n" by (simp add: power_int_diff)
  have p1: "(2::real) powi (?k + 1) = 2 ^ 53 / 2 ^ n"
  proof -
    have "?k + 1 = 53 - int n" by simp
    then show ?thesis by (simp add: power_int_diff)
  qed
  have "2 powi ?k \<le> \<bar>x\<bar>" unfolding p using assms(1) by (simp add: field_simps)
  moreover have "\<bar>x\<bar> < 2 powi (?k + 1)" unfolding p1 using assms(2) by (simp add: field_simps)
  moreover have "- 1022 \<le> ?k" using assms(3) by simp
  ultimately have "float_exponent x = ?k" by (rule float_exponent_eq)
  then have "ulp_of x = 2 powi (- int n)" by (simp add: ulp_of_def)
  then have "ulp_of x = 1 / 2 ^ n" by (simp add: power_int_minus field_simps)
  then show ?thesis by (simp add: fl_def)
qed

lemma fl_one [simp]: "fl 1 = 1"
  by (subst fl_scaled [where n = 52]) simp_all


subsection \<open>Bounds on \<open>pi\<close> and on the circular functions\<close>










subsection \<open>Position fusion of one candidate\<close>

lemma mul_div_error:
  assumes w: "1 / 2 ^ 500 \<le> w" "w \<le> 2 ^ 500"
    and x: "1 / 2 ^ 500 \<le> \<bar>x\<bar>" "\<bar>x\<bar> \<le> 2 ^ 500"
  shows "\<bar>fl (fl (x * w) / w) - x\<bar> \<le> \<bar>x\<bar> / 2 ^ 51"
proof -
  have wpos: "0 < w" using w(1) by (rule pos_from_inv_pow2)
  define a where "a = fl (x * w)"
  define b where "b = a / w"
  have "1 / 2 ^ 500 * (1 / 2 ^ 500) \<le> \<bar>x\<bar> * w"
    using w(1) x(1) by (intro mult_mono) simp_all
  then have "1 / 2 ^ 1022 \<le> \<bar>x * w\<bar>"
    using wpos by (simp add: abs_mult)
  then have "\<bar>a - x * w\<bar> \<le> \<bar>x * w\<bar> / 2 ^ 53"
    unfolding a_def by (rule fl_rel_nat)
  then have "\<bar>a - x * w\<bar> \<le> (\<bar>x\<bar> / 2 ^ 53) * w"
    using wpos by (simp add: abs_mult)
  moreover have "b - x = (a - x * w) / w" using wpos by (simp add: b_def field_simps)
  ultimately have bx: "\<bar>b - x\<bar> \<le> \<bar>x\<bar> / 2 ^ 53"
    using wpos by (simp add: abs_divide pos_divide_le_eq)
  have "\<bar>x\<bar> / 2 ^ 53 \<le> \<bar>x\<bar> / 2" by simp
  with bx have blo: "\<bar>x\<bar> / 2 \<le> \<bar>b\<bar>" by linarith
  have "\<bar>x\<bar> / 2 ^ 53 \<le> \<bar>x\<bar>" by (simp add: field_simps)
  with bx have bhi: "\<bar>b\<bar> \<le> 2 * \<bar>x\<bar>" by linarith
  have "1 / 2 ^ 1022 \<le> (1 / 2 ^ 500) / (2::real)" by simp
  also have "\<dots> \<le> \<bar>x\<bar> / 2" using x(1) by simp
  finally have "1 / 2 ^ 1022 \<le> \<bar>b\<bar>" using blo by linarith
  then have "\<bar>fl b - b\<bar> \<le> \<bar>b\<bar> / 2 ^ 53" by (rule fl_rel_nat)
  also have "\<dots> \<le> 2 * \<bar>x\<bar> / 2 ^ 53" using bhi by (simp add: divide_right_mono)
  finally have "\<bar>fl b - x\<bar> \<le> 2 * \<bar>x\<bar> / 2 ^ 53 + \<bar>x\<bar> / 2 ^ 53" using bx by linarith
  also have "\<dots> \<le> \<bar>x\<bar> / 2 ^ 51" by simp
  finally show ?thesis by (simp add: a_def b_def)
qed

lemma mul_div_error0:
  assumes w: "1 / 2 ^ 500 \<le> w" "w \<le> 2 ^ 500"
    and x: "x = 0 \<or> 1 / 2 ^ 500 \<le> \<bar>x\<bar> \<and> \<bar>x\<bar> \<le> 2 ^ 500"
  shows "\<bar>fl (fl (x * w) / w) - x\<bar> \<le> \<bar>x\<bar> / 2 ^ 51"
  using x
proof
  assume "x = 0"
  then show ?thesis by simp
next
  assume "1 / 2 ^ 500 \<le> \<bar>x\<bar> \<and> \<bar>x\<bar> \<le> 2 ^ 500"
  then have "1 / 2 ^ 500 \<le> \<bar>x\<bar>" and "\<bar>x\<bar> \<le> 2 ^ 500" by blast+
  with w show ?thesis by (rule mul_div_error)
qed

lemma fl_lat_example: "fl (7534071816628103 / 2 ^ 47) = 7534071816628103 / 2 ^ 47"
  by (subst fl_scaled [where n = 47]) (simp_all add: rne_numeral_frac)

lemma fl_lon_example: "fl (4604480259023595 / 2 ^ 55) = 4604480259023595 / 2 ^ 55"
  by (subst fl_scaled [where n = 55]) (simp_all add: rne_numeral_frac)

lemma fl_lat_times_weight:
  "fl (7534071816628103 / 2 ^ 47 * (4278419646001971 / 2 ^ 52)) = 3578684112898349 / 2 ^ 46"
  by (subst fl_scaled [where n = 47]) (simp_all add: rne_numeral_frac)

lemma fl_product_by_weight:
  "fl (3578684112898349 / 2 ^ 46 / (4278419646001971 / 2 ^ 52)) = 941758977078513 / 2 ^ 44"
  by (subst fl_scaled [where n = 47]) (simp_all add: rne_numeral_frac)

text \<open>
  C4, as the claim states it, fails on the code: for the candidate latitude 53.5328 (the
  double \<open>7534071816628103 / 2\<^sup>4\<^sup>7\<close>) with weight 0.95 (the double
  \<open>4278419646001971 / 2\<^sup>5\<^sup>2\<close>) the fused latitude is the next double,
  \<open>941758977078513 / 2\<^sup>4\<^sup>4\<close> (53.53280000000001), not the candidate's.
\<close>

theorem singleton_position_fusion_inexact_counterexample:
  "weighted_position_fusion [(7534071816628103 / 2 ^ 47, 0, 4278419646001971 / 2 ^ 52)]
     = Inr (941758977078513 / 2 ^ 44, 0) \<and>
   weighted_position_fusion [(7534071816628103 / 2 ^ 47, 0, 4278419646001971 / 2 ^ 52)]
     \<noteq> Inr (7534071816628103 / 2 ^ 47, 0)"
proof -
  have "weighted_position_fusion [(7534071816628103 / 2 ^ 47, 0, 4278419646001971 / 2 ^ 52)]
     = Inr (941758977078513 / 2 ^ 44, 0)"
    unfolding weighted_position_fusion_def
    by (simp only: list.map float_sum.simps foldl.simps prod.case Let_def
          fl_lat_times_weight fl_product_by_weight)
       simp
  then show ?thesis by simp
qed

text \<open>
  C4, amended: weighted position fusion of a list with exactly one candidate
  \<open>(lat, lon, w)\<close>, the weight between \<open>2\<^sup>-\<^sup>5\<^sup>0\<^sup>0\<close> and \<open>2\<^sup>5\<^sup>0\<^sup>0\<close> and each coordinate zero or of
  magnitude between \<open>2\<^sup>-\<^sup>5\<^sup>0\<^sup>0\<close> and \<open>2\<^sup>5\<^sup>0\<^sup>0\<close>, returns a latitude and a longitude within the
  relative error \<open>2\<^sup>-\<^sup>5\<^sup>1\<close> of the candidate's (the product by the weight and the quotient by
  the total weight are each rounded); with the weight 1 it returns exactly the candidate's
  coordinates.
\<close>

theorem singleton_position_fusion_rounded:
  "(1 / 2 ^ 500 \<le> w \<longrightarrow> w \<le> 2 ^ 500 \<longrightarrow>
    (lat = 0 \<or> 1 / 2 ^ 500 \<le> \<bar>lat\<bar> \<and> \<bar>lat\<bar> \<le> 2 ^ 500) \<longrightarrow>
    (lon = 0 \<or> 1 / 2 ^ 500 \<le> \<bar>lon\<bar> \<and> \<bar>lon\<bar> \<le> 2 ^ 500) \<longrightarrow>
    (\<exists>la lo. weighted_position_fusion [(lat, lon, w)] = Inr (la, lo) \<and>
       \<bar>la - lat\<bar> \<le> \<bar>lat\<bar> / 2 ^ 51 \<and> \<bar>lo - lon\<bar> \<le> \<bar>lon\<bar> / 2 ^ 51)) \<and>
   (fl lat = lat \<longrightarrow> fl lon = lon \<longrightarrow>
    weighted_position_fusion [(lat, lon, 1)] = Inr (lat, lon))"
proof (intro conjI impI)
  assume w: "1 / 2 ^ 500 \<le> w" "w \<le> 2 ^ 500"
    and la: "lat = 0 \<or> 1 / 2 ^ 500 \<le> \<bar>lat\<bar> \<and> \<bar>lat\<bar> \<le> 2 ^ 500"
    and lo: "lon = 0 \<or> 1 / 2 ^ 500 \<le> \<bar>lon\<bar> \<and> \<bar>lon\<bar> \<le> 2 ^ 500"
  have "0 < w" using w(1) by (rule pos_from_inv_pow2)
  then have "weighted_position_fusion [(lat, lon, w)]
      = Inr (fl (fl (lat * w) / w), fl (fl (lon * w) / w))"
    by (simp add: weighted_position_fusion_def)
  with mul_div_error0 [OF w la] mul_div_error0 [OF w lo]
  show "\<exists>la lo. weighted_position_fusion [(lat, lon, w)] = Inr (la, lo) \<and>
       \<bar>la - lat\<bar> \<le> \<bar>lat\<bar> / 2 ^ 51 \<and> \<bar>lo - lon\<bar> \<le> \<bar>lon\<bar> / 2 ^ 51"
    by blast
next
  assume "fl lat = lat" and "fl lon = lon"
  then show "weighted_position_fusion [(lat, lon, 1)] = Inr (lat, lon)"
    by (simp add: weighted_position_fusion_def)
qed

theorem singleton_position_fusion_rounded_witness:
  "(\<exists>la lo.
      weighted_position_fusion
        [(7534071816628103 / 2 ^ 47, - (4604480259023595 / 2 ^ 55), 4278419646001971 / 2 ^ 52)]
        = Inr (la, lo) \<and>
      \<bar>la - 7534071816628103 / 2 ^ 47\<bar> \<le> \<bar>7534071816628103 / 2 ^ 47\<bar> / 2 ^ 51 \<and>
      \<bar>lo - - (4604480259023595 / 2 ^ 55)\<bar> \<le> \<bar>- (4604480259023595 / 2 ^ 55)\<bar> / 2 ^ 51) \<and>
   weighted_position_fusion [(7534071816628103 / 2 ^ 47, - (4604480259023595 / 2 ^ 55), 1)]
     = Inr (7534071816628103 / 2 ^ 47, - (4604480259023595 / 2 ^ 55))"
proof -
  have d: "fl (7534071816628103 / 2 ^ 47) = 7534071816628103 / 2 ^ 47"
    "fl (- (4604480259023595 / 2 ^ 55)) = - (4604480259023595 / 2 ^ 55)"
    by (simp_all only: fl_lat_example fl_lon_example fl_minus)
  have b: "(1::real) / 2 ^ 500 \<le> 4278419646001971 / 2 ^ 52"
    "(4278419646001971::real) / 2 ^ 52 \<le> 2 ^ 500"
    "(1::real) / 2 ^ 500 \<le> \<bar>7534071816628103 / 2 ^ 47\<bar>"
    "\<bar>7534071816628103 / 2 ^ 47 :: real\<bar> \<le> 2 ^ 500"
    "(1::real) / 2 ^ 500 \<le> \<bar>- (4604480259023595 / 2 ^ 55)\<bar>"
    "\<bar>- (4604480259023595 / 2 ^ 55) :: real\<bar> \<le> 2 ^ 500"
    by simp_all
  show ?thesis
    using singleton_position_fusion_rounded
      [of "4278419646001971 / 2 ^ 52" "7534071816628103 / 2 ^ 47"
          "- (4604480259023595 / 2 ^ 55)"]
      singleton_position_fusion_rounded
      [of 1 "7534071816628103 / 2 ^ 47" "- (4604480259023595 / 2 ^ 55)"]
      d b
    by blast
qed

subsection \<open>Angle fusion\<close>




lemma radians_0 [simp]: "float_radians 0 = 0"
  by (simp add: float_radians_def)







lemma float_sin_0 [simp]: "float_sin 0 = 0"
  by (simp add: float_sin_def)

lemma float_cos_0 [simp]: "float_cos 0 = 1"
  by (simp add: float_cos_def)





lemma weighted_angle_fusion_mean:
  "angles \<noteq> [] \<Longrightarrow> weighted_angle_fusion angles d = float_rem (mean_angle angles) 360"
  by (simp add: weighted_angle_fusion_def mean_angle_def Let_def)








lemma mean_angle_north: "mean_angle [(0, 1), (0, 1)] = 0"
proof -
  have "fl (1 + 1) = 2"
    by (subst fl_scaled [where n = 51]) simp_all
  then show ?thesis
    by (simp add: mean_angle_def float_atan2_def atan2_def float_degrees_def)
qed

lemma fuse_north: "weighted_angle_fusion [(0, 1), (0, 1)] d = 0"
  by (simp add: weighted_angle_fusion_mean mean_angle_north float_rem_def fmod_def)




subsection \<open>Overall confidence\<close>

lemma overall_confidence_factored:
  "calculate_overall_confidence fused us as ss =
     max 0 (min 1 (blend_reliability us
       (fusion_confidence fused * (1 - anomaly_penalty_of as) * (1 - spoofing_penalty_of ss))))"
  by (simp add: calculate_overall_confidence_def anomaly_penalty_of_def spoofing_penalty_of_def
      blend_reliability_def Let_def split: list.splits)

lemma foldl_max_mono:
  "list_all2 (\<le>) xs ys \<Longrightarrow> a \<le> b \<Longrightarrow> foldl max a xs \<le> foldl max b (ys :: real list)"
proof (induction arbitrary: a b rule: list_all2_induct)
  case Nil
  then show ?case by simp
next
  case (Cons x xs y ys)
  from Cons.hyps(1) Cons.prems have "max a x \<le> max b y" by (auto simp: max_def)
  then show ?case using Cons.IH by simp
qed

lemma foldl_max_le:
  "a \<le> c \<Longrightarrow> \<forall>x\<in>set xs. x \<le> c \<Longrightarrow> foldl max a xs \<le> (c :: real)"
  by (induction xs arbitrary: a) auto

lemma sum_list_all2_mono:
  "list_all2 (\<le>) xs ys \<Longrightarrow> sum_list xs \<le> sum_list (ys :: real list)"
  by (induction rule: list_all2_induct) auto

lemma sum_list_le_length:
  "\<forall>x\<in>set xs. x \<le> (1::real) \<Longrightarrow> sum_list xs \<le> real (length xs)"
  by (induction xs) auto

lemma anomaly_penalty_Cons:
  "anomaly_penalty_of (a # rest) =
     (foldl max (severity a) (map severity rest) * (3 / 10)
      + sum_list (map severity (a # rest)) / real (length (a # rest)) * (2 / 10)) * (5 / 10)"
  by (simp only: anomaly_penalty_of_def list.case)

lemma penalty_arith_mono:
  "m \<le> m' \<Longrightarrow> v \<le> v' \<Longrightarrow>
   (m * (3 / 10) + v * (2 / 10)) * (5 / 10) \<le> (m' * (3 / 10) + v' * (2 / 10)) * (5 / (10::real))"
  by simp

lemma penalty_arith_le:
  "m \<le> 1 \<Longrightarrow> v \<le> 1 \<Longrightarrow> (m * (3 / 10) + v * (2 / 10)) * (5 / 10) \<le> (1::real)"
  by simp

lemma anomaly_penalty_mono:
  assumes "list_all2 (\<lambda>a b. severity a \<le> severity b) as bs"
  shows "anomaly_penalty_of as \<le> anomaly_penalty_of bs"
proof (cases as)
  case Nil
  with assms show ?thesis by (simp add: anomaly_penalty_of_def)
next
  case (Cons a rest)
  with assms obtain b rest' where bs: "bs = b # rest'"
    and ab: "severity a \<le> severity b"
    and r: "list_all2 (\<lambda>a b. severity a \<le> severity b) rest rest'"
    by (auto simp: list_all2_Cons1)
  from r have r': "list_all2 (\<le>) (map severity rest) (map severity rest')"
    by (simp add: list_all2_map1 list_all2_map2)
  have m: "foldl max (severity a) (map severity rest) \<le> foldl max (severity b) (map severity rest')"
    by (rule foldl_max_mono [OF r' ab])
  from assms have "list_all2 (\<le>) (map severity as) (map severity bs)"
    by (simp add: list_all2_map1 list_all2_map2)
  then have s: "sum_list (map severity as) \<le> sum_list (map severity bs)"
    by (rule sum_list_all2_mono)
  from assms have len: "length as = length bs" by (rule list_all2_lengthD)
  from s have "sum_list (map severity as) / real (length bs)
      \<le> sum_list (map severity bs) / real (length bs)"
    by (rule divide_right_mono) simp
  with len have avg: "sum_list (map severity (a # rest)) / real (length (a # rest))
      \<le> sum_list (map severity (b # rest')) / real (length (b # rest'))"
    by (simp only: Cons bs)
  show ?thesis
    unfolding Cons bs anomaly_penalty_Cons by (rule penalty_arith_mono [OF m avg])
qed

lemma anomaly_penalty_le:
  assumes "\<forall>a\<in>set as. severity a \<le> 1"
  shows "anomaly_penalty_of as \<le> 1"
proof (cases as)
  case Nil
  then show ?thesis by (simp add: anomaly_penalty_of_def)
next
  case (Cons a rest)
  from assms Cons have m: "foldl max (severity a) (map severity rest) \<le> 1"
    by (intro foldl_max_le) auto
  from assms have "sum_list (map severity as) \<le> real (length (map severity as))"
    by (intro sum_list_le_length) auto
  then have "sum_list (map severity as) / real (length as) \<le> 1"
    using Cons by (simp add: divide_le_eq)
  then have avg: "sum_list (map severity (a # rest)) / real (length (a # rest)) \<le> 1"
    by (simp only: Cons)
  show ?thesis
    unfolding Cons anomaly_penalty_Cons by (rule penalty_arith_le [OF m avg])
qed

lemma spoofing_penalty_mono:
  assumes "list_all2 (\<lambda>s t. confidence s \<le> confidence t) ss ts"
  shows "spoofing_penalty_of ss \<le> spoofing_penalty_of ts"
proof (cases ss)
  case Nil
  with assms show ?thesis by (simp add: spoofing_penalty_of_def)
next
  case (Cons s rest)
  with assms obtain t rest' where ts: "ts = t # rest'"
    and st: "confidence s \<le> confidence t"
    and r: "list_all2 (\<lambda>s t. confidence s \<le> confidence t) rest rest'"
    by (auto simp: list_all2_Cons1)
  from r have "list_all2 (\<le>) (map confidence rest) (map confidence rest')"
    by (simp add: list_all2_map1 list_all2_map2)
  from foldl_max_mono [OF this st] show ?thesis
    by (simp add: spoofing_penalty_of_def Cons ts)
qed

lemma spoofing_penalty_le:
  assumes "\<forall>s\<in>set ss. confidence s \<le> 1"
  shows "spoofing_penalty_of ss \<le> 1"
proof (cases ss)
  case Nil
  then show ?thesis by (simp add: spoofing_penalty_of_def)
next
  case (Cons s rest)
  from assms Cons have "foldl max (confidence s) (map confidence rest) \<le> 1"
    by (intro foldl_max_le) auto
  then show ?thesis by (simp add: spoofing_penalty_of_def Cons)
qed

lemma blend_reliability_mono: "c \<le> d \<Longrightarrow> blend_reliability us c \<le> blend_reliability us d"
  by (simp add: blend_reliability_def divide_right_mono)

lemma overall_confidence_mono:
  assumes fc: "0 \<le> fusion_confidence fused"
    and sev: "list_all2 (\<lambda>a b. severity a \<le> severity b) as bs"
    and conf: "list_all2 (\<lambda>s t. confidence s \<le> confidence t) ss ts"
    and sev1: "\<forall>b\<in>set bs. severity b \<le> 1"
    and conf1: "\<forall>t\<in>set ts. confidence t \<le> 1"
  shows "calculate_overall_confidence fused us bs ts \<le> calculate_overall_confidence fused us as ss"
proof -
  let ?c = "fusion_confidence fused"
  have pa: "anomaly_penalty_of as \<le> anomaly_penalty_of bs" by (rule anomaly_penalty_mono [OF sev])
  have pb: "anomaly_penalty_of bs \<le> 1" by (rule anomaly_penalty_le [OF sev1])
  have qa: "spoofing_penalty_of ss \<le> spoofing_penalty_of ts" by (rule spoofing_penalty_mono [OF conf])
  have qb: "spoofing_penalty_of ts \<le> 1" by (rule spoofing_penalty_le [OF conf1])
  have "?c * (1 - anomaly_penalty_of bs) \<le> ?c * (1 - anomaly_penalty_of as)"
    using fc pa by (intro mult_left_mono) simp_all
  moreover have "0 \<le> 1 - spoofing_penalty_of ss" using qa qb by simp
  ultimately have 1: "?c * (1 - anomaly_penalty_of bs) * (1 - spoofing_penalty_of ss)
      \<le> ?c * (1 - anomaly_penalty_of as) * (1 - spoofing_penalty_of ss)"
    by (rule mult_right_mono)
  have "0 \<le> ?c * (1 - anomaly_penalty_of bs)" using fc pb by simp
  then have 2: "?c * (1 - anomaly_penalty_of bs) * (1 - spoofing_penalty_of ts)
      \<le> ?c * (1 - anomaly_penalty_of bs) * (1 - spoofing_penalty_of ss)"
    using qa by (intro mult_left_mono) simp_all
  from 1 2 have "?c * (1 - anomaly_penalty_of bs) * (1 - spoofing_penalty_of ts)
      \<le> ?c * (1 - anomaly_penalty_of as) * (1 - spoofing_penalty_of ss)" by linarith
  then have "blend_reliability us (?c * (1 - anomaly_penalty_of bs) * (1 - spoofing_penalty_of ts))
      \<le> blend_reliability us (?c * (1 - anomaly_penalty_of as) * (1 - spoofing_penalty_of ss))"
    by (rule blend_reliability_mono)
  then show ?thesis
    unfolding overall_confidence_factored by auto
qed

lemma overall_confidence_clamped:
  "0 \<le> calculate_overall_confidence fused us as ss \<and>
   calculate_overall_confidence fused us as ss \<le> 1"
  unfolding overall_confidence_factored by auto

text \<open>
  C6: with the fusion confidence and the uncertainties fixed, raising anomaly severities or
  spoofing-alert confidences (each within the data model's range, the fusion confidence
  being non-negative) never raises the overall confidence; and the overall confidence
  always lies in \<open>[0, 1]\<close>.
\<close>

theorem overall_confidence_monotone_clamped:
  "(0 \<le> fusion_confidence fused \<and>
    list_all2 (\<lambda>a b. severity a \<le> severity b) as bs \<and>
    list_all2 (\<lambda>s t. confidence s \<le> confidence t) ss ts \<and>
    (\<forall>b\<in>set bs. severity b \<le> 1) \<and>
    (\<forall>t\<in>set ts. confidence t \<le> 1)
    \<longrightarrow> calculate_overall_confidence fused us bs ts
          \<le> calculate_overall_confidence fused us as ss) \<and>
   0 \<le> calculate_overall_confidence fused us as ss \<and>
   calculate_overall_confidence fused us as ss \<le> 1"
  using overall_confidence_mono [of fused as bs ss ts us]
    overall_confidence_clamped [of fused us as ss]
  by blast

theorem overall_confidence_monotone_clamped_witness:
  "0 \<le> fusion_confidence example_fused \<and>
   list_all2 (\<lambda>a b. severity a \<le> severity b)
     [(degradation_anomaly 0 ''gps'')\<lparr>severity := 5 / 10\<rparr>] [degradation_anomaly 0 ''gps''] \<and>
   list_all2 (\<lambda>s t. confidence s \<le> confidence t)
     [gps_jump_alert 0 2000 5 (97192 / 125) (0, 0) (0, 0)]
     [gps_jump_alert 0 4000 5 (194384 / 125) (0, 0) (0, 0)] \<and>
   severity (degradation_anomaly 0 ''gps'') \<le> 1 \<and>
   confidence (gps_jump_alert 0 4000 5 (194384 / 125) (0, 0) (0, 0)) \<le> 1 \<and>
   calculate_overall_confidence example_fused example_uncertainties
     [degradation_anomaly 0 ''gps''] [gps_jump_alert 0 4000 5 (194384 / 125) (0, 0) (0, 0)]
   \<le> calculate_overall_confidence example_fused example_uncertainties
       [(degradation_anomaly 0 ''gps'')\<lparr>severity := 5 / 10\<rparr>]
       [gps_jump_alert 0 2000 5 (97192 / 125) (0, 0) (0, 0)] \<and>
   0 \<le> calculate_overall_confidence example_fused example_uncertainties
       [(degradation_anomaly 0 ''gps'')\<lparr>severity := 5 / 10\<rparr>]
       [gps_jump_alert 0 2000 5 (97192 / 125) (0, 0) (0, 0)] \<and>
   calculate_overall_confidence example_fused example_uncertainties
       [(degradation_anomaly 0 ''gps'')\<lparr>severity := 5 / 10\<rparr>]
       [gps_jump_alert 0 2000 5 (97192 / 125) (0, 0) (0, 0)] \<le> 1"
proof -
  have h1: "0 \<le> fusion_confidence example_fused" by (simp add: example_fused_def)
  have h2: "list_all2 (\<lambda>a b. severity a \<le> severity b)
     [(degradation_anomaly 0 ''gps'')\<lparr>severity := 5 / 10\<rparr>] [degradation_anomaly 0 ''gps'']"
    by (simp add: degradation_anomaly_def)
  have h3: "list_all2 (\<lambda>s t. confidence s \<le> confidence t)
     [gps_jump_alert 0 2000 5 (97192 / 125) (0, 0) (0, 0)]
     [gps_jump_alert 0 4000 5 (194384 / 125) (0, 0) (0, 0)]"
    by (simp add: gps_jump_alert_def)
  have h4: "\<forall>b\<in>set [degradation_anomaly 0 ''gps'']. severity b \<le> 1"
    by (simp add: degradation_anomaly_def)
  have h5: "\<forall>t\<in>set [gps_jump_alert 0 4000 5 (194384 / 125) (0, 0) (0, 0)]. confidence t \<le> 1"
    by (simp add: gps_jump_alert_def)
  from overall_confidence_monotone_clamped
    [of example_fused "[(degradation_anomaly 0 ''gps'')\<lparr>severity := 5 / 10\<rparr>]"
        "[degradation_anomaly 0 ''gps'']"
        "[gps_jump_alert 0 2000 5 (97192 / 125) (0, 0) (0, 0)]"
        "[gps_jump_alert 0 4000 5 (194384 / 125) (0, 0) (0, 0)]" example_uncertainties]
    h1 h2 h3 h4 h5
  show ?thesis by simp
qed

subsection \<open>Alert ranking\<close>







subsection \<open>Inverse-variance pooling\<close>

lemma pooled_std_equal:
  assumes "0 < s"
  shows "pooled_std [s, s] = Inr (s / sqrt 2)"
proof -
  have "1 / (1 / s\<^sup>2 + 1 / s\<^sup>2) = s\<^sup>2 / 2" using assms by (simp add: field_simps)
  then have "sqrt (1 / (1 / s\<^sup>2 + 1 / s\<^sup>2)) = sqrt (s\<^sup>2 / 2)" by simp
  also have "\<dots> = s / sqrt 2" using assms by (simp add: real_sqrt_divide)
  finally show ?thesis using assms by (simp add: pooled_std_def)
qed

lemma position_std_cases:
  "map_sum id std_deviation (calculate_position_uncertainty m fused sd) =
     (let ms = position_measurements m sd in
      if ms = [] then Inr 100
      else if length ms = 1 then Inr (snd (ms ! 0))
      else pooled_std (map snd ms))"
  by (simp add: calculate_position_uncertainty_def Let_def split: sum.splits)

text \<open>
  C5: inverse-variance pooling in the position uncertainty. Two sensors of one standard
  deviation \<open>s > 0\<close> give \<open>s / sqrt 2\<close>; two or more sensors give
  \<open>sqrt (1 / sum (1 / sigma\<^sup>2))\<close>; one sensor gives its own standard deviation; no sensor
  gives 100. \<open>position_measurements\<close> lists the sensors that are present with their
  standard deviations.
\<close>

theorem position_uncertainty_pooling:
  "(position_measurements m sd = [(k1, s), (k2, s)] \<and> 0 < s \<longrightarrow>
      map_sum id std_deviation (calculate_position_uncertainty m fused sd) = Inr (s / sqrt 2)) \<and>
   (2 \<le> length (position_measurements m sd) \<and> 0 \<notin> snd ` set (position_measurements m sd) \<longrightarrow>
      map_sum id std_deviation (calculate_position_uncertainty m fused sd)
        = Inr (sqrt (1 / (\<Sum>(k, sigma)\<leftarrow>position_measurements m sd. 1 / sigma\<^sup>2)))) \<and>
   (position_measurements m sd = [(k1, s)] \<longrightarrow>
      map_sum id std_deviation (calculate_position_uncertainty m fused sd) = Inr s) \<and>
   (position_measurements m sd = [] \<longrightarrow>
      map_sum id std_deviation (calculate_position_uncertainty m fused sd) = Inr 100)"
proof -
  have a: "position_measurements m sd = [(k1, s), (k2, s)] \<Longrightarrow> 0 < s \<Longrightarrow>
      map_sum id std_deviation (calculate_position_uncertainty m fused sd) = Inr (s / sqrt 2)"
    using pooled_std_equal [of s] by (simp add: position_std_cases)
  have e: "(\<Sum>(k, sigma)\<leftarrow>position_measurements m sd. 1 / sigma\<^sup>2)
      = (\<Sum>sigma\<leftarrow>map snd (position_measurements m sd). 1 / sigma\<^sup>2)"
    by (simp add: comp_def case_prod_unfold)
  have b: "2 \<le> length (position_measurements m sd) \<Longrightarrow>
      0 \<notin> snd ` set (position_measurements m sd) \<Longrightarrow>
      map_sum id std_deviation (calculate_position_uncertainty m fused sd)
        = Inr (sqrt (1 / (\<Sum>(k, sigma)\<leftarrow>position_measurements m sd. 1 / sigma\<^sup>2)))"
    unfolding e by (auto simp: position_std_cases Let_def pooled_std_def)
  have c: "position_measurements m sd = [(k1, s)] \<Longrightarrow>
      map_sum id std_deviation (calculate_position_uncertainty m fused sd) = Inr s"
    by (simp add: position_std_cases)
  have d: "position_measurements m sd = [] \<Longrightarrow>
      map_sum id std_deviation (calculate_position_uncertainty m fused sd) = Inr 100"
    by (simp add: position_std_cases)
  from a b c d show ?thesis by blast
qed

lemma example_present:
  "gps_present example_snapshot = Some example_gps"
  "ais_present example_snapshot = Some example_ais"
  "radar_present example_snapshot = None"
  by (simp_all add: gps_present_def ais_present_def radar_present_def present_def
      example_snapshot_def example_gps_def example_ais_def gps_items_def ais_items_def
      num_item_def str_item_def targets_item_def)

lemma empty_present:
  "gps_present empty_snapshot = None"
  "ais_present empty_snapshot = None"
  "radar_present empty_snapshot = None"
  by (simp_all add: gps_present_def ais_present_def radar_present_def present_def
      empty_snapshot_def)

theorem position_uncertainty_pooling_witness:
  "map_sum id std_deviation
     (calculate_position_uncertainty (UncertaintyModeler_init\<lparr>su_ais_position := 5\<rparr>)
        example_fused example_snapshot) = Inr (5 / sqrt 2) \<and>
   map_sum id std_deviation
     (calculate_position_uncertainty UncertaintyModeler_init example_fused example_snapshot)
     = Inr (sqrt (1 / (1 / 5\<^sup>2 + 1 / 10\<^sup>2))) \<and>
   map_sum id std_deviation
     (calculate_position_uncertainty UncertaintyModeler_init example_fused
        (example_snapshot\<lparr>sd_ais := Missing\<rparr>)) = Inr 5 \<and>
   map_sum id std_deviation
     (calculate_position_uncertainty UncertaintyModeler_init example_fused empty_snapshot)
     = Inr 100"
proof -
  have g: "gps_present (example_snapshot\<lparr>sd_ais := Missing\<rparr>) = Some example_gps"
    "ais_present (example_snapshot\<lparr>sd_ais := Missing\<rparr>) = None"
    "radar_present (example_snapshot\<lparr>sd_ais := Missing\<rparr>) = None"
    by (simp_all add: gps_present_def ais_present_def radar_present_def present_def
      example_snapshot_def example_gps_def gps_items_def num_item_def str_item_def)
  have m1: "position_measurements (UncertaintyModeler_init\<lparr>su_ais_position := 5\<rparr>)
      example_snapshot = [(''gps'', 5), (''ais'', 5)]"
    by (simp add: position_measurements_def example_present UncertaintyModeler_init_def)
  have m2: "position_measurements UncertaintyModeler_init example_snapshot
      = [(''gps'', 5), (''ais'', 10)]"
    by (simp add: position_measurements_def example_present UncertaintyModeler_init_def)
  have m3: "position_measurements UncertaintyModeler_init
      (example_snapshot\<lparr>sd_ais := Missing\<rparr>) = [(''gps'', 5)]"
    by (simp add: position_measurements_def g UncertaintyModeler_init_def)
  have m4: "position_measurements UncertaintyModeler_init empty_snapshot = []"
    by (simp add: position_measurements_def empty_present)
  from position_uncertainty_pooling
      [of "UncertaintyModeler_init\<lparr>su_ais_position := 5\<rparr>" example_snapshot
          "''gps''" 5 "''ais''" example_fused] m1
  have w1: "map_sum id std_deviation
     (calculate_position_uncertainty (UncertaintyModeler_init\<lparr>su_ais_position := 5\<rparr>)
        example_fused example_snapshot) = Inr (5 / sqrt 2)" by simp
  from position_uncertainty_pooling
      [of UncertaintyModeler_init example_snapshot "''gps''" 5 "''ais''" example_fused] m2
  have w2: "map_sum id std_deviation
     (calculate_position_uncertainty UncertaintyModeler_init example_fused example_snapshot)
     = Inr (sqrt (1 / (1 / 5\<^sup>2 + 1 / 10\<^sup>2)))" by simp
  from position_uncertainty_pooling
      [of UncertaintyModeler_init "example_snapshot\<lparr>sd_ais := Missing\<rparr>" "''gps''" 5
          "''ais''" example_fused] m3
  have w3: "map_sum id std_deviation
     (calculate_position_uncertainty UncertaintyModeler_init example_fused
        (example_snapshot\<lparr>sd_ais := Missing\<rparr>)) = Inr 5" by simp
  from position_uncertainty_pooling
      [of UncertaintyModeler_init empty_snapshot "''gps''" 5 "''ais''" example_fused] m4
  have w4: "map_sum id std_deviation
     (calculate_position_uncertainty UncertaintyModeler_init example_fused empty_snapshot)
     = Inr 100" by simp
  from w1 w2 w3 w4 show ?thesis by blast
qed

subsection \<open>Quality scores\<close>

lemma map_of_dict_set: "map_of (dict_set d k v) = (map_of d)(k \<mapsto> v)"
  by (induction d k v rule: dict_set.induct) (auto simp: fun_eq_iff)

lemma map_of_quality_step:
  "map_of (quality_step scores (k, v)) =
     (case quality_of v of None \<Rightarrow> map_of scores | Some q \<Rightarrow> (map_of scores)(k \<mapsto> q))"
  by (simp add: quality_step_def map_of_dict_set split: option.splits)

lemma map_of_quality_fold:
  "distinct (map fst items) \<Longrightarrow>
   map_of (foldl quality_step scores items) k =
     (case map_of items k of
        None \<Rightarrow> map_of scores k
      | Some v \<Rightarrow> (case quality_of v of None \<Rightarrow> map_of scores k | Some q \<Rightarrow> Some q))"
proof (induction items arbitrary: scores)
  case Nil
  then show ?case by simp
next
  case (Cons item items)
  obtain k' v' where item: "item = (k', v')" by (cases item)
  from Cons.prems item have d: "distinct (map fst items)" and nk: "k' \<notin> fst ` set items"
    by auto
  from nk have none: "map_of items k' = None" by (simp add: map_of_eq_None_iff)
  have step: "map_of (foldl quality_step scores (item # items)) k =
     (case map_of items k of
        None \<Rightarrow> map_of (quality_step scores (k', v')) k
      | Some v \<Rightarrow>
          (case quality_of v of
             None \<Rightarrow> map_of (quality_step scores (k', v')) k
           | Some q \<Rightarrow> Some q))"
    using Cons.IH [OF d, of "quality_step scores (k', v')"] by (simp add: item)
  show ?case
  proof (cases "k = k'")
    case True
    with none have "map_of items k = None" by simp
    with True show ?thesis
      unfolding step by (simp add: item map_of_quality_step split: option.splits)
  next
    case False
    then show ?thesis
      unfolding step by (simp add: item map_of_quality_step split: option.splits)
  qed
qed

lemma quality_scores_lookup:
  "distinct (map fst (sensor_data_items sd)) \<Longrightarrow>
   map_of (calculate_quality_scores sd) k =
     (case map_of (sensor_data_items sd) k of None \<Rightarrow> None | Some v \<Rightarrow> quality_of v)"
  by (simp add: calculate_quality_scores_def map_of_quality_fold split: option.splits)

text \<open>
  C7, as the code has it: in a snapshot with distinct keys, a sensor whose value is a
  mapping gets the score \<open>min(1, len / 10)\<close>; a value that is neither \<open>None\<close> nor a
  mapping gets \<open>0.5\<close>; a sensor that is missing or \<open>None\<close> has no score.
\<close>

theorem quality_scores_by_shape:
  "distinct (map fst (sensor_data_items sd)) \<Longrightarrow>
   (map_of (sensor_data_items sd) k = Some (PDict d) \<longrightarrow>
      map_of (calculate_quality_scores sd) k = Some (min 1 (real (length d) / 10))) \<and>
   (map_of (sensor_data_items sd) k = Some v \<and> v \<noteq> PNone \<and> (\<forall>d. v \<noteq> PDict d) \<longrightarrow>
      map_of (calculate_quality_scores sd) k = Some (5 / 10)) \<and>
   (map_of (sensor_data_items sd) k = None \<or> map_of (sensor_data_items sd) k = Some PNone \<longrightarrow>
      map_of (calculate_quality_scores sd) k = None)"
  by (cases v) (auto simp: quality_scores_lookup)

lemma scalar_tide_items:
  "sensor_data_items scalar_tide_snapshot = [(''tide'', PNum (12 / 10))]"
  by (simp add: sensor_data_items_def scalar_tide_snapshot_def sensor_item_def)

text \<open>
  C7 as stated fails for a reading that is not a mapping: the tide reading \<open>1.2\<close> is
  present and not \<open>None\<close>, has no fields, and is scored \<open>0.5\<close>, not \<open>min(1, 0 / 10)\<close>.
\<close>

theorem quality_score_scalar_counterexample:
  "map_of (sensor_data_items scalar_tide_snapshot) ''tide'' = Some (PNum (12 / 10)) \<and>
   PNum (12 / 10) \<noteq> PNone \<and>
   map_of (calculate_quality_scores scalar_tide_snapshot) ''tide'' = Some (5 / 10) \<and>
   spec_quality_score (PNum (12 / 10)) = 0 \<and>
   map_of (calculate_quality_scores scalar_tide_snapshot) ''tide''
     \<noteq> Some (spec_quality_score (PNum (12 / 10)))"
  by (simp add: scalar_tide_items calculate_quality_scores_def quality_step_def
      spec_quality_score_def field_count_def)

lemma example_items:
  "sensor_data_items example_snapshot =
     [(''gps'', PDict (gps_items example_gps)), (''ais'', PDict (ais_items example_ais))]"
  by (simp add: sensor_data_items_def example_snapshot_def sensor_item_def)

theorem quality_scores_by_shape_witness:
  "distinct (map fst (sensor_data_items example_snapshot)) \<and>
   map_of (sensor_data_items example_snapshot) ''gps'' = Some (PDict (gps_items example_gps)) \<and>
   length (gps_items example_gps) = 4 \<and>
   map_of (calculate_quality_scores example_snapshot) ''gps'' = Some (4 / 10) \<and>
   distinct (map fst (sensor_data_items scalar_tide_snapshot)) \<and>
   map_of (calculate_quality_scores scalar_tide_snapshot) ''tide'' = Some (5 / 10) \<and>
   map_of (calculate_quality_scores scalar_tide_snapshot) ''gps'' = None"
proof -
  have d1: "distinct (map fst (sensor_data_items example_snapshot))"
    by (simp add: example_items)
  have l1: "map_of (sensor_data_items example_snapshot) ''gps'' = Some (PDict (gps_items example_gps))"
    by (simp add: example_items)
  have n1: "length (gps_items example_gps) = 4"
    by (simp add: gps_items_def example_gps_def num_item_def str_item_def)
  have d2: "distinct (map fst (sensor_data_items scalar_tide_snapshot))"
    by (simp add: scalar_tide_items)
  have l2: "map_of (sensor_data_items scalar_tide_snapshot) ''tide'' = Some (PNum (12 / 10))"
    by (simp add: scalar_tide_items)
  have l3: "map_of (sensor_data_items scalar_tide_snapshot) ''gps'' = None"
    by (simp add: scalar_tide_items)
  from quality_scores_by_shape [OF d1, of "''gps''" "gps_items example_gps" PNone] l1 n1
  have w1: "map_of (calculate_quality_scores example_snapshot) ''gps'' = Some (4 / 10)"
    by simp
  from quality_scores_by_shape [OF d2, of "''tide''" "[]" "PNum (12 / 10)"] l2
  have w2: "map_of (calculate_quality_scores scalar_tide_snapshot) ''tide'' = Some (5 / 10)"
    by simp
  from quality_scores_by_shape [OF d2, of "''gps''" "[]" PNone] l3
  have w3: "map_of (calculate_quality_scores scalar_tide_snapshot) ''gps'' = None"
    by simp
  from d1 l1 n1 w1 d2 w2 w3 show ?thesis by blast
qed

subsection \<open>Bounded histories\<close>

lemma push_bounded_length: "length h \<le> cap \<Longrightarrow> length (push_bounded cap h x) \<le> cap"
  by (simp add: push_bounded_def Let_def)

lemma push_bounded_full:
  "length h = cap \<Longrightarrow> 0 < cap \<Longrightarrow> push_bounded cap h x = tl h @ [x]"
  by (cases h) (simp_all add: push_bounded_def Let_def)

lemma push_bounded_room: "length h < cap \<Longrightarrow> push_bounded cap h x = h @ [x]"
  by (simp add: push_bounded_def Let_def)

lemma anomaly_detect_state:
  "snd (anomaly_detect det now fused sd) = update_history det now (vessel_state fused)"
  by (simp add: anomaly_detect_def Let_def)

lemma update_history_bounded: "ad_bounded det \<Longrightarrow> ad_bounded (update_history det now vs)"
  by (simp add: ad_bounded_def update_history_def push_bounded_length)

lemma anomaly_run_bounded: "ad_bounded det \<Longrightarrow> ad_bounded (anomaly_run det calls)"
  by (induction det calls rule: anomaly_run.induct)
     (simp_all add: anomaly_detect_state update_history_bounded)

lemma gps_spoofing_incidents:
  "spoofing_incidents (snd (detect_gps_spoofing det now sd)) = spoofing_incidents det"
  by (simp add: detect_gps_spoofing_def Let_def split: option.splits prod.splits)

lemma ais_spoofing_incidents:
  "spoofing_incidents (snd (detect_ais_spoofing det now sd)) = spoofing_incidents det"
  by (simp add: detect_ais_spoofing_def Let_def split: option.splits prod.splits)

lemma spoofing_detect_incidents:
  "spoofing_incidents (snd (spoofing_detect det now sd fused)) =
     (if fst (spoofing_detect det now sd fused) = [] then spoofing_incidents det
      else push_bounded spoofing_max_history (spoofing_incidents det)
             (make_incident now (fst (spoofing_detect det now sd fused))))"
proof -
  obtain g d1 where g: "detect_gps_spoofing det now sd = (g, d1)" by (cases "detect_gps_spoofing det now sd")
  obtain a d2 where a: "detect_ais_spoofing d1 now sd = (a, d2)" by (cases "detect_ais_spoofing d1 now sd")
  from g gps_spoofing_incidents [of det now sd] have 1: "spoofing_incidents d1 = spoofing_incidents det" by simp
  from a ais_spoofing_incidents [of d1 now sd] have 2: "spoofing_incidents d2 = spoofing_incidents d1" by simp
  show ?thesis
    by (auto simp: spoofing_detect_def g a 1 2 Let_def log_spoofing_incident_def)
qed

lemma spoofing_detect_bounded:
  "length (spoofing_incidents det) \<le> spoofing_max_history \<Longrightarrow>
   length (spoofing_incidents (snd (spoofing_detect det now sd fused))) \<le> spoofing_max_history"
  by (simp add: spoofing_detect_incidents push_bounded_length)

lemma spoofing_run_bounded:
  "length (spoofing_incidents det) \<le> spoofing_max_history \<Longrightarrow>
   length (spoofing_incidents (spoofing_run det calls)) \<le> spoofing_max_history"
  by (induction det calls rule: spoofing_run.induct) (simp_all add: spoofing_detect_bounded)

text \<open>
  C9: after any sequence of calls to \<open>detect\<close> on a new anomaly detector, the speed,
  course and position histories have at most 30 entries; after any sequence of calls
  on a new spoofing detector the incident log has at most 100. One call appends the new
  entry and, when the history was full, drops the oldest; the incident log changes only
  when the call returned alerts.
\<close>

theorem bounded_histories:
  "length (speed_history (anomaly_run AnomalyDetector_init calls)) \<le> 30 \<and>
   length (course_history (anomaly_run AnomalyDetector_init calls)) \<le> 30 \<and>
   length (ad_position_history (anomaly_run AnomalyDetector_init calls)) \<le> 30 \<and>
   length (spoofing_incidents (spoofing_run SpoofingDetector_init scalls)) \<le> 100 \<and>
   (length (speed_history det) = 30 \<longrightarrow>
      speed_history (snd (anomaly_detect det now fused sd))
        = tl (speed_history det) @ [vs_speed (vessel_state fused)]) \<and>
   (length (speed_history det) < 30 \<longrightarrow>
      speed_history (snd (anomaly_detect det now fused sd))
        = speed_history det @ [vs_speed (vessel_state fused)]) \<and>
   (length (course_history det) = 30 \<longrightarrow>
      course_history (snd (anomaly_detect det now fused sd))
        = tl (course_history det) @ [vs_course (vessel_state fused)]) \<and>
   (length (course_history det) < 30 \<longrightarrow>
      course_history (snd (anomaly_detect det now fused sd))
        = course_history det @ [vs_course (vessel_state fused)]) \<and>
   (length (ad_position_history det) = 30 \<longrightarrow>
      ad_position_history (snd (anomaly_detect det now fused sd))
        = tl (ad_position_history det) @
          [(latitude (vs_position (vessel_state fused)),
            longitude (vs_position (vessel_state fused)), now)]) \<and>
   (length (ad_position_history det) < 30 \<longrightarrow>
      ad_position_history (snd (anomaly_detect det now fused sd))
        = ad_position_history det @
          [(latitude (vs_position (vessel_state fused)),
            longitude (vs_position (vessel_state fused)), now)]) \<and>
   (fst (spoofing_detect sdet now sd fused) \<noteq> [] \<and> length (spoofing_incidents sdet) = 100 \<longrightarrow>
      spoofing_incidents (snd (spoofing_detect sdet now sd fused))
        = tl (spoofing_incidents sdet) @
          [make_incident now (fst (spoofing_detect sdet now sd fused))]) \<and>
   (fst (spoofing_detect sdet now sd fused) \<noteq> [] \<and> length (spoofing_incidents sdet) < 100 \<longrightarrow>
      spoofing_incidents (snd (spoofing_detect sdet now sd fused))
        = spoofing_incidents sdet @
          [make_incident now (fst (spoofing_detect sdet now sd fused))]) \<and>
   (fst (spoofing_detect sdet now sd fused) = [] \<longrightarrow>
      spoofing_incidents (snd (spoofing_detect sdet now sd fused)) = spoofing_incidents sdet)"
proof -
  have i: "ad_bounded AnomalyDetector_init"
    by (simp add: ad_bounded_def AnomalyDetector_init_def)
  have a: "ad_bounded (anomaly_run AnomalyDetector_init calls)"
    by (rule anomaly_run_bounded [OF i])
  have s: "length (spoofing_incidents (spoofing_run SpoofingDetector_init scalls)) \<le> 100"
    using spoofing_run_bounded [of SpoofingDetector_init scalls]
    by (simp add: SpoofingDetector_init_def spoofing_max_history_def)
  from a s show ?thesis
    by (simp add: ad_bounded_def ad_max_history_def anomaly_detect_state update_history_def
        push_bounded_full push_bounded_room spoofing_detect_incidents spoofing_max_history_def)
qed

theorem bounded_histories_witness:
  "length (speed_history (anomaly_run AnomalyDetector_init [(0, example_fused, example_snapshot)])) \<le> 30 \<and>
   length (spoofing_incidents
     (spoofing_run SpoofingDetector_init [(0, example_snapshot, example_fused)])) \<le> 100 \<and>
   speed_history (snd (anomaly_detect (AnomalyDetector_init\<lparr>speed_history := replicate 30 1\<rparr>)
      0 example_fused example_snapshot)) = tl (replicate 30 1) @ [12] \<and>
   course_history (snd (anomaly_detect (AnomalyDetector_init\<lparr>speed_history := replicate 30 1\<rparr>)
      0 example_fused example_snapshot)) = [45]"
  using bounded_histories
    [where calls = "[(0, example_fused, example_snapshot)]"
       and scalls = "[(0, example_snapshot, example_fused)]"
       and det = "AnomalyDetector_init\<lparr>speed_history := replicate 30 1\<rparr>"
       and now = 0 and fused = example_fused and sd = example_snapshot
       and sdet = SpoofingDetector_init]
  by (simp add: AnomalyDetector_init_def example_fused_def)

subsection \<open>Anomaly adjustment of the position uncertainty\<close>

lemma no_position_kind: "\<not> str_contains ''position'' (AnomalyType_value t)"
  by (cases t) simp_all

lemma map_of_update_entry:
  "map_of (update_entry k f d) k' = (if k' = k then map_option f (map_of d k') else map_of d k')"
  by (induction d) (auto simp: update_entry_def)

lemma map_of_map_values:
  "map_of (map (\<lambda>(k, u). (k, g u)) d) k' = map_option g (map_of d k')"
  by (induction d) auto

lemma adjust_step_position:
  assumes "map_of us ''position'' = Some q"
  shows "map_of (adjust_step f us a) ''position''
           = Some (q\<lparr>reliability := reliability q * sensor_factor a\<rparr>)"
  using assms
  by (simp add: adjust_step_def Let_def no_position_kind map_of_update_entry map_of_map_values
      sensor_factor_def)

lemma adjust_fold_position:
  "map_of us ''position'' = Some q \<Longrightarrow>
   map_of (foldl (adjust_step f) us as) ''position''
     = Some (q\<lparr>reliability := reliability q * prod_list (map sensor_factor as)\<rparr>)"
proof (induction as arbitrary: us q)
  case Nil
  then show ?case by simp
next
  case (Cons a as)
  from adjust_step_position [OF Cons.prems, of f a]
  have "map_of (foldl (adjust_step f) (adjust_step f us a) as) ''position''
      = Some (q\<lparr>reliability := reliability q * sensor_factor a\<rparr>
               \<lparr>reliability := reliability (q\<lparr>reliability := reliability q * sensor_factor a\<rparr>)
                  * prod_list (map sensor_factor as)\<rparr>)"
    by (rule Cons.IH)
  then show ?case by (simp add: mult.assoc)
qed

lemma adjust_for_anomalies_position:
  "map_of us ''position'' = Some q \<Longrightarrow>
   map_of (adjust_for_anomalies us as) ''position''
     = Some (q\<lparr>reliability := reliability q * prod_list (map sensor_factor as)\<rparr>)"
  by (cases as) (simp_all add: adjust_for_anomalies_def Let_def adjust_fold_position
      del: foldl_Cons)

lemma calculate_position_entry:
  assumes "calculate m fused sd anoms = Inr us"
    and "calculate_position_uncertainty m fused sd = Inr p"
  shows "map_of us ''position''
           = Some (p\<lparr>reliability := reliability p * prod_list (map sensor_factor anoms)\<rparr>)"
proof -
  from assms obtain base where
    us: "us = (if anoms \<noteq> [] then adjust_for_anomalies base anoms else base)"
    and b: "map_of base ''position'' = Some p"
    by (auto simp: calculate_def Let_def split: sum.splits)
  show ?thesis
  proof (cases "anoms = []")
    case True
    with us b show ?thesis by simp
  next
    case False
    with us have "us = adjust_for_anomalies base anoms" by simp
    with adjust_for_anomalies_position [OF b, of anoms] show ?thesis by simp
  qed
qed

lemma calculate_init_total:
  "\<exists>us. calculate UncertaintyModeler_init fused sd anoms = Inr us"
  by (simp add: calculate_def calculate_position_uncertainty_def calculate_speed_uncertainty_def
      calculate_course_uncertainty_def position_measurements_def pooled_with_reliability_def
      pooled_std_def UncertaintyModeler_init_def Let_def split: option.splits)

text \<open>
  C10: no anomaly kind has \<open>position\<close> in its name, so \<open>calculate\<close> leaves the position
  uncertainty as \<open>_calculate_position_uncertainty\<close> built it, but for its reliability,
  which is scaled by the factor of each anomaly whose kind contains \<open>sensor\<close>; the
  standard deviation is the one before the adjustment. With the table of \<open>__init__\<close>,
  \<open>calculate\<close> always returns.
\<close>

theorem position_std_not_inflated:
  "(\<not> str_contains ''position'' (AnomalyType_value t)) \<and>
   (calculate m fused sd anoms = Inr us \<and> calculate_position_uncertainty m fused sd = Inr p \<longrightarrow>
      map_of us ''position''
        = Some (p\<lparr>reliability := reliability p * prod_list (map sensor_factor anoms)\<rparr>) \<and>
      map_option std_deviation (map_of us ''position'') = Some (std_deviation p)) \<and>
   (\<exists>us'. calculate UncertaintyModeler_init fused sd anoms = Inr us')"
  using no_position_kind [of t] calculate_position_entry [of m fused sd anoms us p]
    calculate_init_total [of fused sd anoms]
  by auto

theorem position_std_not_inflated_witness:
  "map_option std_deviation
     (map_of (projr (calculate UncertaintyModeler_init example_fused example_snapshot
                       [degradation_anomaly 0 ''radar'']))
        ''position'')
     = Some (std_deviation
         (projr (calculate_position_uncertainty UncertaintyModeler_init example_fused
                   example_snapshot)))"
proof -
  from position_std_not_inflated
    [of TRAJECTORY_DEVIATION UncertaintyModeler_init example_fused example_snapshot
        "[degradation_anomaly 0 ''radar'']"]
  obtain us where us: "calculate UncertaintyModeler_init example_fused example_snapshot
      [degradation_anomaly 0 ''radar''] = Inr us" by blast
  then obtain p where p: "calculate_position_uncertainty UncertaintyModeler_init example_fused
      example_snapshot = Inr p"
    by (auto simp: calculate_def split: sum.splits)
  from position_std_not_inflated
    [of TRAJECTORY_DEVIATION UncertaintyModeler_init example_fused example_snapshot
        "[degradation_anomaly 0 ''radar'']" us p] us p
  show ?thesis by simp
qed

subsection \<open>A gps position jump\<close>

lemma atan2_sin_cos:
  assumes "0 \<le> t" "t < pi / 2"
  shows "atan2 (sin t) (cos t) = t"
proof -
  from assms have c: "0 < cos t" by (intro cos_gt_zero_pi) simp_all
  have "arctan (sin t / cos t) = arctan (tan t)" by (simp add: tan_def)
  also have "\<dots> = t" using assms by (intro arctan_tan) simp_all
  finally show ?thesis using c by (simp add: atan2_def)
qed

lemma haversine_meridian:
  assumes "0 \<le> x" "x < 180"
  shows "haversine_distance 0 lon x lon = 6371000 * radians x"
proof -
  define t where "t = x * pi / 360"
  from assms have t0: "0 \<le> t" by (simp add: t_def)
  from assms have "x * pi < 180 * pi" by simp
  then have t1: "t < pi / 2" by (simp add: t_def)
  from t0 t1 have s: "0 \<le> sin t" by (intro sin_ge_zero) simp_all
  from t0 t1 have c: "0 \<le> cos t" by (intro cos_ge_zero) simp_all
  have a: "\<bar>sin t\<bar> = sin t" using s by simp
  have "1 - (sin t)\<^sup>2 = (cos t)\<^sup>2" by (simp add: cos_squared_eq)
  then have b: "sqrt (1 - (sin t)\<^sup>2) = cos t" using c by simp
  have "haversine_distance 0 lon x lon
      = 6371000 * (2 * atan2 \<bar>sin t\<bar> (sqrt (1 - (sin t)\<^sup>2)))"
    by (simp add: haversine_distance_def Let_def radians_def t_def)
  also have "\<dots> = 6371000 * (2 * atan2 (sin t) (cos t))"
    by (simp only: a b)
  also have "\<dots> = 6371000 * (2 * t)"
    by (simp only: atan2_sin_cos [OF t0 t1])
  also have "\<dots> = 6371000 * radians x" by (simp add: t_def radians_def)
  finally show ?thesis .
qed

lemma jump_distance: "haversine_distance 0 0 jump_latitude 0 = 2000"
proof -
  have "360 < 180 * (6371 * pi)" using pi_ge_two by simp
  then have "jump_latitude < 180"
    by (simp add: jump_latitude_def pos_divide_less_eq)
  moreover have "0 \<le> jump_latitude" by (simp add: jump_latitude_def)
  ultimately have "haversine_distance 0 0 jump_latitude 0 = 6371000 * radians jump_latitude"
    by (intro haversine_meridian)
  also have "\<dots> = 2000" by (simp add: radians_def jump_latitude_def)
  finally show ?thesis .
qed

lemma gps_only_present:
  "gps_present (gps_only lat lon)
     = Some \<lparr>gps_latitude = Some lat, gps_longitude = Some lon, gps_speed = None,
             gps_course = None, gps_timestamp = None, gps_extra = []\<rparr>"
  "ais_present (gps_only lat lon) = None"
  "radar_present (gps_only lat lon) = None"
  by (simp_all add: gps_present_def ais_present_def radar_present_def present_def gps_only_def
      gps_items_def num_item_def str_item_def)

lemma gps_only_rest:
  "detect_ais_spoofing det now (gps_only lat lon) = ([], det)"
  "detect_multi_sensor_spoofing now (gps_only lat lon) = []"
  "detect_time_manipulation now (gps_only lat lon) = []"
  by (simp_all add: detect_ais_spoofing_def detect_multi_sensor_spoofing_def
      detect_time_manipulation_def sensor_positions_def gps_only_present coordinates_def)

lemma first_batch:
  "spoofing_detect SpoofingDetector_init 0 (gps_only 0 0) fused
     = ([], SpoofingDetector_init\<lparr>previous_gps_position := Some (0, 0),
                                   last_update_time := Some 0\<rparr>)"
  by (simp add: spoofing_detect_def detect_gps_spoofing_def gps_only_present gps_only_rest
      SpoofingDetector_init_def)

lemma second_batch:
  "fst (spoofing_detect
         (SpoofingDetector_init\<lparr>previous_gps_position := Some (0, 0),
                                last_update_time := Some 0\<rparr>)
         5 (gps_only jump_latitude 0) fused)
     = [gps_jump_alert 5 2000 5 (97192 / 125) (0, 0) (jump_latitude, 0)]"
  by (simp add: spoofing_detect_def detect_gps_spoofing_def gps_only_present
      gps_only_rest jump_distance Let_def th_position_jump_def)

text \<open>
  C1 as stated fails: after a first batch at \<open>(0, 0)\<close> at time 0, a second batch 2000 m
  away at time 5 returns the position-jump alert alone; the impossible-speed alert is not
  in the list.
\<close>

theorem jump_without_speed_alert_counterexample:
  "haversine_distance 0 0 jump_latitude 0 = 2000 \<and>
   fst (spoofing_detect
          (snd (spoofing_detect SpoofingDetector_init 0 (gps_only 0 0) example_fused))
          5 (gps_only jump_latitude 0) example_fused)
     = [gps_jump_alert 5 2000 5 (97192 / 125) (0, 0) (jump_latitude, 0)] \<and>
   gps_speed_alert 5 2000 5 (97192 / 125)
     \<notin> set (fst (spoofing_detect
          (snd (spoofing_detect SpoofingDetector_init 0 (gps_only 0 0) example_fused))
          5 (gps_only jump_latitude 0) example_fused))"
proof -
  have r: "fst (spoofing_detect
          (snd (spoofing_detect SpoofingDetector_init 0 (gps_only 0 0) example_fused))
          5 (gps_only jump_latitude 0) example_fused)
     = [gps_jump_alert 5 2000 5 (97192 / 125) (0, 0) (jump_latitude, 0)]"
    by (simp only: first_batch snd_conv second_batch)
  have "gps_speed_alert 5 2000 5 (97192 / 125)
      \<noteq> gps_jump_alert 5 2000 5 (97192 / 125) (0, 0) (jump_latitude, 0)"
    by (simp add: gps_speed_alert_def gps_jump_alert_def)
  with r jump_distance show ?thesis by simp
qed


lemma ais_alert_ids:
  "a \<in> set (fst (detect_ais_spoofing det now sd)) \<Longrightarrow>
   sp_alert_id a = ''ais_spoof_'' \<or> sp_alert_id a = ''ais_jump_''"
  by (auto simp: detect_ais_spoofing_def Let_def ais_speed_alert_def ais_jump_alert_def
      split: option.splits prod.splits if_splits)

lemma multi_alert_ids:
  "a \<in> set (detect_multi_sensor_spoofing now sd) \<Longrightarrow> sp_alert_id a = ''multi_spoof_''"
  by (auto simp: detect_multi_sensor_spoofing_def Let_def split: if_splits)

lemma time_alert_ids:
  "a \<in> set (detect_time_manipulation now sd) \<Longrightarrow> sp_alert_id a = ''time_spoof_''"
  by (auto simp: detect_time_manipulation_def Let_def split: option.splits if_splits)

lemma other_alerts_filtered:
  assumes "k = ''gps_spoof_'' \<or> k = ''gps_speed_''"
  shows "filter (\<lambda>a. sp_alert_id a = k)
           (fst (detect_ais_spoofing det now sd) @ detect_multi_sensor_spoofing now sd @
            detect_time_manipulation now sd) = []"
  using assms
  by (auto simp: filter_empty_conv dest!: ais_alert_ids multi_alert_ids time_alert_ids)

lemma gps_jump_branch:
  assumes "previous_gps_position det = Some (plat, plon)"
    and "last_update_time det = Some t0"
    and "now - t0 = 5"
    and "gps_present sd = Some g"
    and "gps_latitude g = Some lat"
    and "gps_longitude g = Some lon"
    and "haversine_distance plat plon lat lon = 2000"
  shows "fst (detect_gps_spoofing det now sd)
           = [gps_jump_alert now 2000 5 (97192 / 125) (plat, plon) (lat, lon)]"
  using assms
  by (simp add: detect_gps_spoofing_def Let_def th_position_jump_def)

lemma spoofing_detect_alerts:
  "fst (spoofing_detect det now sd fused) =
     fst (detect_gps_spoofing det now sd) @
     fst (detect_ais_spoofing (snd (detect_gps_spoofing det now sd)) now sd) @
     detect_multi_sensor_spoofing now sd @ detect_time_manipulation now sd"
  by (simp add: spoofing_detect_def Let_def split: prod.splits)

text \<open>
  C1, as the code has it: when the gps reading lies 2000 m from the previous gps position
  and 5 s have passed, the alert list of \<open>detect\<close> has exactly one alert of the
  position-jump kind, with confidence 0.4 and an implied speed of 777.536 knots in its
  evidence, and no alert of the impossible-speed kind.
\<close>

theorem gps_jump_alert_only:
  assumes "previous_gps_position det = Some (plat, plon)"
    and "last_update_time det = Some t0"
    and "now - t0 = 5"
    and "gps_present sd = Some g"
    and "gps_latitude g = Some lat"
    and "gps_longitude g = Some lon"
    and "haversine_distance plat plon lat lon = 2000"
  shows "filter (\<lambda>a. sp_alert_id a = ''gps_spoof_'') (fst (spoofing_detect det now sd fused))
           = [gps_jump_alert now 2000 5 (97192 / 125) (plat, plon) (lat, lon)] \<and>
         filter (\<lambda>a. sp_alert_id a = ''gps_speed_'') (fst (spoofing_detect det now sd fused)) = [] \<and>
         confidence (gps_jump_alert now 2000 5 (97192 / 125) (plat, plon) (lat, lon)) = 4 / 10 \<and>
         map_of (evidence (gps_jump_alert now 2000 5 (97192 / 125) (plat, plon) (lat, lon)))
           ''implied_speed'' = Some (PNum (777536 / 1000))"
proof -
  have j: "fst (detect_gps_spoofing det now sd)
      = [gps_jump_alert now 2000 5 (97192 / 125) (plat, plon) (lat, lon)]"
    by (rule gps_jump_branch [OF assms])
  have 1: "filter (\<lambda>a. sp_alert_id a = ''gps_spoof_'') (fst (spoofing_detect det now sd fused))
      = [gps_jump_alert now 2000 5 (97192 / 125) (plat, plon) (lat, lon)]"
    unfolding spoofing_detect_alerts j
    using other_alerts_filtered [of "''gps_spoof_''" "snd (detect_gps_spoofing det now sd)" now sd]
    by (simp add: gps_jump_alert_def)
  have 2: "filter (\<lambda>a. sp_alert_id a = ''gps_speed_'') (fst (spoofing_detect det now sd fused)) = []"
    unfolding spoofing_detect_alerts j
    using other_alerts_filtered [of "''gps_speed_''" "snd (detect_gps_spoofing det now sd)" now sd]
    by (simp add: gps_jump_alert_def)
  from 1 2 show ?thesis by (simp add: gps_jump_alert_def)
qed

theorem gps_jump_alert_only_witness:
  "filter (\<lambda>a. sp_alert_id a = ''gps_spoof_'')
     (fst (spoofing_detect
        (SpoofingDetector_init\<lparr>previous_gps_position := Some (0, 0), last_update_time := Some 0\<rparr>)
        5 (gps_only jump_latitude 0) example_fused))
     = [gps_jump_alert 5 2000 5 (97192 / 125) (0, 0) (jump_latitude, 0)] \<and>
   filter (\<lambda>a. sp_alert_id a = ''gps_speed_'')
     (fst (spoofing_detect
        (SpoofingDetector_init\<lparr>previous_gps_position := Some (0, 0), last_update_time := Some 0\<rparr>)
        5 (gps_only jump_latitude 0) example_fused)) = []"
proof -
  have h1: "previous_gps_position
      (SpoofingDetector_init\<lparr>previous_gps_position := Some (0, 0), last_update_time := Some 0\<rparr>)
      = Some (0, 0)" by simp
  have h2: "last_update_time
      (SpoofingDetector_init\<lparr>previous_gps_position := Some (0, 0), last_update_time := Some 0\<rparr>)
      = Some 0" by simp
  have h3: "(5::real) - 0 = 5" by simp
  have h5: "gps_latitude \<lparr>gps_latitude = Some jump_latitude, gps_longitude = Some 0,
      gps_speed = None, gps_course = None, gps_timestamp = None, gps_extra = []\<rparr>
      = Some jump_latitude" by simp
  have h6: "gps_longitude \<lparr>gps_latitude = Some jump_latitude, gps_longitude = Some 0,
      gps_speed = None, gps_course = None, gps_timestamp = None, gps_extra = []\<rparr>
      = Some 0" by simp
  from gps_jump_alert_only [OF h1 h2 h3 gps_only_present(1) h5 h6 jump_distance, of example_fused]
  show ?thesis by simp
qed

subsection \<open>The empty snapshot\<close>

lemma fuse_vessel_state_empty:
  "fuse_vessel_state eng now empty_snapshot
     = Inr (empty_vessel_state now, update_position_history eng now 0 0)"
  by (simp add: fuse_vessel_state_def empty_present weighted_position_fusion_def
      weighted_value_fusion_def weighted_angle_fusion_def empty_vessel_state_def Let_def)

lemma fuse_targets_empty: "fuse_targets empty_snapshot = Inr []"
  by (simp add: fuse_targets_def targets_of_def empty_snapshot_def)

lemma quality_scores_empty: "calculate_quality_scores empty_snapshot = []"
  by (simp add: calculate_quality_scores_def sensor_data_items_def sensor_item_def
      empty_snapshot_def)

lemma fuse_environment_empty:
  "fuse_environment empty_snapshot
     = \<lparr>env_weather = PDict [], env_tide = PDict [], env_current = PDict [],
        env_visibility = ''good''\<rparr>"
  by (simp add: fuse_environment_def other_present_def empty_snapshot_def)

lemma fuse_empty:
  "fuse eng now empty_snapshot = (Inr (empty_fused now), update_position_history eng now 0 0)"
  by (simp add: fuse_def fuse_vessel_state_empty fuse_targets_empty quality_scores_empty
      fuse_environment_empty calculate_fusion_confidence_def empty_fused_def)

lemma spoofing_detect_empty:
  "spoofing_detect det now empty_snapshot fused = ([], det)"
  by (simp add: spoofing_detect_def detect_gps_spoofing_def detect_ais_spoofing_def
      detect_multi_sensor_spoofing_def detect_time_manipulation_def sensor_positions_def
      empty_present)

lemma predict_position_total:
  "2 \<le> length (ad_position_history det) \<Longrightarrow> \<exists>p. predict_position det = Inr p"
proof -
  assume l: "2 \<le> length (ad_position_history det)"
  then have "2 \<le> length (rev (ad_position_history det))" by simp
  then obtain x y zs where r: "rev (ad_position_history det) = x # y # zs"
    by (cases "rev (ad_position_history det)"; cases "tl (rev (ad_position_history det))") auto
  obtain a b c where x: "x = (a, b, c)" by (cases x)
  obtain d e f where y: "y = (d, e, f)" by (cases y)
  show ?thesis
    by (simp add: predict_position_def r x y Let_def)
qed

lemma trajectory_deviation_result:
  "\<exists>ts. detect_trajectory_deviation det now vs = Inr ts \<and>
        list_all (\<lambda>a. anomaly_type a = TRAJECTORY_DEVIATION \<and> mild a) ts"
proof (cases "length (ad_position_history det) < 3")
  case True
  then show ?thesis by (simp add: detect_trajectory_deviation_def)
next
  case False
  then have "2 \<le> length (ad_position_history det)" by simp
  from predict_position_total [OF this] obtain p where p: "predict_position det = Inr p" ..
  obtain la lo where "p = (la, lo)" by (cases p)
  with p False show ?thesis
    by (simp add: detect_trajectory_deviation_def Let_def mild_def)
qed

lemma speed_anomaly_result:
  "list_all (\<lambda>a. anomaly_type a = SPEED_ANOMALY \<and> mild a) (detect_speed_anomaly det now vs)"
  by (simp add: detect_speed_anomaly_def Let_def mild_def th_speed_deviation_def)

lemma degradation_empty:
  "detect_sensor_degradation now empty_snapshot
     = [degradation_anomaly now ''gps'', degradation_anomaly now ''ais'',
        degradation_anomaly now ''radar'']"
  by (simp add: detect_sensor_degradation_def empty_present)

lemma sensor_mismatch_empty: "detect_sensor_mismatch now empty_snapshot = Inr []"
  by (simp add: detect_sensor_mismatch_def empty_snapshot_def)

lemma empty_fused_parts:
  "vessel_state (empty_fused now) = empty_vessel_state now"
  "targets (empty_fused now) = []"
  "fusion_confidence (empty_fused now) = 0"
  by (simp_all add: empty_fused_def)

lemma sudden_maneuver_empty: "detect_sudden_maneuver now (empty_vessel_state now') = []"
  by (simp add: detect_sudden_maneuver_def empty_vessel_state_def th_sudden_maneuver_rot_def)

lemma anomaly_detect_empty:
  "\<exists>ts. anomaly_detect det now (empty_fused now) empty_snapshot
          = (Inr (ts @ detect_sensor_degradation now empty_snapshot),
             update_history det now (empty_vessel_state now)) \<and>
        list_all (\<lambda>a. anomaly_type a \<noteq> SENSOR_DEGRADATION \<and> mild a) ts"
proof -
  let ?det = "update_history det now (empty_vessel_state now)"
  from trajectory_deviation_result [of ?det now "empty_vessel_state now"]
  obtain ts where t: "detect_trajectory_deviation ?det now (empty_vessel_state now) = Inr ts"
    and tl: "list_all (\<lambda>a. anomaly_type a = TRAJECTORY_DEVIATION \<and> mild a) ts" by blast
  let ?ss = "detect_speed_anomaly ?det now (empty_vessel_state now)"
  have sl: "list_all (\<lambda>a. anomaly_type a = SPEED_ANOMALY \<and> mild a) ?ss"
    by (rule speed_anomaly_result)
  have "anomaly_detect det now (empty_fused now) empty_snapshot
      = (Inr ((ts @ ?ss) @ detect_sensor_degradation now empty_snapshot), ?det)"
    by (simp add: anomaly_detect_def Let_def empty_fused_parts t sensor_mismatch_empty
        detect_collision_risk_def sudden_maneuver_empty)
  moreover from tl sl have "list_all (\<lambda>a. anomaly_type a \<noteq> SENSOR_DEGRADATION \<and> mild a) (ts @ ?ss)"
    by (auto simp: list_all_iff)
  ultimately show ?thesis by blast
qed


lemma mild_factors:
  assumes "mild a"
  shows "0 < 1 - severity a * (3 / 10)" "0 < 1 - severity a * (2 / 10)" "0 < sensor_factor a"
  using assms by (simp_all add: mild_def sensor_factor_def)

lemma adjust_step_nonneg:
  assumes m: "mild a"
    and n: "list_all (\<lambda>(k, u). 0 \<le> reliability u) us"
  shows "list_all (\<lambda>(k, u). 0 \<le> reliability u) (adjust_step f us a)"
proof -
  have i: "\<And>u. 0 \<le> reliability u \<Longrightarrow> 0 \<le> reliability (inflate f (severity a) u)"
    using mild_factors(1) [OF m] by (simp add: inflate_def)
  have e: "\<And>k vs. list_all (\<lambda>(k, u). 0 \<le> reliability u) vs \<Longrightarrow>
      list_all (\<lambda>(k, u). 0 \<le> reliability u) (update_entry k (inflate f (severity a)) vs)"
    using i by (fastforce simp: update_entry_def list_all_iff split: if_splits)
  have s: "\<And>vs. list_all (\<lambda>(k, u). 0 \<le> reliability u) vs \<Longrightarrow>
      list_all (\<lambda>(k, u). 0 \<le> reliability u)
        (map (\<lambda>(k, unc). (k, unc\<lparr>reliability := reliability unc * (1 - severity a * (2 / 10))\<rparr>)) vs)"
    using mild_factors(2) [OF m] by (auto simp: list_all_iff)
  let ?kind = "AnomalyType_value (anomaly_type a)"
  let ?u1 = "if str_contains ''position'' ?kind
             then update_entry ''position'' (inflate f (severity a)) us else us"
  let ?u2 = "if str_contains ''speed'' ?kind
             then update_entry ''speed'' (inflate f (severity a)) ?u1 else ?u1"
  have 1: "list_all (\<lambda>(k, u). 0 \<le> reliability u) ?u1"
    using n e [OF n] by (simp only: if_split) blast
  have 2: "list_all (\<lambda>(k, u). 0 \<le> reliability u) ?u2"
    using 1 e [OF 1] by (simp only: if_split) blast
  have 3: "list_all (\<lambda>(k, u). 0 \<le> reliability u)
      (if str_contains ''sensor'' ?kind
       then map (\<lambda>(k, unc).
              (k, unc\<lparr>reliability := reliability unc * (1 - severity a * (2 / 10))\<rparr>)) ?u2
       else ?u2)"
    using 2 s [OF 2] by (simp only: if_split) blast
  then show ?thesis
    by (simp only: adjust_step_def Let_def)
qed

lemma adjust_fold_nonneg:
  "list_all mild as \<Longrightarrow> list_all (\<lambda>(k, u). 0 \<le> reliability u) us \<Longrightarrow>
   list_all (\<lambda>(k, u). 0 \<le> reliability u) (foldl (adjust_step f) us as)"
  by (induction as arbitrary: us) (simp_all add: adjust_step_nonneg)

lemma adjust_step_other:
  assumes "map_of us k = Some q" and "k \<noteq> ''position''" and "k \<noteq> ''speed''"
  shows "map_of (adjust_step f us a) k = Some (q\<lparr>reliability := reliability q * sensor_factor a\<rparr>)"
  using assms
  by (simp add: adjust_step_def Let_def map_of_update_entry map_of_map_values sensor_factor_def)

lemma adjust_fold_other:
  "map_of us k = Some q \<Longrightarrow> k \<noteq> ''position'' \<Longrightarrow> k \<noteq> ''speed'' \<Longrightarrow>
   map_of (foldl (adjust_step f) us as) k
     = Some (q\<lparr>reliability := reliability q * prod_list (map sensor_factor as)\<rparr>)"
proof (induction as arbitrary: us q)
  case Nil
  then show ?case by simp
next
  case (Cons a as)
  from adjust_step_other [OF Cons.prems, of f a]
  have "map_of (foldl (adjust_step f) (adjust_step f us a) as) k
      = Some (q\<lparr>reliability := reliability q * sensor_factor a\<rparr>
               \<lparr>reliability := reliability (q\<lparr>reliability := reliability q * sensor_factor a\<rparr>)
                  * prod_list (map sensor_factor as)\<rparr>)"
    using Cons.prems(2,3) by (intro Cons.IH)
  then show ?case by (simp add: mult.assoc)
qed

lemma sensor_factors_pos: "list_all mild as \<Longrightarrow> 0 < prod_list (map sensor_factor as)"
  by (induction as) (simp_all add: mild_factors)

lemma reliability_sum_pos:
  "list_all (\<lambda>(k, u). 0 \<le> reliability u) us \<Longrightarrow> (k, q) \<in> set us \<Longrightarrow> 0 < reliability q \<Longrightarrow>
   0 < sum_list (map (\<lambda>(k, u). reliability u) us)"
proof (induction us)
  case Nil
  then show ?case by simp
next
  case (Cons e us)
  obtain k' u' where e: "e = (k', u')" by (cases e)
  from Cons.prems(1) e have h: "0 \<le> reliability u'"
    and t: "list_all (\<lambda>(k, u). 0 \<le> reliability u) us" by simp_all
  have tn: "0 \<le> sum_list (map (\<lambda>(k, u). reliability u) us)"
    using t by (induction us) auto
  show ?case
  proof (cases "(k, q) = e")
    case True
    with e Cons.prems(3) tn show ?thesis by simp
  next
    case False
    with Cons.prems(2) have "(k, q) \<in> set us" by simp
    from Cons.IH [OF t this Cons.prems(3)] h e show ?thesis by simp
  qed
qed

lemma adjusted_reliability_sum_pos:
  assumes m: "list_all mild as"
    and n: "list_all (\<lambda>(k, u). 0 \<le> reliability u) us"
    and t: "map_of us ''targets'' = Some q"
    and p: "0 < reliability q"
  shows "0 < sum_list (map (\<lambda>(k, u). reliability u) (adjust_for_anomalies us as))"
proof (cases as)
  case Nil
  with reliability_sum_pos [OF n map_of_SomeD [OF t] p] show ?thesis
    by (simp add: adjust_for_anomalies_def)
next
  case (Cons a rest)
  define f where "f = 1 + foldl max (severity a) (map severity rest)"
  have r: "adjust_for_anomalies us as = foldl (adjust_step f) us as"
    by (simp add: adjust_for_anomalies_def Cons f_def Let_def)
  have n': "list_all (\<lambda>(k, u). 0 \<le> reliability u) (foldl (adjust_step f) us as)"
    by (rule adjust_fold_nonneg [OF m n])
  have t': "map_of (foldl (adjust_step f) us as) ''targets''
      = Some (q\<lparr>reliability := reliability q * prod_list (map sensor_factor as)\<rparr>)"
    by (rule adjust_fold_other [OF t]) simp_all
  have "0 < reliability (q\<lparr>reliability := reliability q * prod_list (map sensor_factor as)\<rparr>)"
    using p sensor_factors_pos [OF m] by simp
  from reliability_sum_pos [OF n' map_of_SomeD [OF t'] this] show ?thesis
    unfolding r .
qed

lemma adjust_step_length: "length (adjust_step f us a) = length us"
  by (simp add: adjust_step_def Let_def update_entry_def)

lemma adjust_fold_length: "length (foldl (adjust_step f) us as) = length us"
  by (induction as arbitrary: us) (simp_all add: adjust_step_length)

lemma adjust_for_anomalies_length: "length (adjust_for_anomalies us as) = length us"
  by (cases as) (simp_all add: adjust_for_anomalies_def Let_def adjust_fold_length
      del: foldl_Cons)


lemma calculate_empty:
  "calculate m (empty_fused now) empty_snapshot anoms
     = Inr (if anoms \<noteq> [] then adjust_for_anomalies (empty_uncertainties m now) anoms
            else empty_uncertainties m now)"
  by (simp add: calculate_def calculate_position_uncertainty_def position_measurements_def
      calculate_speed_uncertainty_def calculate_course_uncertainty_def
      pooled_with_reliability_def empty_present empty_fused_parts empty_vessel_state_def
      empty_uncertainties_def Let_def)

lemma empty_uncertainties_props:
  "list_all (\<lambda>(k, u). 0 \<le> reliability u) (empty_uncertainties m now)"
  "map_of (empty_uncertainties m now) ''targets''
     = Some \<lparr>parameter = ''targets'', mean_value = 0, std_deviation = 0,
             confidence_interval = (0, 0), reliability = 1\<rparr>"
  "length (empty_uncertainties m now) = 8"
  by (simp_all add: empty_uncertainties_def calculate_heading_uncertainty_def
      calculate_target_uncertainty_def calculate_environmental_uncertainty_def
      empty_present empty_fused_parts Let_def)

lemma overall_confidence_empty:
  assumes "list_all mild anoms" and "anoms \<noteq> []"
  shows "0 < calculate_overall_confidence (empty_fused now)
               (adjust_for_anomalies (empty_uncertainties m now) anoms) anoms []"
proof -
  let ?us = "adjust_for_anomalies (empty_uncertainties m now) anoms"
  have len: "length ?us = 8"
    by (simp add: adjust_for_anomalies_length empty_uncertainties_props)
  then have ne: "?us \<noteq> []" by auto
  have pos: "0 < sum_list (map (\<lambda>(k, u). reliability u) ?us)"
    by (rule adjusted_reliability_sum_pos
        [OF assms(1) empty_uncertainties_props(1) empty_uncertainties_props(2)]) simp
  have "calculate_overall_confidence (empty_fused now) ?us anoms []
      = max 0 (min 1 (sum_list (map (\<lambda>(k, u). reliability u) ?us) / 8 / 2))"
    using ne len
    by (simp add: overall_confidence_factored blend_reliability_def spoofing_penalty_of_def
        empty_fused_parts)
  with pos show ?thesis by simp
qed

text \<open>
  C2, as the code has it: whatever the state of the layer, processing the empty snapshot
  succeeds with fusion confidence 0, fused position \<open>(0, 0)\<close>, no targets and exactly three
  sensor-degradation anomalies (gps, ais, radar, each of severity 0.8); the overall
  confidence is strictly above the fusion confidence, because it is averaged with the
  mean reliability of the uncertainties.
\<close>

theorem empty_snapshot_assessment:
  "\<exists>out layer'.
     process_sensor_data layer now processing_time empty_snapshot = (Inr out, layer') \<and>
     fusion_confidence (fused_data out) = 0 \<and>
     latitude (vs_position (vessel_state (fused_data out))) = 0 \<and>
     longitude (vs_position (vessel_state (fused_data out))) = 0 \<and>
     targets (fused_data out) = [] \<and>
     filter (\<lambda>a. anomaly_type a = SENSOR_DEGRADATION) (anomalies out)
       = [degradation_anomaly now ''gps'', degradation_anomaly now ''ais'',
          degradation_anomaly now ''radar''] \<and>
     map severity (filter (\<lambda>a. anomaly_type a = SENSOR_DEGRADATION) (anomalies out))
       = [8 / 10, 8 / 10, 8 / 10] \<and>
     fusion_confidence (fused_data out) < overall_confidence out"
proof -
  from anomaly_detect_empty [of "anomaly_detector layer" now]
  obtain ts where ad: "anomaly_detect (anomaly_detector layer) now (empty_fused now) empty_snapshot
          = (Inr (ts @ detect_sensor_degradation now empty_snapshot),
             update_history (anomaly_detector layer) now (empty_vessel_state now))"
    and tsl: "list_all (\<lambda>a. anomaly_type a \<noteq> SENSOR_DEGRADATION \<and> mild a) ts" by blast
  let ?anoms = "ts @ detect_sensor_degradation now empty_snapshot"
  have ne: "?anoms \<noteq> []" by (simp add: degradation_empty)
  have mild: "list_all mild ?anoms"
    using tsl by (auto simp: list_all_iff degradation_empty degradation_anomaly_def mild_def)
  have flt: "filter (\<lambda>a. anomaly_type a = SENSOR_DEGRADATION) ?anoms
      = [degradation_anomaly now ''gps'', degradation_anomaly now ''ais'',
         degradation_anomaly now ''radar'']"
  proof -
    from tsl have "filter (\<lambda>a. anomaly_type a = SENSOR_DEGRADATION) ts = []"
      by (auto simp: filter_empty_conv list_all_iff)
    then show ?thesis by (simp add: degradation_empty degradation_anomaly_def)
  qed
  let ?us = "adjust_for_anomalies (empty_uncertainties (uncertainty_modeler layer) now) ?anoms"
  have conf: "0 < calculate_overall_confidence (empty_fused now) ?us ?anoms []"
    by (rule overall_confidence_empty [OF mild ne])
  have calc: "calculate (uncertainty_modeler layer) (empty_fused now) empty_snapshot ?anoms = Inr ?us"
    using ne by (simp add: calculate_empty)
  have "\<exists>layer'. process_sensor_data layer now processing_time empty_snapshot
      = (Inr \<lparr>out_timestamp = now,
               fused_data = empty_fused now,
               anomalies = ?anoms,
               uncertainties = ?us,
               spoofing_alerts = [],
               overall_confidence = calculate_overall_confidence (empty_fused now) ?us ?anoms [],
               alerts = generate_alerts now [] ?anoms ?us
                          (calculate_overall_confidence (empty_fused now) ?us ?anoms []),
               out_system_status = system_status layer\<rparr>, layer')"
    by (simp add: process_sensor_data_def fuse_empty spoofing_detect_empty ad calc Let_def)
  then obtain layer' where p: "process_sensor_data layer now processing_time empty_snapshot
      = (Inr \<lparr>out_timestamp = now,
               fused_data = empty_fused now,
               anomalies = ?anoms,
               uncertainties = ?us,
               spoofing_alerts = [],
               overall_confidence = calculate_overall_confidence (empty_fused now) ?us ?anoms [],
               alerts = generate_alerts now [] ?anoms ?us
                          (calculate_overall_confidence (empty_fused now) ?us ?anoms []),
               out_system_status = system_status layer\<rparr>, layer')" ..
  show ?thesis
    apply (rule exI, rule exI)
    apply (rule conjI, rule p)
    using flt conf
    apply (simp add: empty_fused_parts empty_vessel_state_def degradation_anomaly_def)
    done
qed


theorem empty_snapshot_assessment_witness:
  "\<exists>out layer'.
     process_sensor_data SituationAwarenessLayer_init 0 0 empty_snapshot = (Inr out, layer') \<and>
     fusion_confidence (fused_data out) = 0 \<and>
     latitude (vs_position (vessel_state (fused_data out))) = 0 \<and>
     longitude (vs_position (vessel_state (fused_data out))) = 0 \<and>
     targets (fused_data out) = [] \<and>
     filter (\<lambda>a. anomaly_type a = SENSOR_DEGRADATION) (anomalies out)
       = [degradation_anomaly 0 ''gps'', degradation_anomaly 0 ''ais'',
          degradation_anomaly 0 ''radar''] \<and>
     map severity (filter (\<lambda>a. anomaly_type a = SENSOR_DEGRADATION) (anomalies out))
       = [8 / 10, 8 / 10, 8 / 10] \<and>
     fusion_confidence (fused_data out) < overall_confidence out"
  by (rule empty_snapshot_assessment [of SituationAwarenessLayer_init 0 0])

lemma anomaly_detect_fresh:
  "anomaly_detect AnomalyDetector_init now (empty_fused now) empty_snapshot
     = (Inr [degradation_anomaly now ''gps'', degradation_anomaly now ''ais'',
             degradation_anomaly now ''radar''],
        update_history AnomalyDetector_init now (empty_vessel_state now))"
  by (simp add: anomaly_detect_def Let_def empty_fused_parts sensor_mismatch_empty
      detect_collision_risk_def sudden_maneuver_empty degradation_empty
      detect_trajectory_deviation_def detect_speed_anomaly_def update_history_def
      push_bounded_def AnomalyDetector_init_def ad_max_history_def)

lemma degradation_kind:
  "str_contains ''position'' (AnomalyType_value (anomaly_type (degradation_anomaly now s))) = False"
  "str_contains ''speed'' (AnomalyType_value (anomaly_type (degradation_anomaly now s))) = False"
  "str_contains ''sensor'' (AnomalyType_value (anomaly_type (degradation_anomaly now s))) = True"
  "severity (degradation_anomaly now s) = 8 / 10"
  by (simp_all add: degradation_anomaly_def)

lemma adjust_step_degradation:
  "adjust_step f us (degradation_anomaly now s)
     = map (\<lambda>(k, unc). (k, unc\<lparr>reliability := reliability unc * (84 / 100)\<rparr>)) us"
  by (simp add: adjust_step_def Let_def degradation_kind)

lemma fresh_reliabilities:
  "map (\<lambda>(k, u). reliability u)
     (adjust_for_anomalies (empty_uncertainties UncertaintyModeler_init 0)
        [degradation_anomaly 0 ''gps'', degradation_anomaly 0 ''ais'',
         degradation_anomaly 0 ''radar''])
     = [0, 3 / 10 * (84 / 100) * (84 / 100) * (84 / 100),
        3 / 10 * (84 / 100) * (84 / 100) * (84 / 100),
        3 / 10 * (84 / 100) * (84 / 100) * (84 / 100),
        1 * (84 / 100) * (84 / 100) * (84 / 100),
        7 / 10 * (84 / 100) * (84 / 100) * (84 / 100),
        6 / 10 * (84 / 100) * (84 / 100) * (84 / 100),
        8 / 10 * (84 / 100) * (84 / 100) * (84 / 100)]"
  by (simp add: adjust_for_anomalies_def Let_def adjust_step_degradation empty_uncertainties_def
      calculate_heading_uncertainty_def calculate_target_uncertainty_def
      calculate_environmental_uncertainty_def empty_present empty_fused_parts)

lemma fresh_overall:
  "calculate_overall_confidence (empty_fused 0)
     (adjust_for_anomalies (empty_uncertainties UncertaintyModeler_init 0)
        [degradation_anomaly 0 ''gps'', degradation_anomaly 0 ''ais'',
         degradation_anomaly 0 ''radar''])
     [degradation_anomaly 0 ''gps'', degradation_anomaly 0 ''ais'', degradation_anomaly 0 ''radar'']
     [] = 9261 / 62500"
proof -
  let ?D = "[degradation_anomaly 0 ''gps'', degradation_anomaly 0 ''ais'',
             degradation_anomaly 0 ''radar'']"
  let ?us = "adjust_for_anomalies (empty_uncertainties UncertaintyModeler_init 0) ?D"
  have len: "length ?us = 8"
    by (simp add: adjust_for_anomalies_length empty_uncertainties_props)
  then have ne: "?us \<noteq> []" by auto
  have "calculate_overall_confidence (empty_fused 0) ?us ?D []
      = max 0 (min 1 (sum_list (map (\<lambda>(k, u). reliability u) ?us) / 8 / 2))"
    using ne len
    by (simp add: overall_confidence_factored blend_reliability_def spoofing_penalty_of_def
        empty_fused_parts)
  also have "\<dots> = 9261 / 62500"
    by (simp only: fresh_reliabilities) simp
  finally show ?thesis .
qed

lemma process_fresh:
  "fst (process_sensor_data SituationAwarenessLayer_init 0 0 empty_snapshot)
     = Inr \<lparr>out_timestamp = 0,
            fused_data = empty_fused 0,
            anomalies = [degradation_anomaly 0 ''gps'', degradation_anomaly 0 ''ais'',
                         degradation_anomaly 0 ''radar''],
            uncertainties =
              adjust_for_anomalies (empty_uncertainties UncertaintyModeler_init 0)
                [degradation_anomaly 0 ''gps'', degradation_anomaly 0 ''ais'',
                 degradation_anomaly 0 ''radar''],
            spoofing_alerts = [],
            overall_confidence = 9261 / 62500,
            alerts = generate_alerts 0 []
                       [degradation_anomaly 0 ''gps'', degradation_anomaly 0 ''ais'',
                        degradation_anomaly 0 ''radar'']
                       (adjust_for_anomalies (empty_uncertainties UncertaintyModeler_init 0)
                          [degradation_anomaly 0 ''gps'', degradation_anomaly 0 ''ais'',
                           degradation_anomaly 0 ''radar''])
                       (9261 / 62500),
            out_system_status = system_status SituationAwarenessLayer_init\<rparr>"
proof -
  have l: "sensor_fusion SituationAwarenessLayer_init = SensorFusionEngine_init"
    "anomaly_detector SituationAwarenessLayer_init = AnomalyDetector_init"
    "spoofing_detector SituationAwarenessLayer_init = SpoofingDetector_init"
    "uncertainty_modeler SituationAwarenessLayer_init = UncertaintyModeler_init"
    by (simp_all add: SituationAwarenessLayer_init_def)
  show ?thesis
    by (simp add: process_sensor_data_def l fuse_empty spoofing_detect_empty
        anomaly_detect_fresh calculate_empty fresh_overall Let_def)
qed

text \<open>
  C2 as stated fails: on a new layer the empty snapshot has fusion confidence 0 and overall
  confidence 0.148176, which is not at most the fusion confidence.
\<close>

theorem empty_snapshot_confidence_counterexample:
  "\<not> isl (fst (process_sensor_data SituationAwarenessLayer_init 0 0 empty_snapshot)) \<and>
   fusion_confidence (fused_data
     (projr (fst (process_sensor_data SituationAwarenessLayer_init 0 0 empty_snapshot)))) = 0 \<and>
   overall_confidence
     (projr (fst (process_sensor_data SituationAwarenessLayer_init 0 0 empty_snapshot)))
     = 9261 / 62500 \<and>
   \<not> overall_confidence
       (projr (fst (process_sensor_data SituationAwarenessLayer_init 0 0 empty_snapshot)))
     \<le> fusion_confidence (fused_data
         (projr (fst (process_sensor_data SituationAwarenessLayer_init 0 0 empty_snapshot))))"
  by (simp add: process_fresh empty_fused_parts)

end
